(* ===== verification/Prelude.thy ===== *)
theory Prelude
  imports Complex_Main "HOL-Library.Sublist" "HOL-Library.Multiset"
begin

text \<open>
  Shared vocabulary of the development: the exceptions the Python program can raise, the
  result type of a fallible operation, the types of primary keys and timestamps, the
  collections of rewrite rules the component theories add to, and generic lemmas on
  characters, lists and association lists that several components use.
\<close>

named_theorems py_simps
  "evaluation rules for the Python and SQLite builtins of the model"

named_theorems store_simps
  "rewrite rules of the relational store operations"

subsection \<open>Exceptions and results\<close>

text \<open>
  The Python exceptions that the code lets escape. \<open>IntegrityError\<close> carries the
  constraint that failed, \<open>UnexpectedResponse\<close> the message of the Qdrant client;
  \<open>ValueError\<close> is raised by \<open>random.sample\<close> when the sample is larger than the list.
\<close>

datatype error =
    TypeError
  | AttributeError
  | IntegrityError string
  | UnboundLocalError
  | UnexpectedResponse string
  | ValueError

type_synonym 'a result = "error + 'a"

text \<open>SQLite row ids are Python ints; timestamps are abstract clock readings.\<close>

type_synonym pk = int
type_synonym timestamp = nat

text \<open>Setting a key of an association list in place, appending a new key: a Python
  dict assignment \<open>d[k] = v\<close> (insertion order kept) and a Qdrant upsert.\<close>

fun assoc_set :: "'k \<Rightarrow> 'v \<Rightarrow> ('k \<times> 'v) list \<Rightarrow> ('k \<times> 'v) list" where
  "assoc_set k v [] = [(k, v)]"
| "assoc_set k v ((j, w) # ps) = (if k = j then (k, v) # ps else (j, w) # assoc_set k v ps)"

subsection \<open>Characters\<close>

text \<open>
  \<open>char_of\<close> applied to a numeral is decided against a character literal by comparing
  the code points.
\<close>

lemma char_of_eq_literal [py_simps]: "char_of n = c \<longleftrightarrow> take_bit 8 n = of_char c"
  by (rule char_of_eq_iff)

lemma literal_eq_char_of [py_simps]: "c = char_of n \<longleftrightarrow> take_bit 8 n = of_char c"
  by (metis char_of_eq_iff)

subsection \<open>Lists\<close>

lemma filter_all_id: "(\<And>x. x \<in> set xs \<Longrightarrow> P x) \<Longrightarrow> filter P xs = xs"
  by (induction xs) auto

lemma map_all_id: "(\<And>x. x \<in> set xs \<Longrightarrow> f x = x) \<Longrightarrow> map f xs = xs"
  by (induction xs) auto

lemma distinct_map_subset:
  "distinct xs \<Longrightarrow> set xs \<subseteq> set ps \<Longrightarrow> distinct (map f ps) \<Longrightarrow> distinct (map f xs)"
  by (auto simp: distinct_map intro: inj_on_subset)

subsection \<open>Association lists\<close>

lemma map_of_assoc_set [simp]: "map_of (assoc_set k v ps) = (map_of ps)(k \<mapsto> v)"
  by (induction k v ps rule: assoc_set.induct) (auto simp: fun_eq_iff)

lemma keys_assoc_set [simp]: "fst ` set (assoc_set k v ps) = insert k (fst ` set ps)"
  by (induction k v ps rule: assoc_set.induct) auto

lemma distinct_assoc_set:
  "distinct (map fst ps) \<Longrightarrow> distinct (map fst (assoc_set k v ps))"
proof (induction k v ps rule: assoc_set.induct)
  case (2 k v j w ps)
  have "j \<notin> fst ` set (assoc_set k v ps)" if "k \<noteq> j"
    using "2.prems" that by simp
  with 2 show ?case by auto
qed simp

lemma assoc_set_assoc_set [simp]: "assoc_set k v (assoc_set k w ps) = assoc_set k v ps"
  by (induction k w ps rule: assoc_set.induct) auto

lemma assoc_set_present:
  "distinct (map fst ps) \<Longrightarrow> map_of ps k = Some v \<Longrightarrow> assoc_set k v ps = ps"
  by (induction k v ps rule: assoc_set.induct) (auto split: if_splits)

lemma assoc_set_fresh: "k \<notin> fst ` set ps \<Longrightarrow> assoc_set k v ps = ps @ [(k, v)]"
  by (induction k v ps rule: assoc_set.induct) auto


text \<open>Replacing the row with key \<open>i\<close> in place, as an UPDATE of one row does.\<close>

lemma map_key_replace: "k y = i \<Longrightarrow> map k (map (\<lambda>v. if k v = i then y else v) xs) = map k xs"
  by (induction xs) auto

lemma distinct_map_replace:
  assumes "distinct (map k xs)" and "distinct (map f xs)"
    and "f y \<notin> f ` set (filter (\<lambda>v. k v \<noteq> i) xs)"
  shows "distinct (map f (map (\<lambda>v. if k v = i then y else v) xs))"
  using assms
proof (induction xs)
  case Nil
  then show ?case by simp
next
  case (Cons x xs)
  show ?case
  proof (cases "k x = i")
    case True
    with Cons.prems(1) have "\<forall>v\<in>set xs. k v \<noteq> i"
      by (auto simp: image_iff)
    then have "map (\<lambda>v. if k v = i then y else v) xs = xs" and "filter (\<lambda>v. k v \<noteq> i) xs = xs"
      by (simp_all add: map_all_id filter_all_id)
    with True Cons.prems show ?thesis
      by simp
  next
    case False
    with Cons show ?thesis
      by (auto split: if_splits)
  qed
qed


lemma image_key_replace:
  "k y = i \<Longrightarrow> k ` set (map (\<lambda>v. if k v = i then y else v) xs) = k ` set xs"
  by (metis map_key_replace set_map)


lemma find_append_last: "(\<forall>y\<in>set xs. \<not> P y) \<Longrightarrow> P x \<Longrightarrow> find P (xs @ [x]) = Some x"
  by (induction xs) auto

lemma remdups_snoc: "remdups (ys @ [p]) = remdups (filter (\<lambda>x. x \<noteq> p) ys) @ [p]"
  by (induction ys) auto

lemma rev_remdups_rev_snoc:
  "rev (remdups (rev xs @ [p])) = p # rev (remdups (rev (filter (\<lambda>x. x \<noteq> p) xs)))"
  by (simp add: remdups_snoc rev_filter)

lemma mset_remove_nth:
  "i < length xs \<Longrightarrow> mset xs = add_mset (xs ! i) (mset (take i xs @ drop (Suc i) xs))"
  by (metis add_mset_add_single id_take_nth_drop mset.simps(2) mset_append union_mset_add_mset_right)

lemma find_map_replace:
  "find (\<lambda>d. k d = i) xs = Some x \<Longrightarrow> k y = i \<Longrightarrow>
   find (\<lambda>d. k d = i) (map (\<lambda>d. if k d = i then y else d) xs) = Some y"
  by (induction xs) auto

end
