(* ===== verification/Store.thy ===== *)
theory Store
  imports Prelude
begin

text \<open>
  The relational store: the SQLModel tables of \<open>db/sql_models.py\<close> as records and the
  CRUD methods of class \<open>DB\<close> in \<open>db/sql_db.py\<close> that touch only SQLite. A table is a
  list of rows in rowid order (SQLite returns rows of a plain \<open>SELECT\<close> in that order);
  an operation takes the tables and the clock reading \<open>now\<close> (\<open>datetime.now()\<close>) and
  returns its result and the tables after the commit. A failed commit rolls back: the
  tables are unchanged. SQLite does not enforce the foreign keys (the engine never sets
  \<open>PRAGMA foreign_keys\<close>), so only the primary keys and the UNIQUE and NOT NULL
  constraints are checked.
\<close>

subsection \<open>Rows\<close>

record User =
  user_id :: pk
  email :: string
  profile_description :: "string option"
  u_created_at :: timestamp
  u_updated_at :: timestamp

record Category =
  category_id :: pk
  cat_name :: string
  cat_description :: "string option"
  c_created_at :: timestamp
  c_updated_at :: timestamp

record Product =
  product_id :: pk
  p_category_id :: pk
  p_name :: string
  p_description :: "string option"
  price :: real
  stock :: int
  p_created_at :: timestamp
  p_updated_at :: timestamp

text \<open>The value stored in an INTEGER column is whatever Python passed; SQLite keeps a text
  value that is not a number literal as text.\<close>

datatype sql_value = SqlInt int | SqlText string

record SearchHistory =
  search_id :: pk
  sh_user_id :: sql_value
  sh_query :: string
  sh_created_at :: timestamp

record Recommendation =
  recommendation_id :: pk
  r_user_id :: pk
  r_product_id :: pk
  score :: real
  r_created_at :: timestamp

record RecommendationFeedback =
  recommendation_feedback_id :: pk
  fb_recommendation_id :: pk
  fb_user_id :: pk
  rating :: int
  fb_created_at :: timestamp

record Tables =
  users :: "User list"
  categories :: "Category list"
  products :: "Product list"
  search_history :: "SearchHistory list"
  recommendations :: "Recommendation list"
  feedbacks :: "RecommendationFeedback list"

definition empty_tables :: Tables where
  "empty_tables = \<lparr>users = [], categories = [], products = [], search_history = [],
     recommendations = [], feedbacks = []\<rparr>"

subsection \<open>Row ids\<close>

text \<open>A table without AUTOINCREMENT gives a new row the largest rowid plus one, 1 when
  the table is empty.\<close>

definition next_rowid :: "pk list \<Rightarrow> pk" where
  "next_rowid ids = fold max ids 0 + 1"

subsection \<open>Lookups: \<open>select(T).where(T.id == id)\<close> followed by \<open>.first()\<close>\<close>

definition find_user :: "Tables \<Rightarrow> pk \<Rightarrow> User option" where
  "find_user t i = find (\<lambda>u. user_id u = i) (users t)"

definition find_category :: "Tables \<Rightarrow> pk \<Rightarrow> Category option" where
  "find_category t i = find (\<lambda>c. category_id c = i) (categories t)"

definition find_product :: "Tables \<Rightarrow> pk \<Rightarrow> Product option" where
  "find_product t i = find (\<lambda>p. product_id p = i) (products t)"

definition find_recommendation :: "Tables \<Rightarrow> pk \<Rightarrow> Recommendation option" where
  "find_recommendation t i = find (\<lambda>r. recommendation_id r = i) (recommendations t)"

text \<open>\<open>select(SearchHistory.query).where(SearchHistory.user_id == user_id)\<close>, in rowid
  order.\<close>

definition user_search_queries :: "Tables \<Rightarrow> pk \<Rightarrow> string list" where
  "user_search_queries t uid =
     map sh_query (filter (\<lambda>h. sh_user_id h = SqlInt uid) (search_history t))"

text \<open>\<open>DB.get_data\<close>: the table is chosen by its name, an unknown name gives \<open>None\<close>.\<close>

datatype row =
    UserRow User
  | CategoryRow Category
  | ProductRow Product
  | SearchHistoryRow SearchHistory
  | RecommendationRow Recommendation
  | FeedbackRow RecommendationFeedback

definition get_data :: "Tables \<Rightarrow> string \<Rightarrow> pk \<Rightarrow> row option" where
  "get_data t table i =
     (if table = ''User'' then map_option UserRow (find_user t i)
      else if table = ''Category'' then map_option CategoryRow (find_category t i)
      else if table = ''Product'' then map_option ProductRow (find_product t i)
      else if table = ''SearchHistory'' then
        map_option SearchHistoryRow (find (\<lambda>h. search_id h = i) (search_history t))
      else if table = ''Recommendation'' then
        map_option RecommendationRow (find_recommendation t i)
      else if table = ''RecommendationFeedback'' then
        map_option FeedbackRow (find (\<lambda>f. recommendation_feedback_id f = i) (feedbacks t))
      else None)"

subsection \<open>Inserts and updates\<close>

definition record_user ::
  "Tables \<Rightarrow> timestamp \<Rightarrow> string \<Rightarrow> string option \<Rightarrow> unit result \<times> Tables" where
  "record_user t now em profile =
     (if em \<in> email ` set (users t)
      then (Inl (IntegrityError ''UNIQUE constraint failed: user.email''), t)
      else (Inr (), t\<lparr>users := users t @ [\<lparr>user_id = next_rowid (map user_id (users t)),
              email = em, profile_description = profile,
              u_created_at = now, u_updated_at = now\<rparr>]\<rparr>))"

text \<open>\<open>update_user\<close>: an unknown id changes nothing; a given field is overwritten (a
  profile can be replaced but never cleared); the commit fails on a taken e-mail.\<close>

definition update_user ::
  "Tables \<Rightarrow> timestamp \<Rightarrow> pk \<Rightarrow> string option \<Rightarrow> string option \<Rightarrow> unit result \<times> Tables" where
  "update_user t now uid new_email new_profile =
     (case find_user t uid of
        None \<Rightarrow> (Inr (), t)
      | Some u \<Rightarrow>
          (let u' = u\<lparr>email := (case new_email of None \<Rightarrow> email u | Some e \<Rightarrow> e),
                      profile_description :=
                        (case new_profile of None \<Rightarrow> profile_description u | Some d \<Rightarrow> Some d),
                      u_updated_at := now\<rparr>
           in if email u' \<in> email ` set (filter (\<lambda>v. user_id v \<noteq> uid) (users t))
              then (Inl (IntegrityError ''UNIQUE constraint failed: user.email''), t)
              else (Inr (), t\<lparr>users := map (\<lambda>v. if user_id v = uid then u' else v) (users t)\<rparr>)))"

definition record_category ::
  "Tables \<Rightarrow> timestamp \<Rightarrow> string \<Rightarrow> string option \<Rightarrow> unit result \<times> Tables" where
  "record_category t now name descr =
     (if name \<in> cat_name ` set (categories t)
      then (Inl (IntegrityError ''UNIQUE constraint failed: category.name''), t)
      else (Inr (), t\<lparr>categories := categories t @
              [\<lparr>category_id = next_rowid (map category_id (categories t)), cat_name = name,
                cat_description = descr, c_created_at = now, c_updated_at = now\<rparr>]\<rparr>))"

definition update_category ::
  "Tables \<Rightarrow> timestamp \<Rightarrow> pk \<Rightarrow> string option \<Rightarrow> string option \<Rightarrow> unit result \<times> Tables" where
  "update_category t now cid new_name new_descr =
     (case find_category t cid of
        None \<Rightarrow> (Inr (), t)
      | Some c \<Rightarrow>
          (let c' = c\<lparr>cat_name := (case new_name of None \<Rightarrow> cat_name c | Some n \<Rightarrow> n),
                      cat_description :=
                        (case new_descr of None \<Rightarrow> cat_description c | Some d \<Rightarrow> Some d),
                      c_updated_at := now\<rparr>
           in if cat_name c' \<in> cat_name ` set (filter (\<lambda>d. category_id d \<noteq> cid) (categories t))
              then (Inl (IntegrityError ''UNIQUE constraint failed: category.name''), t)
              else (Inr (), t\<lparr>categories :=
                      map (\<lambda>d. if category_id d = cid then c' else d) (categories t)\<rparr>)))"

text \<open>\<open>record_search_history\<close>: a \<open>None\<close> query violates NOT NULL.\<close>

definition record_search_history ::
  "Tables \<Rightarrow> timestamp \<Rightarrow> sql_value \<Rightarrow> string option \<Rightarrow> pk result \<times> Tables" where
  "record_search_history t now uid q =
     (case q of
        None \<Rightarrow> (Inl (IntegrityError ''NOT NULL constraint failed: searchhistory.query''), t)
      | Some s \<Rightarrow>
          (let i = next_rowid (map search_id (search_history t))
           in (Inr i, t\<lparr>search_history := search_history t @
                 [\<lparr>search_id = i, sh_user_id = uid, sh_query = s, sh_created_at = now\<rparr>]\<rparr>)))"

definition record_recommendation ::
  "Tables \<Rightarrow> timestamp \<Rightarrow> pk \<Rightarrow> pk \<Rightarrow> real \<Rightarrow> pk \<times> Tables" where
  "record_recommendation t now uid pid sc =
     (let i = next_rowid (map recommendation_id (recommendations t))
      in (i, t\<lparr>recommendations := recommendations t @
            [\<lparr>recommendation_id = i, r_user_id = uid, r_product_id = pid, score = sc,
              r_created_at = now\<rparr>]\<rparr>))"

text \<open>\<open>record_recommendation_feedback\<close>: the UNIQUE constraint on
  \<open>recommendation_id\<close> makes a second feedback fail; the code catches that
  IntegrityError, rolls back and returns \<open>None\<close>.\<close>

definition record_recommendation_feedback ::
  "Tables \<Rightarrow> timestamp \<Rightarrow> pk \<Rightarrow> pk \<Rightarrow> int \<Rightarrow> pk option \<times> Tables" where
  "record_recommendation_feedback t now rid uid r =
     (if rid \<in> fb_recommendation_id ` set (feedbacks t)
      then (None, t)
      else (let i = next_rowid (map recommendation_feedback_id (feedbacks t))
            in (Some i, t\<lparr>feedbacks := feedbacks t @
                 [\<lparr>recommendation_feedback_id = i, fb_recommendation_id = rid,
                   fb_user_id = uid, rating = r, fb_created_at = now\<rparr>]\<rparr>)))"

text \<open>\<open>summarize_recommendation_feedback_rating\<close>: \<open>GROUP BY rating\<close> with
  \<open>COUNT\<close>, one group per rating present (in rating order), read into a dict; a
  rating no feedback has is no key.\<close>

definition summarize_recommendation_feedback_rating :: "Tables \<Rightarrow> (int \<times> nat) list" where
  "summarize_recommendation_feedback_rating t =
     map (\<lambda>r. (r, length (filter (\<lambda>f. rating f = r) (feedbacks t))))
       (sort (remdups (map rating (feedbacks t))))"

text \<open>What the summary promises: the multiset of the ratings, one \<open>n\<close>-fold copy of
  each key \<open>r\<close> with count \<open>n\<close>.\<close>

definition summary_mset :: "(int \<times> nat) list \<Rightarrow> int multiset" where
  "summary_mset s = sum_list (map (\<lambda>(r, n). replicate_mset n r) s)"

subsection \<open>Row id lemmas\<close>

lemma fold_max_init: "(a::int) \<le> fold max xs a"
proof (induction xs arbitrary: a)
  case Nil then show ?case by simp
next
  case (Cons y ys)
  then show ?case by (metis fold_simps(2) max.cobounded2 order_trans)
qed

lemma fold_max_ge: "x \<in> set xs \<Longrightarrow> x \<le> fold max xs (a::int)"
proof (induction xs arbitrary: a)
  case Nil then show ?case by simp
next
  case (Cons y ys)
  then show ?case by (metis fold_max_init fold_simps(2) max.cobounded1 order_trans set_ConsD)
qed

lemma next_rowid_fresh: "x \<in> set ids \<Longrightarrow> x < next_rowid ids"
  by (simp add: next_rowid_def fold_max_ge add1_zle_eq [symmetric])

lemma next_rowid_notin [simp]: "next_rowid ids \<notin> set ids"
  using next_rowid_fresh by blast

lemma next_rowid_notin_image [simp]: "next_rowid (map f xs) \<notin> f ` set xs"
  using next_rowid_notin [of "map f xs"] by simp

lemma next_rowid_pos: "0 < next_rowid ids"
  using fold_max_init [of 0 ids] by (simp add: next_rowid_def)

subsection \<open>Lookups after writes\<close>

lemma find_history_update [simp]:
  "find_user (t\<lparr>search_history := h\<rparr>) = find_user t"
  "find_category (t\<lparr>search_history := h\<rparr>) = find_category t"
  "find_product (t\<lparr>search_history := h\<rparr>) = find_product t"
  "find_recommendation (t\<lparr>search_history := h\<rparr>) = find_recommendation t"
  by (simp_all add: find_user_def find_category_def find_product_def find_recommendation_def fun_eq_iff)

lemma record_recommendation_result:
  "record_recommendation t now uid pid sc =
     (next_rowid (map recommendation_id (recommendations t)),
      t\<lparr>recommendations := recommendations t @
         [\<lparr>recommendation_id = next_rowid (map recommendation_id (recommendations t)),
           r_user_id = uid, r_product_id = pid, score = sc, r_created_at = now\<rparr>]\<rparr>)"
  by (simp add: record_recommendation_def Let_def)

lemma length_filter_rating:
  "length (filter (\<lambda>f. rating f = r) fs) = count_list (map rating fs) r"
  by (induction fs) auto

lemma summary_mset_count:
  assumes "distinct ys" "set ys = set xs"
  shows "summary_mset (map (\<lambda>r. (r, count_list xs r)) ys) = mset xs"
proof -
  have "summary_mset (map (\<lambda>r. (r, count_list xs r)) ys) =
        (\<Sum>r\<in>set xs. replicate_mset (count (mset xs) r) r)"
    using assms by (simp add: summary_mset_def comp_def sum_list_distinct_conv_sum_set count_mset)
  also have "\<dots> = mset xs"
    by (simp add: multiset_eq_iff count_sum)
  finally show ?thesis .
qed

subsection \<open>Properties\<close>

text \<open>C24: the feedback summary refines the multiset of the stored ratings: read as a
  multiset it is exactly the ratings of the feedback rows, its keys are strictly
  increasing, and no count is zero (a rating no feedback has is no key).\<close>

theorem feedback_summary_refines:
  "summary_mset (summarize_recommendation_feedback_rating t) = mset (map rating (feedbacks t)) \<and>
   sorted_wrt (<) (map fst (summarize_recommendation_feedback_rating t)) \<and>
   0 \<notin> set (map snd (summarize_recommendation_feedback_rating t))"
proof (intro conjI)
  show "summary_mset (summarize_recommendation_feedback_rating t) = mset (map rating (feedbacks t))"
    using summary_mset_count [of "sort (remdups (map rating (feedbacks t)))" "map rating (feedbacks t)"]
    by (simp add: summarize_recommendation_feedback_rating_def length_filter_rating)
  show "sorted_wrt (<) (map fst (summarize_recommendation_feedback_rating t))"
    by (simp add: summarize_recommendation_feedback_rating_def comp_def strict_sorted_iff)
  show "0 \<notin> set (map snd (summarize_recommendation_feedback_rating t))"
    by (auto simp: summarize_recommendation_feedback_rating_def filter_empty_conv)
qed

end
