(* ===== verification/VectorIndex.thy ===== *)
theory VectorIndex
  imports Prelude "HOL-Library.Multiset"
begin

text \<open>
  The vector index: class \<open>QdrantDatabase\<close> of \<open>db/qdrant_db.py\<close>, a handle on one
  named collection of a Qdrant server. The server's state is a map from collection names
  to their points; a collection's points are an association list from point id to
  vector, one point per id, in insertion order, and the server's collections are an
  association list from names to point lists. Vectors are of a type variable \<open>'v\<close>:
  the embedding model is an opaque function into it, and the cosine score the
  collection was created with is a parameter \<open>sim\<close>. The Qdrant client's \<open>search\<close>
  is not code of this repository; \<open>qdrant_search\<close> models its contract (spec 4.2) as
  an exact search: the points scoring at least the threshold, best score first, ties in
  insertion order, at most \<open>k\<close>.
\<close>

type_synonym 'v points = "(pk \<times> 'v) list"

record 'v QdrantDatabase =
  collection_name :: string
  collections :: "(string \<times> 'v points) list"

definition collection_points :: "'v QdrantDatabase \<Rightarrow> 'v points option" where
  "collection_points q = map_of (collections q) (collection_name q)"

text \<open>\<open>create_collection_if_not_exists\<close>: \<open>get_collection\<close> answers "Not found" for a
  missing collection, which is then created empty; an existing one is left alone.\<close>

definition create_collection_if_not_exists :: "'v QdrantDatabase \<Rightarrow> 'v QdrantDatabase" where
  "create_collection_if_not_exists q =
     (case collection_points q of
        Some _ \<Rightarrow> q
      | None \<Rightarrow> q\<lparr>collections := assoc_set (collection_name q) [] (collections q)\<rparr>)"

text \<open>\<open>QdrantDatabase.__init__\<close> on a server state.\<close>

definition init_qdrant :: "string \<Rightarrow> (string \<times> 'v points) list \<Rightarrow> 'v QdrantDatabase" where
  "init_qdrant name server =
     create_collection_if_not_exists \<lparr>collection_name = name, collections = server\<rparr>"

text \<open>\<open>delete_collection\<close> swallows every exception.\<close>

definition delete_collection :: "'v QdrantDatabase \<Rightarrow> 'v QdrantDatabase" where
  "delete_collection q =
     q\<lparr>collections := filter (\<lambda>(n, _). n \<noteq> collection_name q) (collections q)\<rparr>"

definition record_embedding_into_collection ::
  "'v QdrantDatabase \<Rightarrow> pk \<Rightarrow> 'v \<Rightarrow> unit result \<times> 'v QdrantDatabase" where
  "record_embedding_into_collection q i v =
     (case collection_points q of
        None \<Rightarrow> (Inl (UnexpectedResponse ''Not found''), q)
      | Some ps \<Rightarrow>
          (Inr (), q\<lparr>collections := assoc_set (collection_name q) (assoc_set i v ps) (collections q)\<rparr>))"

definition qdrant_search :: "('v \<Rightarrow> 'v \<Rightarrow> real) \<Rightarrow> 'v points \<Rightarrow> 'v \<Rightarrow> nat \<Rightarrow> real \<Rightarrow> pk list" where
  "qdrant_search sim ps qv k th =
     map fst (take k (sort_key (\<lambda>(i, v). - sim qv v) (filter (\<lambda>(i, v). th \<le> sim qv v) ps)))"

text \<open>\<open>search_similar_products\<close>: the ids of the hits, in the order the client returns
  them (\<open>k\<close> defaults to 50 in the code).\<close>

definition search_similar_products ::
  "('v \<Rightarrow> 'v \<Rightarrow> real) \<Rightarrow> 'v QdrantDatabase \<Rightarrow> 'v \<Rightarrow> nat \<Rightarrow> real \<Rightarrow> pk list result" where
  "search_similar_products sim q qv k th =
     (case collection_points q of
        None \<Rightarrow> Inl (UnexpectedResponse ''Not found'')
      | Some ps \<Rightarrow> Inr (qdrant_search sim ps qv k th))"

subsection \<open>The search\<close>

lemma qdrant_search_length: "length (qdrant_search sim ps qv k th) \<le> k"
  by (simp add: qdrant_search_def)

lemma qdrant_search_hit:
  assumes "i \<in> set (qdrant_search sim ps qv k th)"
  shows "\<exists>v. (i, v) \<in> set ps \<and> th \<le> sim qv v"
proof -
  from assms obtain v where "(i, v) \<in> set (take k (sort_key (\<lambda>(i, v). - sim qv v)
      (filter (\<lambda>(i, v). th \<le> sim qv v) ps)))"
    by (auto simp: qdrant_search_def)
  then have "(i, v) \<in> set (filter (\<lambda>(i, v). th \<le> sim qv v) ps)"
    by (metis in_set_takeD set_sort)
  then show ?thesis by auto
qed

lemma qdrant_search_distinct:
  "distinct (map fst ps) \<Longrightarrow> distinct (qdrant_search sim ps qv k th)"
proof -
  assume d: "distinct (map fst ps)"
  let ?f = "filter (\<lambda>(i, v). th \<le> sim qv v) ps"
  have "distinct (map fst ?f)"
    using d by (simp add: distinct_map_filter)
  moreover have "mset (map fst (sort_key (\<lambda>(i, v). - sim qv v) ?f)) = mset (map fst ?f)"
    by simp
  ultimately have "distinct (map fst (sort_key (\<lambda>(i, v). - sim qv v) ?f))"
    using mset_eq_imp_distinct_iff by blast
  then show ?thesis
    by (simp add: qdrant_search_def take_map [symmetric] distinct_take)
qed

lemma qdrant_search_sorted:
  "sorted (map (\<lambda>(i, v). - sim qv v) (take k (sort_key (\<lambda>(i, v). - sim qv v)
     (filter (\<lambda>(i, v). th \<le> sim qv v) ps))))"
  by (metis sorted_sort_key sorted_wrt_take take_map)

lemma collection_points_set [simp]:
  "collection_points (q\<lparr>collections := assoc_set (collection_name q) ps (collections q)\<rparr>) = Some ps"
  by (simp add: collection_points_def)

subsection \<open>Properties\<close>

text \<open>Upserting the same vector under the same id twice leaves the index as one
  upsert does (spec 8, idempotence).\<close>

theorem record_embedding_idempotent:
  "snd (record_embedding_into_collection (snd (record_embedding_into_collection q i v)) i v) =
   snd (record_embedding_into_collection q i v)"
  by (cases "collection_points q") (simp_all add: record_embedding_into_collection_def)

end
