(* ===== verification/PyText.thy ===== *)
theory PyText
  imports Prelude
begin

text \<open>
  The string builtins of Python and SQLite that the program calls, on strings of code
  points below 256 (an Isabelle \<open>char\<close> is read as a Latin-1 code point):
  \<open>str.isspace\<close> (also the class \<open>\s\<close> of the \<open>re\<close> module), \<open>str.split()\<close>,
  \<open>str.lower\<close>, \<open>str.strip\<close>, \<open>str.join\<close>, and the \<open>lower()\<close> of SQLite that
  SQLAlchemy's \<open>ilike\<close> compiles to. Each is defined from the documented behaviour of the
  builtin on that range and carries the lemmas the tokenizer, the search and the
  recommendation resolution need.
\<close>

subsection \<open>Character classes\<close>

text \<open>\<open>str.isspace\<close> below 256: tab to carriage return, the four separators
  0x1C to 0x1F, space, NEL and the no-break space.\<close>

definition py_isspace :: "char \<Rightarrow> bool" where
  "py_isspace c \<longleftrightarrow>
     of_char c \<in> ({9, 10, 11, 12, 13, 28, 29, 30, 31, 32, 133, 160} :: nat set)"

text \<open>The class \<open>[A-Za-z0-9]\<close> of the tokenizer's regular expression.\<close>

definition is_ascii_alnum :: "char \<Rightarrow> bool" where
  "is_ascii_alnum c \<longleftrightarrow>
     (let n = (of_char c :: nat)
      in (48 \<le> n \<and> n \<le> 57) \<or> (65 \<le> n \<and> n \<le> 90) \<or> (97 \<le> n \<and> n \<le> 122))"

text \<open>The characters below 256 that \<open>str.lower\<close> changes: \<open>A\<close>-\<open>Z\<close> and the
  Latin-1 capitals 0xC0-0xDE except the multiplication sign 0xD7; each maps to the code
  point 32 above it.\<close>

definition py_is_upper :: "char \<Rightarrow> bool" where
  "py_is_upper c \<longleftrightarrow>
     (let n = (of_char c :: nat)
      in (65 \<le> n \<and> n \<le> 90) \<or> (192 \<le> n \<and> n \<le> 222 \<and> n \<noteq> 215))"

definition py_lower_char :: "char \<Rightarrow> char" where
  "py_lower_char c = (if py_is_upper c then char_of (of_char c + (32::nat)) else c)"

definition py_lower :: "string \<Rightarrow> string" where
  "py_lower s = map py_lower_char s"

text \<open>SQLite's built-in \<open>lower()\<close> folds ASCII letters only.\<close>

definition sqlite_lower_char :: "char \<Rightarrow> char" where
  "sqlite_lower_char c =
     (let n = (of_char c :: nat) in if 65 \<le> n \<and> n \<le> 90 then char_of (n + 32) else c)"

definition sqlite_lower :: "string \<Rightarrow> string" where
  "sqlite_lower s = map sqlite_lower_char s"

subsection \<open>Splitting, stripping, joining\<close>

text \<open>\<open>str.split()\<close> without a separator: runs of whitespace separate the words,
  leading and trailing whitespace gives no empty word. \<open>cur\<close> is the word being read,
  reversed.\<close>

fun split_acc :: "string \<Rightarrow> string \<Rightarrow> string list" where
  "split_acc cur [] = (if cur = [] then [] else [rev cur])"
| "split_acc cur (c # cs) =
     (if py_isspace c
      then (if cur = [] then split_acc [] cs else rev cur # split_acc [] cs)
      else split_acc (c # cur) cs)"

definition py_split :: "string \<Rightarrow> string list" where
  "py_split s = split_acc [] s"

definition py_strip :: "string \<Rightarrow> string" where
  "py_strip s = rev (dropWhile py_isspace (rev (dropWhile py_isspace s)))"

text \<open>\<open>sep.join(words)\<close>.\<close>

fun py_join :: "string \<Rightarrow> string list \<Rightarrow> string" where
  "py_join sep [] = []"
| "py_join sep [w] = w"
| "py_join sep (w # v # ws) = w @ sep @ py_join sep (v # ws)"

text \<open>\<open>column.ilike('%kw%')\<close> on SQLite: \<open>lower(column) LIKE lower('%kw%')\<close>. For a
  pattern with no \<open>%\<close> or \<open>_\<close> inside \<open>kw\<close> this is containment after ASCII case
  folding (LIKE itself folds ASCII case too). A NULL column makes the test NULL, which a
  WHERE clause treats as false.\<close>

definition ilike_contains :: "string option \<Rightarrow> string \<Rightarrow> bool" where
  "ilike_contains col kw =
     (case col of None \<Rightarrow> False | Some s \<Rightarrow> sublist (sqlite_lower kw) (sqlite_lower s))"

text \<open>An f-string field of type \<open>Optional[str]\<close>: \<open>None\<close> prints as \<open>None\<close>.\<close>

definition py_fstr :: "string option \<Rightarrow> string" where
  "py_fstr s = (case s of None \<Rightarrow> ''None'' | Some x \<Rightarrow> x)"

subsection \<open>\<open>repr\<close> of the values a prompt embeds\<close>

text \<open>\<open>str.isprintable\<close> below 256: 0x20-0x7E and 0xA1-0xFF except the soft hyphen
  0xAD.\<close>

definition py_printable :: "char \<Rightarrow> bool" where
  "py_printable c \<longleftrightarrow>
     (let n = (of_char c :: nat) in (32 \<le> n \<and> n \<le> 126) \<or> (161 \<le> n \<and> n \<noteq> 173))"

definition hex_digit :: "nat \<Rightarrow> char" where
  "hex_digit n = char_of (if n < 10 then 48 + n else 87 + n)"

text \<open>One character of \<open>repr(s)\<close> quoted with \<open>q\<close>: backslash and the quote are
  escaped, tab, newline and carriage return by letter, other unprintable characters as
  \<open>\xhh\<close>.\<close>

definition py_repr_char :: "char \<Rightarrow> char \<Rightarrow> string" where
  "py_repr_char q c =
     (if c = CHR 0x5C then [CHR 0x5C, CHR 0x5C]
      else if c = q then [CHR 0x5C, q]
      else if c = CHR 0x09 then [CHR 0x5C, CHR ''t'']
      else if c = CHR 0x0A then [CHR 0x5C, CHR ''n'']
      else if c = CHR 0x0D then [CHR 0x5C, CHR ''r'']
      else if py_printable c then [c]
      else [CHR 0x5C, CHR ''x'', hex_digit (of_char c div 16), hex_digit (of_char c mod 16)])"

text \<open>\<open>repr(s)\<close>: single quotes unless the text has a single and no double quote.\<close>

definition py_repr_str :: "string \<Rightarrow> string" where
  "py_repr_str s =
     (let q = (if CHR 0x27 \<in> set s \<and> CHR 0x22 \<notin> set s then CHR 0x22 else CHR 0x27)
      in q # concat (map (py_repr_char q) s) @ [q])"

fun nat_str :: "nat \<Rightarrow> string" where
  "nat_str n = (if n < 10 then [char_of (48 + n)] else nat_str (n div 10) @ [char_of (48 + n mod 10)])"

definition py_int_str :: "int \<Rightarrow> string" where
  "py_int_str i = (if i < 0 then CHR ''-'' # nat_str (nat (- i)) else nat_str (nat i))"

text \<open>A dict built by a comprehension over key-value pairs, and its \<open>repr\<close>
  \<open>{k: 'v', ...}\<close>; a list of strings and its \<open>repr\<close> \<open>['a', ...]\<close>.\<close>

definition py_dict :: "('k \<times> 'v) list \<Rightarrow> ('k \<times> 'v) list" where
  "py_dict kvs = fold (\<lambda>(k, v) d. assoc_set k v d) kvs []"

definition py_repr_dict :: "(int \<times> string) list \<Rightarrow> string" where
  "py_repr_dict kvs =
     ''{'' @ py_join '', '' (map (\<lambda>(k, v). py_int_str k @ '': '' @ py_repr_str v) kvs) @ ''}''"

definition py_repr_list :: "string list \<Rightarrow> string" where
  "py_repr_list xs = ''['' @ py_join '', '' (map py_repr_str xs) @ '']''"

subsection \<open>Lemmas\<close>

lemma py_fstr_simps [simp]: "py_fstr None = ''None''" "py_fstr (Some x) = x"
  by (simp_all add: py_fstr_def)

lemma py_lower_char_idem [simp]: "py_lower_char (py_lower_char c) = py_lower_char c"
  by (auto simp: py_lower_char_def py_is_upper_def Let_def)

lemma py_lower_char_not_upper [simp]: "\<not> py_is_upper (py_lower_char c)"
  by (auto simp: py_lower_char_def py_is_upper_def Let_def)

lemma py_lower_char_alnum [simp]: "is_ascii_alnum (py_lower_char c) \<longleftrightarrow> is_ascii_alnum c"
  by (auto simp: py_lower_char_def py_is_upper_def is_ascii_alnum_def Let_def)

lemma py_lower_char_space [simp]: "py_isspace (py_lower_char c) \<longleftrightarrow> py_isspace c"
  by (auto simp: py_lower_char_def py_is_upper_def py_isspace_def Let_def)

lemma py_lower_char_id: "\<not> py_is_upper c \<Longrightarrow> py_lower_char c = c"
  by (simp add: py_lower_char_def)

lemma py_lower_id: "(\<And>c. c \<in> set s \<Longrightarrow> \<not> py_is_upper c) \<Longrightarrow> py_lower s = s"
  by (simp add: py_lower_def py_lower_char_id map_all_id)

lemma alnum_not_space: "is_ascii_alnum c \<Longrightarrow> \<not> py_isspace c"
  by (auto simp: is_ascii_alnum_def py_isspace_def Let_def)

lemma space_char [simp]: "py_isspace (CHR '' '')"
  by (simp add: py_isspace_def)

lemma split_acc_word:
  "(\<And>c. c \<in> set w \<Longrightarrow> \<not> py_isspace c) \<Longrightarrow> split_acc cur (w @ rest) = split_acc (rev w @ cur) rest"
  by (induction w arbitrary: cur) auto

lemma split_acc_words:
  assumes "w \<in> set (split_acc cur s)" and "\<And>c. c \<in> set cur \<Longrightarrow> \<not> py_isspace c"
  shows "w \<noteq> [] \<and> set w \<subseteq> set cur \<union> set s \<and> (\<forall>c\<in>set w. \<not> py_isspace c)"
  using assms
proof (induction cur s rule: split_acc.induct)
  case (1 cur)
  then show ?case by (auto split: if_splits)
next
  case (2 cur c cs)
  show ?case
  proof (cases "py_isspace c")
    case True
    with "2.prems" "2.IH"(1,2) show ?thesis by (fastforce split: if_splits)
  next
    case False
    with "2.prems" "2.IH"(3) show ?thesis by fastforce
  qed
qed

lemma py_split_words:
  "w \<in> set (py_split s) \<Longrightarrow> w \<noteq> [] \<and> set w \<subseteq> set s \<and> (\<forall>c\<in>set w. \<not> py_isspace c)"
  using split_acc_words [of w "[]" s] by (simp add: py_split_def)

lemma py_split_join:
  assumes "\<And>w. w \<in> set ws \<Longrightarrow> w \<noteq> [] \<and> (\<forall>c\<in>set w. \<not> py_isspace c)"
  shows "py_split (py_join '' '' ws) = ws"
  using assms
proof (induction "'' ''" ws rule: py_join.induct)
  case 1
  then show ?case by (simp add: py_split_def)
next
  case (2 w)
  then show ?case by (simp add: py_split_def split_acc_word [where rest = "[]", simplified])
next
  case (3 w v ws)
  then have "w \<noteq> []" and "\<forall>c\<in>set w. \<not> py_isspace c"
    by auto
  then have "split_acc [] (w @ CHR '' '' # py_join '' '' (v # ws)) = w # py_split (py_join '' '' (v # ws))"
    by (simp add: split_acc_word py_split_def)
  moreover have "py_split (py_join '' '' (v # ws)) = v # ws"
    using "3.prems" by (intro "3.hyps") auto
  ultimately show ?case by (simp add: py_split_def)
qed

lemma set_py_join: "set (py_join sep ws) \<subseteq> set sep \<union> \<Union> (set ` set ws)"
  by (induction sep ws rule: py_join.induct) auto

end
