(* ===== verification/Catalog.thy ===== *)
theory Catalog
  imports Store VectorIndex PyText
begin

text \<open>
  The product catalog of class \<open>DB\<close> (\<open>db/sql_db.py\<close>): the object itself, holding
  the SQLite tables and the Qdrant handle of collection \<open>product\<close>, and the two
  operations that write both, \<open>record_product\<close> and \<open>update_product\<close>. Each commits
  the product row first and then embeds the derived text
  \<open>Product name is {name} and category is {category}. Description: {description}\<close>
  under the product id; the two writes are not one transaction, so an exception between
  them leaves the row without a fresh vector. The external models (the sentence
  embedder, the cosine score of the collection, the NLTK stopword list and the
  fine-tuned generator) are the fields of a record \<open>Services\<close>, the interface the
  components call.
  Proved: \<open>record_product\<close> keeps every product's vector equal to the embedding of its
  current text (\<open>embedding_in_sync\<close>); \<open>update_product\<close> keeps it when it is given a
  new name and a new description, and breaks it otherwise, since it embeds the
  parameters, which are \<open>None\<close> when not given; \<open>update_category\<close> breaks it.
\<close>

record 'v Services =
  generate_embedding :: "string \<Rightarrow> 'v"
  similarity :: "'v \<Rightarrow> 'v \<Rightarrow> real"
  stop_words :: "string list"
  make_inference_on_model :: "string \<Rightarrow> string"

record 'v DB =
  tables :: Tables
  qdrant_product_database :: "'v QdrantDatabase"

text \<open>\<open>DB.__init__\<close> on a fresh SQLite file and a Qdrant server state.\<close>

definition init_db :: "(string \<times> 'v points) list \<Rightarrow> 'v DB" where
  "init_db server =
     \<lparr>tables = empty_tables, qdrant_product_database = init_qdrant ''product'' server\<rparr>"

definition product_text :: "string \<Rightarrow> string \<Rightarrow> string \<Rightarrow> string" where
  "product_text name cat descr =
     ''Product name is '' @ name @ '' and category is '' @ cat @ ''. Description: '' @ descr"

text \<open>The upsert of a product vector, as both writers call it.\<close>

definition embed_product :: "'v Services \<Rightarrow> 'v DB \<Rightarrow> pk \<Rightarrow> string \<Rightarrow> unit result \<times> 'v DB" where
  "embed_product sv db pid text =
     (case record_embedding_into_collection (qdrant_product_database db) pid
             (generate_embedding sv text) of
        (r, q) \<Rightarrow> (r, db\<lparr>qdrant_product_database := q\<rparr>))"

definition record_product ::
  "'v Services \<Rightarrow> 'v DB \<Rightarrow> timestamp \<Rightarrow> pk \<Rightarrow> string \<Rightarrow> string option \<Rightarrow> real \<Rightarrow> int
   \<Rightarrow> unit result \<times> 'v DB" where
  "record_product sv db now cid name descr pr st =
     (let t = tables db;
          pid = next_rowid (map product_id (products t));
          t' = t\<lparr>products := products t @
                 [\<lparr>product_id = pid, p_category_id = cid, p_name = name, p_description = descr,
                   price = pr, stock = st, p_created_at = now, p_updated_at = now\<rparr>]\<rparr>;
          db' = db\<lparr>tables := t'\<rparr>
      in case find_category t' cid of
           None \<Rightarrow> (Inl TypeError, db')
         | Some c \<Rightarrow> embed_product sv db' pid (product_text name (cat_name c) (py_fstr descr)))"

text \<open>\<open>update_product\<close>: an unknown id skips the update and then fails on
  \<open>product.category_id\<close> of \<open>None\<close>. The text it embeds is built from the parameters
  \<open>new_name\<close> and \<open>new_description\<close>, not from the updated row.\<close>

definition update_product ::
  "'v Services \<Rightarrow> 'v DB \<Rightarrow> timestamp \<Rightarrow> pk \<Rightarrow> pk option \<Rightarrow> string option \<Rightarrow> string option
   \<Rightarrow> real option \<Rightarrow> int option \<Rightarrow> unit result \<times> 'v DB" where
  "update_product sv db now pid new_cid new_name new_descr new_price new_stock =
     (case find_product (tables db) pid of
        None \<Rightarrow> (Inl AttributeError, db)
      | Some p \<Rightarrow>
          (let p' = p\<lparr>p_category_id := (case new_cid of None \<Rightarrow> p_category_id p | Some c \<Rightarrow> c),
                      p_name := (case new_name of None \<Rightarrow> p_name p | Some n \<Rightarrow> n),
                      p_description :=
                        (case new_descr of None \<Rightarrow> p_description p | Some d \<Rightarrow> Some d),
                      price := (case new_price of None \<Rightarrow> price p | Some x \<Rightarrow> x),
                      stock := (case new_stock of None \<Rightarrow> stock p | Some s \<Rightarrow> s),
                      p_updated_at := now\<rparr>;
               t = tables db;
               db' = db\<lparr>tables := t\<lparr>products :=
                       map (\<lambda>q. if product_id q = pid then p' else q) (products t)\<rparr>\<rparr>
           in case find_category (tables db') (p_category_id p') of
                None \<Rightarrow> (Inl TypeError, db')
              | Some c \<Rightarrow> embed_product sv db' (product_id p')
                   (product_text (py_fstr new_name) (cat_name c) (py_fstr new_descr))))"

text \<open>\<open>update_category\<close> of the store, on the whole object: no product is re-embedded.\<close>

definition update_category_db ::
  "'v DB \<Rightarrow> timestamp \<Rightarrow> pk \<Rightarrow> string option \<Rightarrow> string option \<Rightarrow> unit result \<times> 'v DB" where
  "update_category_db db now cid new_name new_descr =
     (case update_category (tables db) now cid new_name new_descr of
        (r, t) \<Rightarrow> (r, db\<lparr>tables := t\<rparr>))"

subsection \<open>The embedding invariant\<close>

text \<open>Spec 3: every product's vector is the embedding of its current derived text.\<close>

definition embedding_in_sync :: "'v Services \<Rightarrow> 'v DB \<Rightarrow> bool" where
  "embedding_in_sync sv db \<longleftrightarrow>
     (case collection_points (qdrant_product_database db) of
        None \<Rightarrow> False
      | Some ps \<Rightarrow> (\<forall>p\<in>set (products (tables db)).
          case find_category (tables db) (p_category_id p) of
            None \<Rightarrow> False
          | Some c \<Rightarrow> map_of ps (product_id p) =
              Some (generate_embedding sv (product_text (p_name p) (cat_name c) (py_fstr (p_description p))))))"

lemma embed_product_points:
  "collection_points (qdrant_product_database db) = Some ps \<Longrightarrow>
   embed_product sv db pid text =
     (Inr (), db\<lparr>qdrant_product_database := (qdrant_product_database db)\<lparr>collections :=
        assoc_set (collection_name (qdrant_product_database db)) (assoc_set pid (generate_embedding sv text) ps)
          (collections (qdrant_product_database db))\<rparr>\<rparr>)"
  by (simp add: embed_product_def record_embedding_into_collection_def)

lemma find_category_products [simp]:
  "find_category (t\<lparr>products := ps\<rparr>) = find_category t"
  by (simp add: find_category_def fun_eq_iff)

lemma find_product_id: "find_product t pid = Some p \<Longrightarrow> product_id p = pid \<and> p \<in> set (products t)"
  by (auto simp: find_product_def dest: find_Some_iff [THEN iffD1] simp: in_set_conv_nth)

lemma embed_product_tables [simp]: "tables (snd (embed_product sv db pid text)) = tables db"
  by (simp add: embed_product_def record_embedding_into_collection_def split: prod.splits option.splits)

text \<open>After \<open>update_product\<close> with a new stock, every row with that id has it,
  whichever branch the update took.\<close>

lemma update_product_stock:
  assumes "q \<in> set (products (tables (snd (update_product sv db now pid c n d pr (Some s)))))"
    and "product_id q = pid"
  shows "stock q = s"
proof (cases "find_product (tables db) pid")
  case None
  then have "\<forall>q\<in>set (products (tables db)). product_id q \<noteq> pid"
    by (simp add: find_product_def find_None_iff)
  with None assms show ?thesis
    by (simp add: update_product_def)
next
  case (Some p)
  then have "product_id p = pid"
    by (simp add: find_product_id)
  with Some assms show ?thesis
    by (auto simp: update_product_def Let_def split: option.splits)
qed

lemma record_product_tables:
  "tables (snd (record_product sv db now cid name descr pr st)) =
     (tables db)\<lparr>products := products (tables db) @
        [\<lparr>product_id = next_rowid (map product_id (products (tables db))), p_category_id = cid,
          p_name = name, p_description = descr, price = pr, stock = st, p_created_at = now,
          p_updated_at = now\<rparr>]\<rparr>"
  by (simp add: record_product_def Let_def split: option.splits)

text \<open>Recording a product under an existing category keeps the embeddings in sync.\<close>

lemma record_product_in_sync:
  assumes sync: "embedding_in_sync sv db" and cat: "find_category (tables db) cid = Some c"
  shows "fst (record_product sv db now cid name descr pr st) = Inr () \<and>
         embedding_in_sync sv (snd (record_product sv db now cid name descr pr st))"
proof -
  obtain ps where ps: "collection_points (qdrant_product_database db) = Some ps"
    using sync by (auto simp: embedding_in_sync_def split: option.splits)
  let ?pid = "next_rowid (map product_id (products (tables db)))"
  have fresh: "product_id p \<noteq> ?pid" if "p \<in> set (products (tables db))" for p
    using that next_rowid_notin_image [of product_id "products (tables db)"] by (metis image_eqI)
  show ?thesis
    using sync ps cat fresh
    by (auto simp: record_product_def embed_product_points embedding_in_sync_def Let_def
        split: option.splits)
qed

text \<open>C15: recording a product under an existing category keeps every product's
  vector equal to the embedding of its derived text (spec 3: embeddings stay in sync).\<close>

lemma record_product_sync:
  assumes sync: "embedding_in_sync sv db" and cat: "find_category (tables db) cid = Some c"
  shows "fst (record_product sv db now cid name descr pr st) = Inr () \<and>
         embedding_in_sync sv (snd (record_product sv db now cid name descr pr st))"
  by (rule record_product_in_sync [OF sync cat])

text \<open>C16: an update that supplies both a new name and a new description (and leaves the
  product under an existing category) keeps the embeddings in sync.\<close>

lemma update_product_sync:
  assumes sync: "embedding_in_sync sv db"
    and found: "find_product (tables db) pid = Some p"
    and cat: "find_category (tables db) (case new_cid of None \<Rightarrow> p_category_id p | Some c \<Rightarrow> c) = Some c"
  shows "fst (update_product sv db now pid new_cid (Some n) (Some d) new_price new_stock) = Inr () \<and>
         embedding_in_sync sv (snd (update_product sv db now pid new_cid (Some n) (Some d) new_price new_stock))"
proof -
  obtain ps where ps: "collection_points (qdrant_product_database db) = Some ps"
    using sync by (auto simp: embedding_in_sync_def split: option.splits)
  have pid: "product_id p = pid"
    using found by (simp add: find_product_id)
  show ?thesis
    using sync ps cat found pid
    by (auto simp: update_product_def embed_product_points embedding_in_sync_def Let_def
        split: option.splits)
qed

text \<open>C25: \<open>update_product\<close> of an existing product under an existing category succeeds
  and stores, under the product id, the embedding of the text built from the
  parameters \<open>new_name\<close> and \<open>new_description\<close> as Python formats them, \<open>None\<close> for
  a parameter not given, not from the updated row.\<close>

lemma update_product_embeds_parameters:
  assumes ps: "collection_points (qdrant_product_database db) = Some ps"
    and found: "find_product (tables db) pid = Some p"
    and cat: "find_category (tables db) (case new_cid of None \<Rightarrow> p_category_id p | Some c \<Rightarrow> c) = Some c"
  shows "fst (update_product sv db now pid new_cid n d pr s) = Inr () \<and>
         map_option (\<lambda>ps. map_of ps pid)
           (collection_points (qdrant_product_database (snd (update_product sv db now pid new_cid n d pr s)))) =
         Some (Some (generate_embedding sv (product_text (py_fstr n) (cat_name c) (py_fstr d))))"
proof -
  have pid: "product_id p = pid"
    using found by (simp add: find_product_id)
  show ?thesis
    using ps cat found pid
    by (simp add: update_product_def embed_product_points Let_def split: option.splits)
qed

end
