(* ===== verification/Tokenizer.thy ===== *)
theory Tokenizer
  imports PyText
begin

text \<open>
  \<open>db/tokenizer.py\<close>, class \<open>TextTokenizer\<close>: \<open>clean_text\<close> removes every character
  outside \<open>[A-Za-z0-9\s]\<close>, splits on whitespace, lower-cases and drops the stopwords.
  The stopword list is NLTK's English list, data the code downloads at start-up; it is a
  parameter \<open>stop_words\<close> here, so every theorem holds for any list.
  Proved: every token is a non-empty lower-case ASCII word that is not a stopword, has
  no LIKE wildcard, and re-tokenising the joined tokens gives them back.
\<close>

definition keep_char :: "char \<Rightarrow> bool" where
  "keep_char c \<longleftrightarrow> is_ascii_alnum c \<or> py_isspace c"

definition clean_text :: "string list \<Rightarrow> string \<Rightarrow> string list" where
  "clean_text stop_words query =
     (let cleaned_query = filter keep_char query;
          words = py_split cleaned_query;
          words = map py_lower words
      in filter (\<lambda>word. word \<notin> set stop_words) words)"

text \<open>A token as \<open>clean_text\<close> produces it.\<close>

definition is_token :: "string list \<Rightarrow> string \<Rightarrow> bool" where
  "is_token stop_words w \<longleftrightarrow>
     w \<noteq> [] \<and> (\<forall>c\<in>set w. is_ascii_alnum c \<and> \<not> py_is_upper c) \<and> w \<notin> set stop_words"

lemma clean_text_token:
  assumes "w \<in> set (clean_text stop_words query)"
  shows "is_token stop_words w"
proof -
  from assms obtain v where v: "v \<in> set (py_split (filter keep_char query))"
    and w: "w = py_lower v" and sw: "w \<notin> set stop_words"
    by (auto simp: clean_text_def Let_def)
  from py_split_words [OF v] have "v \<noteq> []" and "set v \<subseteq> set (filter keep_char query)"
    and "\<forall>c\<in>set v. \<not> py_isspace c"
    by auto
  then have "\<forall>c\<in>set v. is_ascii_alnum c"
    by (auto simp: keep_char_def)
  with \<open>v \<noteq> []\<close> w sw show ?thesis
    by (auto simp: is_token_def py_lower_def)
qed

lemma token_no_space: "is_token stop_words w \<Longrightarrow> c \<in> set w \<Longrightarrow> \<not> py_isspace c"
  by (auto simp: is_token_def dest: alnum_not_space)

text \<open>Re-tokenising: a list of tokens joined by spaces is its own tokenisation.\<close>

lemma clean_text_of_tokens:
  assumes "\<And>w. w \<in> set ws \<Longrightarrow> is_token stop_words w"
  shows "clean_text stop_words (py_join '' '' ws) = ws"
proof -
  have keep: "filter keep_char (py_join '' '' ws) = py_join '' '' ws"
  proof (rule filter_all_id)
    fix c assume "c \<in> set (py_join '' '' ws)"
    with set_py_join [of "'' ''" ws] assms show "keep_char c"
      by (fastforce simp: keep_char_def is_token_def)
  qed
  have split: "py_split (py_join '' '' ws) = ws"
    using assms by (intro py_split_join) (fastforce simp: is_token_def dest: alnum_not_space)
  have lower: "map py_lower ws = ws"
    using assms by (intro map_all_id py_lower_id) (auto simp: is_token_def)
  have "filter (\<lambda>word. word \<notin> set stop_words) ws = ws"
    using assms by (intro filter_all_id) (auto simp: is_token_def)
  with keep split lower show ?thesis
    by (simp add: clean_text_def)
qed

subsection \<open>Properties\<close>

text \<open>C17: every token of \<open>clean_text\<close> is a non-empty word of lower-case ASCII letters
  and digits that is not a stopword; in particular it holds no LIKE wildcard, so the
  pattern \<open>%token%\<close> of the keyword search is a plain containment test.\<close>

theorem clean_text_tokens_wellformed:
  "\<forall>w\<in>set (clean_text stop_words query). is_token stop_words w \<and>
     CHR ''%'' \<notin> set w \<and> CHR ''_'' \<notin> set w"
proof
  fix w assume "w \<in> set (clean_text stop_words query)"
  then have tok: "is_token stop_words w"
    by (rule clean_text_token)
  moreover have "\<not> is_ascii_alnum (CHR ''%'')" and "\<not> is_ascii_alnum (CHR ''_'')"
    by (simp_all add: is_ascii_alnum_def)
  ultimately show "is_token stop_words w \<and> CHR ''%'' \<notin> set w \<and> CHR ''_'' \<notin> set w"
    by (auto simp: is_token_def)
qed

text \<open>C18: tokenisation is idempotent: joining the tokens of a query with spaces and
  tokenising again gives the same tokens.\<close>

theorem clean_text_idempotent:
  "clean_text stop_words (py_join '' '' (clean_text stop_words query)) = clean_text stop_words query"
  by (rule clean_text_of_tokens) (rule clean_text_token)

end
