(* ===== verification/Search.thy ===== *)
theory Search
  imports Catalog Tokenizer
begin

text \<open>
  The hybrid product search, \<open>DB.search_product\<close> in \<open>db/sql_db.py\<close>. In order:
  when a user id is given, the raw keyword text is appended to the search history; the
  keyword path tokenises the text and selects, in rowid order, the products whose name or
  description contains any token (ASCII case-insensitively), within the price bounds and
  with \<open>stock > 0\<close>, or \<open>stock > min_stock\<close> when a bound is given; the vector path,
  when enabled, embeds the raw text, asks the index for at most 50 ids scoring at least
  the threshold, reads those products (in rowid order, not score order) and appends each
  one that passes its own stock test and the price bounds and is not yet in the result.
  The vector path's stock test differs from the keyword path's: with a non-zero
  \<open>min_stock\<close> it asks \<open>stock >= min_stock and stock > 0\<close>; with \<open>min_stock = 0\<close>
  (falsy in Python) it asks \<open>stock > 0\<close>.
  Proved: every result is a stored product within the price bounds that meets the
  weakest common stock bound; no result is repeated; the keyword results come first and
  in table order; exactly one history row is appended for a search by a user.
\<close>

subsection \<open>Filters\<close>

definition keyword_match :: "string list \<Rightarrow> Product \<Rightarrow> bool" where
  "keyword_match tokens p \<longleftrightarrow>
     tokens = [] \<or>
     (\<exists>kw\<in>set tokens. ilike_contains (Some (p_name p)) kw \<or> ilike_contains (p_description p) kw)"

definition price_ok :: "real option \<Rightarrow> real option \<Rightarrow> Product \<Rightarrow> bool" where
  "price_ok min_price max_price p \<longleftrightarrow>
     (case min_price of None \<Rightarrow> True | Some m \<Rightarrow> m \<le> price p) \<and>
     (case max_price of None \<Rightarrow> True | Some m \<Rightarrow> price p \<le> m)"

definition keyword_stock_ok :: "int option \<Rightarrow> Product \<Rightarrow> bool" where
  "keyword_stock_ok min_stock p \<longleftrightarrow>
     (case min_stock of None \<Rightarrow> 0 < stock p | Some m \<Rightarrow> m < stock p)"

text \<open>\<open>if min_stock:\<close> is false for \<open>None\<close> and for \<open>0\<close>.\<close>

definition vector_stock_ok :: "int option \<Rightarrow> Product \<Rightarrow> bool" where
  "vector_stock_ok min_stock p \<longleftrightarrow>
     (case min_stock of
        Some m \<Rightarrow> (if m \<noteq> 0 then m \<le> stock p \<and> 0 < stock p else 0 < stock p)
      | None \<Rightarrow> 0 < stock p)"

text \<open>The weakest stock bound both paths guarantee.\<close>

definition common_stock_ok :: "int option \<Rightarrow> Product \<Rightarrow> bool" where
  "common_stock_ok min_stock p \<longleftrightarrow>
     (case min_stock of None \<Rightarrow> 0 < stock p | Some m \<Rightarrow> m \<le> stock p \<and> (0 \<le> m \<longrightarrow> 0 < stock p))"

subsection \<open>The two paths\<close>

definition keyword_search ::
  "string list \<Rightarrow> real option \<Rightarrow> real option \<Rightarrow> int option \<Rightarrow> Product list \<Rightarrow> Product list" where
  "keyword_search tokens min_price max_price min_stock ps =
     filter (\<lambda>p. keyword_match tokens p \<and> price_ok min_price max_price p \<and>
                 keyword_stock_ok min_stock p) ps"

text \<open>The loop over the products of the vector path; \<open>acc\<close> is \<open>search_results\<close>.\<close>

fun vector_merge ::
  "int option \<Rightarrow> real option \<Rightarrow> real option \<Rightarrow> Product list \<Rightarrow> Product list \<Rightarrow> Product list" where
  "vector_merge min_stock min_price max_price acc [] = acc"
| "vector_merge min_stock min_price max_price acc (p # ps) =
     vector_merge min_stock min_price max_price
       (if vector_stock_ok min_stock p \<and> price_ok min_price max_price p \<and> p \<notin> set acc
        then acc @ [p] else acc) ps"

text \<open>Reference for the merge: the products of the vector path that pass both tests and
  are not yet in \<open>acc\<close>, each at its first occurrence, appended to \<open>acc\<close>.\<close>

definition vector_merge_spec ::
  "int option \<Rightarrow> real option \<Rightarrow> real option \<Rightarrow> Product list \<Rightarrow> Product list \<Rightarrow> Product list" where
  "vector_merge_spec min_stock min_price max_price acc ps =
     acc @ rev (remdups (rev (filter (\<lambda>p. vector_stock_ok min_stock p \<and>
                                          price_ok min_price max_price p \<and> p \<notin> set acc) ps)))"

text \<open>Step 1: the history row, written only when a user id is given.\<close>

definition log_search ::
  "Tables \<Rightarrow> timestamp \<Rightarrow> sql_value option \<Rightarrow> string option \<Rightarrow> unit result \<times> Tables" where
  "log_search t now uid search_keyword =
     (case uid of
        None \<Rightarrow> (Inr (), t)
      | Some u \<Rightarrow> (case record_search_history t now u search_keyword of
                      (Inl e, t') \<Rightarrow> (Inl e, t')
                    | (Inr _, t') \<Rightarrow> (Inr (), t')))"

text \<open>The search. \<open>search_keyword = None\<close> makes \<open>clean_text\<close> raise a TypeError
  (\<open>re.sub\<close> on \<open>None\<close>), unless the history insert failed before.\<close>

definition search_product ::
  "'v Services \<Rightarrow> 'v DB \<Rightarrow> timestamp \<Rightarrow> sql_value option \<Rightarrow> string option \<Rightarrow> real option
   \<Rightarrow> real option \<Rightarrow> int option \<Rightarrow> bool \<Rightarrow> real \<Rightarrow> Product list result \<times> 'v DB" where
  "search_product sv db now uid search_keyword min_price max_price min_stock
     use_vectore_search similarity_threshold =
     (case log_search (tables db) now uid search_keyword of
        (Inl e, t) \<Rightarrow> (Inl e, db\<lparr>tables := t\<rparr>)
      | (Inr _, t) \<Rightarrow>
          (let db' = db\<lparr>tables := t\<rparr> in
           case search_keyword of
             None \<Rightarrow> (Inl TypeError, db')
           | Some kw \<Rightarrow>
               (let search_results =
                      keyword_search (clean_text (stop_words sv) kw) min_price max_price min_stock
                        (products t)
                in if \<not> use_vectore_search then (Inr search_results, db')
                   else (case search_similar_products (similarity sv) (qdrant_product_database db')
                                (generate_embedding sv kw) 50 similarity_threshold of
                           Inl e \<Rightarrow> (Inl e, db')
                         | Inr ids \<Rightarrow>
                             (Inr (vector_merge min_stock min_price max_price search_results
                                     (filter (\<lambda>p. product_id p \<in> set ids) (products t))), db')))))"

subsection \<open>Lemmas\<close>

lemma log_search_products [simp]: "products (snd (log_search t now u q)) = products t"
  by (auto simp: log_search_def record_search_history_def Let_def
      split: option.splits sum.splits prod.splits)

lemma log_search_qdrant:
  "log_search t now u q = (r, t') \<Longrightarrow> products t' = products t"
  using log_search_products [of t now u q] by simp

lemma vector_merge_prefix:
  "\<exists>zs. vector_merge ms mn mx acc ps = acc @ zs \<and> set zs \<subseteq> set ps \<and>
     (\<forall>p\<in>set zs. vector_stock_ok ms p \<and> price_ok mn mx p \<and> p \<notin> set acc)"
proof (induction ms mn mx acc ps rule: vector_merge.induct)
  case (1 ms mn mx acc)
  then show ?case by simp
next
  case (2 ms mn mx acc p ps)
  then show ?case by (fastforce split: if_splits)
qed

lemma vector_merge_mem:
  "p \<in> set ps \<Longrightarrow> vector_stock_ok ms p \<Longrightarrow> price_ok mn mx p \<Longrightarrow>
   p \<in> set (vector_merge ms mn mx acc ps)"
proof (induction ms mn mx acc ps rule: vector_merge.induct)
  case (1 ms mn mx acc)
  then show ?case by simp
next
  case (2 ms mn mx acc q ps)
  show ?case
  proof (cases "p = q")
    case True
    let ?acc = "if vector_stock_ok ms q \<and> price_ok mn mx q \<and> q \<notin> set acc then acc @ [q] else acc"
    have "p \<in> set ?acc"
      using True "2.prems" by auto
    then show ?thesis
      using vector_merge_prefix [of ms mn mx ?acc ps] by auto
  next
    case False
    then show ?thesis
      using "2.IH" "2.prems" by simp
  qed
qed

lemma vector_merge_distinct:
  "distinct acc \<Longrightarrow> distinct (vector_merge ms mn mx acc ps)"
  by (induction ms mn mx acc ps rule: vector_merge.induct) auto

lemma keyword_stock_common: "keyword_stock_ok ms p \<Longrightarrow> common_stock_ok ms p"
  by (auto simp: keyword_stock_ok_def common_stock_ok_def split: option.splits)

lemma vector_stock_common: "vector_stock_ok ms p \<Longrightarrow> common_stock_ok ms p"
  by (auto simp: vector_stock_ok_def common_stock_ok_def split: option.splits if_splits)

lemma search_product_cases:
  assumes res: "search_product sv db now u q mn mx ms v th = (Inr rs, db')"
  obtains t kw where "log_search (tables db) now u q = (Inr (), t)" and "q = Some kw"
    and "db' = db\<lparr>tables := t\<rparr>"
    and "rs = keyword_search (clean_text (stop_words sv) kw) mn mx ms (products (tables db))
         \<or> (\<exists>ids. rs = vector_merge ms mn mx
                      (keyword_search (clean_text (stop_words sv) kw) mn mx ms (products (tables db)))
                      (filter (\<lambda>p. product_id p \<in> set ids) (products (tables db))))"
proof -
  obtain r t where lg: "log_search (tables db) now u q = (r, t)"
    by fastforce
  have pt: "products t = products (tables db)"
    using log_search_qdrant [OF lg] .
  show ?thesis
  proof (cases r)
    case (Inl e)
    with res lg show ?thesis by (simp add: search_product_def)
  next
    case (Inr x)
    then have r: "r = Inr ()" by simp
    show ?thesis
    proof (cases q)
      case None
      with res lg r show ?thesis by (simp add: search_product_def)
    next
      case (Some kw)
      let ?k = "keyword_search (clean_text (stop_words sv) kw) mn mx ms (products t)"
      have "(rs = ?k \<or> (\<exists>ids. rs = vector_merge ms mn mx ?k
                 (filter (\<lambda>p. product_id p \<in> set ids) (products t)))) \<and> db' = db\<lparr>tables := t\<rparr>"
      proof (cases v)
        case True
        with res lg r Some show ?thesis
          by (fastforce simp: search_product_def Let_def split: sum.split_asm)
      next
        case False
        with res lg r Some show ?thesis
          by (simp add: search_product_def Let_def)
      qed
      with that lg r Some pt show ?thesis by auto
    qed
  qed
qed

lemma keyword_search_member:
  "p \<in> set (keyword_search toks mn mx ms ps) \<longleftrightarrow>
   p \<in> set ps \<and> keyword_match toks p \<and> price_ok mn mx p \<and> keyword_stock_ok ms p"
  by (auto simp: keyword_search_def)

lemma search_product_shape:
  assumes "search_product sv db now u q mn mx ms v th = (Inr rs, db')"
  obtains kw zs where "q = Some kw"
    and "rs = keyword_search (clean_text (stop_words sv) kw) mn mx ms (products (tables db)) @ zs"
    and "set zs \<subseteq> set (products (tables db))"
    and "\<forall>p\<in>set zs. vector_stock_ok ms p \<and> price_ok mn mx p \<and>
           p \<notin> set (keyword_search (clean_text (stop_words sv) kw) mn mx ms (products (tables db)))"
proof -
  from assms obtain t kw where q: "q = Some kw"
    and rs: "rs = keyword_search (clean_text (stop_words sv) kw) mn mx ms (products (tables db))
         \<or> (\<exists>ids. rs = vector_merge ms mn mx
                      (keyword_search (clean_text (stop_words sv) kw) mn mx ms (products (tables db)))
                      (filter (\<lambda>p. product_id p \<in> set ids) (products (tables db))))"
    by (rule search_product_cases)
  from rs show ?thesis
  proof
    assume "rs = keyword_search (clean_text (stop_words sv) kw) mn mx ms (products (tables db))"
    with q that [of kw "[]"] show ?thesis by simp
  next
    assume "\<exists>ids. rs = vector_merge ms mn mx
                      (keyword_search (clean_text (stop_words sv) kw) mn mx ms (products (tables db)))
                      (filter (\<lambda>p. product_id p \<in> set ids) (products (tables db)))"
    then obtain ids where "rs = vector_merge ms mn mx
                      (keyword_search (clean_text (stop_words sv) kw) mn mx ms (products (tables db)))
                      (filter (\<lambda>p. product_id p \<in> set ids) (products (tables db)))" ..
    with vector_merge_prefix obtain zs where
      "rs = keyword_search (clean_text (stop_words sv) kw) mn mx ms (products (tables db)) @ zs"
      and "set zs \<subseteq> set (filter (\<lambda>p. product_id p \<in> set ids) (products (tables db)))"
      and "\<forall>p\<in>set zs. vector_stock_ok ms p \<and> price_ok mn mx p \<and>
           p \<notin> set (keyword_search (clean_text (stop_words sv) kw) mn mx ms (products (tables db)))"
      by metis
    with q that [of kw zs] show ?thesis by auto
  qed
qed

lemma log_search_tables:
  "snd (log_search t now (Some u) (Some kw)) =
     t\<lparr>search_history := search_history t @
        [\<lparr>search_id = next_rowid (map search_id (search_history t)), sh_user_id = u,
          sh_query = kw, sh_created_at = now\<rparr>]\<rparr>"
  by (simp add: log_search_def record_search_history_def Let_def)

lemma log_search_history_rows:
  "\<exists>new. search_history (snd (log_search t now u q)) = search_history t @ new \<and>
     sh_user_id ` set new \<subseteq> set_option u \<and> Some ` sh_query ` set new \<subseteq> {q}"
  by (auto simp: log_search_def record_search_history_def Let_def
      split: option.splits sum.splits prod.splits)

lemma search_product_tables:
  "tables (snd (search_product sv db now u q mn mx ms v th)) = snd (log_search (tables db) now u q)"
  by (auto simp: search_product_def Let_def split: sum.splits option.splits prod.splits)

lemma search_product_distinct_rows:
  assumes "search_product sv db now u q mn mx ms v th = (Inr rs, db')"
    and "distinct (products (tables db))"
  shows "distinct rs"
proof -
  from assms(1) obtain t kw where
    "rs = keyword_search (clean_text (stop_words sv) kw) mn mx ms (products (tables db))
         \<or> (\<exists>ids. rs = vector_merge ms mn mx
                      (keyword_search (clean_text (stop_words sv) kw) mn mx ms (products (tables db)))
                      (filter (\<lambda>p. product_id p \<in> set ids) (products (tables db))))"
    by (rule search_product_cases)
  with assms(2) show ?thesis
    by (auto simp: keyword_search_def intro: vector_merge_distinct)
qed

lemma search_product_qdrant [simp]:
  "qdrant_product_database (snd (search_product sv db now u q mn mx ms v th)) =
   qdrant_product_database db"
  by (auto simp: search_product_def Let_def split: sum.splits option.splits prod.splits)

lemma log_search_frame:
  "snd (log_search t now u q) = t\<lparr>search_history := search_history (snd (log_search t now u q))\<rparr>"
  by (auto simp: log_search_def record_search_history_def Let_def
      split: option.splits sum.splits prod.splits)

text \<open>A search writes the history table only.\<close>

lemma search_product_frame [simp]:
  "users (tables (snd (search_product sv db now u q mn mx ms v th))) = users (tables db)"
  "categories (tables (snd (search_product sv db now u q mn mx ms v th))) = categories (tables db)"
  "products (tables (snd (search_product sv db now u q mn mx ms v th))) = products (tables db)"
  "recommendations (tables (snd (search_product sv db now u q mn mx ms v th))) =
     recommendations (tables db)"
  "feedbacks (tables (snd (search_product sv db now u q mn mx ms v th))) = feedbacks (tables db)"
  by (simp_all add: search_product_tables, (subst log_search_frame, simp)+)

lemma search_product_member:
  assumes "search_product sv db now u q mn mx ms v th = (Inr rs, db')" and "p \<in> set rs"
  shows "p \<in> set (products (tables db)) \<and> price_ok mn mx p \<and> common_stock_ok ms p"
proof -
  from assms(1) obtain kw zs where
    rs: "rs = keyword_search (clean_text (stop_words sv) kw) mn mx ms (products (tables db)) @ zs"
    and sub: "set zs \<subseteq> set (products (tables db))"
    and zs: "\<forall>p\<in>set zs. vector_stock_ok ms p \<and> price_ok mn mx p \<and>
           p \<notin> set (keyword_search (clean_text (stop_words sv) kw) mn mx ms (products (tables db)))"
    by (rule search_product_shape)
  show ?thesis
    using rs sub zs assms(2)
    by (auto simp: keyword_search_member intro: keyword_stock_common vector_stock_common)
qed

lemma search_product_frame_eq:
  assumes "search_product sv db now u q mn mx ms v th = (r, db1)"
  shows "tables db1 = (tables db)\<lparr>search_history := search_history (tables db1)\<rparr>"
    and "qdrant_product_database db1 = qdrant_product_database db"
proof -
  have db1: "db1 = snd (search_product sv db now u q mn mx ms v th)"
    using assms by simp
  show "tables db1 = (tables db)\<lparr>search_history := search_history (tables db1)\<rparr>"
    unfolding db1 search_product_tables by (rule log_search_frame)
  show "qdrant_product_database db1 = qdrant_product_database db"
    unfolding db1 by simp
qed

lemma search_product_frame_fields:
  assumes "search_product sv db now u q mn mx ms v th = (r, db1)"
  shows "users (tables db1) = users (tables db)" and "categories (tables db1) = categories (tables db)"
    and "products (tables db1) = products (tables db)"
    and "recommendations (tables db1) = recommendations (tables db)"
    and "feedbacks (tables db1) = feedbacks (tables db)"
  using search_product_frame [of sv db now u q mn mx ms v th] assms by simp_all

lemma search_product_distinct_ids:
  assumes "search_product sv db now u q mn mx ms v th = (Inr rs, db')"
    and "distinct (map product_id (products (tables db)))"
  shows "distinct (map product_id rs)"
proof -
  from assms(1) obtain kw zs where
    "rs = keyword_search (clean_text (stop_words sv) kw) mn mx ms (products (tables db)) @ zs"
    and "set zs \<subseteq> set (products (tables db))"
    by (rule search_product_shape)
  then have sub: "set rs \<subseteq> set (products (tables db))"
    by (auto simp: keyword_search_member)
  have "distinct (products (tables db))"
    using assms(2) by (simp add: distinct_map)
  with assms(1) have "distinct rs"
    by (rule search_product_distinct_rows)
  from this sub assms(2) show ?thesis
    by (rule distinct_map_subset)
qed

subsection \<open>Properties\<close>

text \<open>C1: every product a successful search returns is a stored product within the
  given price bounds, with positive stock when no \<open>min_stock\<close> is given, and with
  \<open>min_stock <= stock\<close> (and positive stock for a non-negative bound) when one is:
  the filters hold whichever path found the product.\<close>

theorem search_results_filtered:
  assumes "search_product sv db now u q mn mx ms v th = (Inr rs, db')"
  shows "\<forall>p\<in>set rs. p \<in> set (products (tables db)) \<and> price_ok mn mx p \<and> common_stock_ok ms p"
  using search_product_member [OF assms] by blast

text \<open>C2: a search never returns the same product twice: when product ids are unique
  in the table, the ids of the results are distinct.\<close>

theorem search_results_distinct:
  assumes "search_product sv db now u q mn mx ms v th = (Inr rs, db')"
    and "distinct (map product_id (products (tables db)))"
  shows "distinct (map product_id rs)"
  by (rule search_product_distinct_ids [OF assms])

text \<open>C3: the merge is order-stable: the result is the keyword path's result, in table
  order, followed by products of the vector path that the keyword path did not return
  and that pass the vector path's stock test and the price bounds.\<close>

theorem search_keyword_results_first:
  assumes "search_product sv db now u (Some kw) mn mx ms v th = (Inr rs, db')"
  shows "\<exists>zs. rs = keyword_search (clean_text (stop_words sv) kw) mn mx ms (products (tables db)) @ zs \<and>
           (\<forall>p\<in>set zs. p \<notin> set (keyword_search (clean_text (stop_words sv) kw) mn mx ms
                                     (products (tables db))) \<and>
                        vector_stock_ok ms p \<and> price_ok mn mx p)"
proof -
  from assms obtain kw' zs where q: "Some kw = Some kw'"
    and rs: "rs = keyword_search (clean_text (stop_words sv) kw') mn mx ms (products (tables db)) @ zs"
    and zs: "\<forall>p\<in>set zs. vector_stock_ok ms p \<and> price_ok mn mx p \<and>
           p \<notin> set (keyword_search (clean_text (stop_words sv) kw') mn mx ms (products (tables db)))"
    by (rule search_product_shape)
  from q rs zs show ?thesis by auto
qed

text \<open>C4: the merge loop of the vector path is the reference merge: it appends to the
  keyword results exactly the vector-path products that pass the stock test and the price
  bounds and are not yet present, each once, at its first occurrence, in the order of
  the product table.\<close>

theorem vector_merge_first_occurrences:
  "vector_merge ms mn mx acc ps = vector_merge_spec ms mn mx acc ps"
proof (induction ps arbitrary: acc)
  case Nil
  then show ?case by (simp add: vector_merge_spec_def)
next
  case (Cons p ps)
  show ?case
  proof (cases "vector_stock_ok ms p \<and> price_ok mn mx p \<and> p \<notin> set acc")
    case True
    have "vector_merge_spec ms mn mx acc (p # ps) = vector_merge_spec ms mn mx (acc @ [p]) ps"
      using True by (simp add: vector_merge_spec_def rev_remdups_rev_snoc conj_ac)
    with True show ?thesis
      using Cons.IH [of "acc @ [p]"] by simp
  next
    case False
    then show ?thesis
      using Cons.IH [of acc] by (auto simp: vector_merge_spec_def)
  qed
qed

text \<open>A query whose tokens are all stopwords or punctuation, with the vector path
  off and no filters, returns every product with positive stock, in table order, and
  changes nothing (spec 4.3, edge case of the empty query).\<close>

theorem search_tokenless_query_in_stock:
  assumes "clean_text (stop_words sv) kw = []"
  shows "search_product sv db now None (Some kw) None None None False th =
           (Inr (filter (\<lambda>p. 0 < stock p) (products (tables db))), db)"
  using assms
  by (simp add: search_product_def log_search_def keyword_search_def keyword_match_def
      price_ok_def keyword_stock_ok_def)

text \<open>C20: a search by a user appends exactly one history row holding the raw query,
  with the next row id, and changes no other table and not the vector index, whatever
  the search returns.\<close>

theorem search_appends_history:
  "tables (snd (search_product sv db now (Some u) (Some kw) mn mx ms v th)) =
     (tables db)\<lparr>search_history := search_history (tables db) @
        [\<lparr>search_id = next_rowid (map search_id (search_history (tables db))), sh_user_id = u,
          sh_query = kw, sh_created_at = now\<rparr>]\<rparr> \<and>
   qdrant_product_database (snd (search_product sv db now (Some u) (Some kw) mn mx ms v th)) =
     qdrant_product_database db"
  by (simp add: search_product_tables log_search_tables)

text \<open>A search with no keyword text (\<open>None\<close>) fails and changes nothing: for a
  user the history insert violates NOT NULL, without a user \<open>clean_text\<close> raises a
  TypeError.\<close>

theorem search_none_keyword_fails:
  "search_product sv db now (Some u) None mn mx ms v th =
     (Inl (IntegrityError ''NOT NULL constraint failed: searchhistory.query''), db) \<and>
   search_product sv db now None None mn mx ms v th = (Inl TypeError, db)"
  by (simp add: search_product_def log_search_def record_search_history_def)

text \<open>C21: when the collection is missing, a search with the vector path on fails with
  the client's error after logging the query: there is no fallback to the keyword
  results (spec 7 asks that the search degrade to keyword-only results).\<close>

theorem search_index_missing_fails:
  assumes "collection_points (qdrant_product_database db) = None"
  shows "fst (search_product sv db now u (Some kw) mn mx ms True th) = Inl (UnexpectedResponse ''Not found'')"
  using assms
  by (simp add: search_product_def search_similar_products_def log_search_def
      record_search_history_def Let_def split: option.splits)

end
