(* ===== verification/Recommend.thy ===== *)
theory Recommend
  imports Search
begin

text \<open>
  The recommendation orchestrator, class \<open>LLM\<close> of \<open>llm/llm.py\<close>. A recommendation
  for a user reads the profile (a \<open>None\<close> subscript when the user is unknown) and the
  search history joined with commas; runs the hybrid search with the profile as keyword
  text, the user's id, the vector path on and threshold 0.3 (which appends the profile to
  the user's history); builds the prompt with the dict \<open>{product_id: name}\<close> of the
  candidates; asks the generator (\<open>make_inference_on_model\<close>, an opaque function of
  \<open>Services\<close>); and takes the first candidate whose name equals the answer after
  \<open>strip()\<close> and \<open>lower()\<close>. Only then is a Recommendation row written, with score 1.
  When no candidate matches, the code reads the unassigned \<open>recommended_product_id\<close>
  and raises UnboundLocalError.
  The fine-tuning export rebuilds a prompt for every feedback rated 3 or more; it calls
  the search with the profile text in the position of \<open>user_id\<close>, so it searches for
  the empty text and logs a history row whose user is that text.
  The object's own state is whether the T5 model and its tokenizer are loaded; the
  served object (\<open>run.py\<close> builds it with \<open>load_model_data_on_start=True\<close>) answers
  every query with the generator of \<open>Services\<close>, which is how the rest of the model
  calls it.
\<close>

subsection \<open>The model object\<close>

text \<open>\<open>LLM.__init__\<close> sets \<open>model = None\<close> and \<open>tokenizer = False\<close>;
  \<open>load_data_for_inferencing\<close> loads both when \<open>model is None or tokenizer is None\<close>.
  The weights, paths and generation settings (\<open>num_beams\<close>, \<open>max_length\<close>) belong to
  the generator.\<close>

datatype tokenizer_slot = TokenizerFalse | TokenizerNone | TokenizerLoaded

record LLM_obj =
  llm_model_loaded :: bool
  llm_tokenizer :: tokenizer_slot

definition load_data_for_inferencing :: "LLM_obj \<Rightarrow> LLM_obj" where
  "load_data_for_inferencing s =
     (if \<not> llm_model_loaded s \<or> llm_tokenizer s = TokenizerNone
      then s\<lparr>llm_model_loaded := True, llm_tokenizer := TokenizerLoaded\<rparr> else s)"

definition init_llm :: "bool \<Rightarrow> LLM_obj" where
  "init_llm load_model_data_on_start =
     (let s = \<lparr>llm_model_loaded = False, llm_tokenizer = TokenizerFalse\<rparr>
      in if load_model_data_on_start then load_data_for_inferencing s else s)"

text \<open>\<open>make_inference_on_model\<close>: \<open>self.model.to(device)\<close> on \<open>None\<close> raises an
  AttributeError, calling a tokenizer that is \<open>False\<close> or \<open>None\<close> a TypeError.\<close>

definition llm_make_inference :: "'v Services \<Rightarrow> LLM_obj \<Rightarrow> string \<Rightarrow> string result" where
  "llm_make_inference sv s query =
     (if \<not> llm_model_loaded s then Inl AttributeError
      else if llm_tokenizer s \<noteq> TokenizerLoaded then Inl TypeError
      else Inr (make_inference_on_model sv query))"

subsection \<open>Prompts\<close>

definition recommendation_instruction :: string where
  "recommendation_instruction =
     ''Given the following customer profile and search history, suggest the most relevant product from the provided list of candidates. Return only the name of the product that best matches the customer's needs based on their profile and search activity.''"

definition task_instruction :: string where
  \<open>task_instruction =
     ''Your Task: Select the most suitable product from the list of "Products for Recommendation" based on the customer profile and search history.''\<close>

text \<open>\<open>engineer_prompt\<close>; \<open>candidates\<close> is the text \<open>str()\<close> gives for the
  candidates object.\<close>

definition engineer_prompt :: "string option \<Rightarrow> string \<Rightarrow> string \<Rightarrow> bool \<Rightarrow> string" where
  "engineer_prompt profile user_search_history candidates return_customer_info_only =
     (if return_customer_info_only
      then ''Customer Profile: \<newline>'' @ py_fstr profile @
           ''\<newline>\<newline>Search History: \<newline>'' @ user_search_history
      else recommendation_instruction @ ''\<newline>Customer Profile: '' @ py_fstr profile @
           ''\<newline>Search History: '' @ user_search_history @
           ''\<newline>Products for Recommendation: '' @ candidates @ ''\<newline>'' @ task_instruction @ ''\<newline>'')"

text \<open>\<open>','.join(...)\<close> of the user's queries.\<close>

definition history_text :: "Tables \<Rightarrow> pk \<Rightarrow> string" where
  "history_text t uid = py_join '','' (user_search_queries t uid)"

definition candidates_dict :: "Product list \<Rightarrow> (pk \<times> string) list" where
  "candidates_dict ps = py_dict (map (\<lambda>p. (product_id p, p_name p)) ps)"

subsection \<open>Resolution and the recommendation\<close>

definition name_key :: "string \<Rightarrow> string" where
  "name_key s = py_lower (py_strip s)"

definition resolve_recommendation :: "string \<Rightarrow> Product list \<Rightarrow> Product option" where
  "resolve_recommendation recommendation_str ps =
     find (\<lambda>p. name_key recommendation_str = name_key (p_name p)) ps"

definition make_recommendation_for_customer ::
  "'v Services \<Rightarrow> 'v DB \<Rightarrow> timestamp \<Rightarrow> pk \<Rightarrow> (pk \<times> pk) result \<times> 'v DB" where
  "make_recommendation_for_customer sv db now uid =
     (case find_user (tables db) uid of
        None \<Rightarrow> (Inl TypeError, db)
      | Some u \<Rightarrow>
          (let profile = profile_description u;
               hist = history_text (tables db) uid
           in case search_product sv db now (Some (SqlInt uid)) profile None None None True 0.3 of
                (Inl e, db1) \<Rightarrow> (Inl e, db1)
              | (Inr cands, db1) \<Rightarrow>
                  (let query = engineer_prompt profile hist (py_repr_dict (candidates_dict cands)) False
                   in case resolve_recommendation (make_inference_on_model sv query) cands of
                        None \<Rightarrow> (Inl UnboundLocalError, db1)
                      | Some p \<Rightarrow>
                          (case record_recommendation (tables db1) now uid (product_id p) 1 of
                             (rid, t) \<Rightarrow> (Inr (product_id p, rid), db1\<lparr>tables := t\<rparr>)))))"

definition get_user_profile :: "Tables \<Rightarrow> pk \<Rightarrow> string result" where
  "get_user_profile t uid =
     (case find_user t uid of
        None \<Rightarrow> Inl TypeError
      | Some u \<Rightarrow> Inr (engineer_prompt (profile_description u) (history_text t uid) ''None'' True))"

subsection \<open>The fine-tuning dataset\<close>

text \<open>The loop of \<open>generate_dataset_for_llm_fine_tuning\<close> over the selected feedback:
  a missing recommendation or product fails on an attribute of \<open>None\<close>, a missing
  user on a subscript of \<open>None\<close>. The candidate names get the answer appended when it
  is not among them.\<close>

fun export_rows ::
  "'v Services \<Rightarrow> 'v DB \<Rightarrow> timestamp \<Rightarrow> RecommendationFeedback list \<Rightarrow> (string \<times> string) list
   \<Rightarrow> (string \<times> string) list result \<times> 'v DB" where
  "export_rows sv db now [] rows = (Inr rows, db)"
| "export_rows sv db now (f # fs) rows =
     (case find_recommendation (tables db) (fb_recommendation_id f) of
        None \<Rightarrow> (Inl AttributeError, db)
      | Some r \<Rightarrow>
          (case find_product (tables db) (r_product_id r) of
             None \<Rightarrow> (Inl AttributeError, db)
           | Some answer \<Rightarrow>
               (case find_user (tables db) (fb_user_id f) of
                  None \<Rightarrow> (Inl TypeError, db)
                | Some u \<Rightarrow>
                    (let profile = profile_description u;
                         hist = history_text (tables db) (fb_user_id f)
                     in case search_product sv db now (map_option SqlText profile) (Some [])
                               None None None True 0.3 of
                          (Inl e, db1) \<Rightarrow> (Inl e, db1)
                        | (Inr cands, db1) \<Rightarrow>
                            (let names = map p_name cands;
                                 names' = (if p_name answer \<in> set names then names
                                           else names @ [p_name answer]);
                                 query = engineer_prompt profile hist (py_repr_list names') False
                             in export_rows sv db1 now fs (rows @ [(query, p_name answer)]))))))"

text \<open>The rows of the CSV file, or \<open>None\<close> when no feedback qualifies and the method
  returns before writing it.\<close>

definition generate_dataset_for_llm_fine_tuning ::
  "'v Services \<Rightarrow> 'v DB \<Rightarrow> timestamp \<Rightarrow> (string \<times> string) list option result \<times> 'v DB" where
  "generate_dataset_for_llm_fine_tuning sv db now =
     (let recommendation_feedbacks = filter (\<lambda>f. 3 \<le> rating f) (feedbacks (tables db))
      in if recommendation_feedbacks = [] then (Inr None, db)
         else (case export_rows sv db now recommendation_feedbacks [] of
                 (Inl e, db') \<Rightarrow> (Inl e, db')
               | (Inr rows, db') \<Rightarrow> (Inr (Some rows), db')))"

subsection \<open>Lemmas\<close>

lemma load_data_for_inferencing_loaded:
  "llm_model_loaded (load_data_for_inferencing s) \<and>
   llm_tokenizer (load_data_for_inferencing s) \<noteq> TokenizerNone"
  by (simp add: load_data_for_inferencing_def)

lemma load_data_for_inferencing_idem:
  "load_data_for_inferencing (load_data_for_inferencing s) = load_data_for_inferencing s"
  by (simp add: load_data_for_inferencing_def)


lemma make_recommendation_found:
  assumes "find_user (tables db) uid = Some u"
    and "search_product sv db now (Some (SqlInt uid)) (profile_description u) None None None True 0.3 = (r, db1)"
  shows "make_recommendation_for_customer sv db now uid =
    (case r of
       Inl e \<Rightarrow> (Inl e, db1)
     | Inr cands \<Rightarrow>
        (case resolve_recommendation (make_inference_on_model sv
                (engineer_prompt (profile_description u) (history_text (tables db) uid)
                   (py_repr_dict (candidates_dict cands)) False)) cands of
           None \<Rightarrow> (Inl UnboundLocalError, db1)
         | Some p \<Rightarrow> (Inr (product_id p, next_rowid (map recommendation_id (recommendations (tables db1)))),
              db1\<lparr>tables := snd (record_recommendation (tables db1) now uid (product_id p) 1)\<rparr>)))"
  using assms
  by (auto simp: make_recommendation_for_customer_def record_recommendation_result Let_def
      split: sum.splits option.splits)

lemma resolve_recommendation_Some:
  "resolve_recommendation out ps = Some p \<Longrightarrow> p \<in> set ps \<and> name_key out = name_key (p_name p)"
  by (auto simp: resolve_recommendation_def find_Some_iff)

lemma export_rows_ok:
  assumes "export_rows sv db now fs acc = (Inr rows, db')"
  shows "\<exists>new. rows = acc @ new \<and>
           list_all2 (\<lambda>f row. \<exists>r p. find_recommendation (tables db) (fb_recommendation_id f) = Some r \<and>
                       find_product (tables db) (r_product_id r) = Some p \<and> snd row = p_name p) fs new"
  using assms
proof (induction sv db now fs acc rule: export_rows.induct)
  case (1 sv db now rows)
  then show ?case by simp
next
  case (2 sv db now f fs acc)
  from "2.prems" obtain r answer u where
    r: "find_recommendation (tables db) (fb_recommendation_id f) = Some r"
    and a: "find_product (tables db) (r_product_id r) = Some answer"
    and u: "find_user (tables db) (fb_user_id f) = Some u"
    by (auto split: option.splits)
  obtain res db1 where s: "search_product sv db now (map_option SqlText (profile_description u)) (Some [])
      None None None True 0.3 = (res, db1)"
    by fastforce
  from "2.prems" r a u s obtain cands where res: "res = Inr cands"
    by (auto simp: Let_def split: sum.splits)
  let ?names = "map p_name cands"
  let ?names' = "if p_name answer \<in> set ?names then ?names else ?names @ [p_name answer]"
  let ?row = "(engineer_prompt (profile_description u) (history_text (tables db) (fb_user_id f))
                (py_repr_list ?names') False, p_name answer)"
  have "export_rows sv db1 now fs (acc @ [?row]) = (Inr rows, db')"
    using "2.prems" r a u s res by (simp add: Let_def)
  then obtain new where new: "rows = (acc @ [?row]) @ new"
    and all: "list_all2 (\<lambda>f row. \<exists>r p. find_recommendation (tables db1) (fb_recommendation_id f) = Some r \<and>
                       find_product (tables db1) (r_product_id r) = Some p \<and> snd row = p_name p) fs new"
    using "2.IH" [OF r a u refl refl s [symmetric] res refl refl refl] by blast
  have t1: "tables db1 = (tables db)\<lparr>search_history := search_history (tables db1)\<rparr>"
    using s by (rule search_product_frame_eq)
  have "find_recommendation (tables db1) = find_recommendation (tables db)"
    and "find_product (tables db1) = find_product (tables db)"
    by (subst t1, simp)+
  with new all r a show ?case
    by (intro exI [of _ "?row # new"]) auto
qed

lemma export_rows_history:
  "\<exists>new. search_history (tables (snd (export_rows sv db now fs acc))) = search_history (tables db) @ new \<and>
     sh_user_id ` set new \<subseteq> range SqlText \<and> sh_query ` set new \<subseteq> {[]}"
proof (induction sv db now fs acc rule: export_rows.induct)
  case (1 sv db now rows)
  then show ?case by simp
next
  case (2 sv db now f fs acc)
  show ?case
  proof (cases "find_recommendation (tables db) (fb_recommendation_id f)")
    case None
    then show ?thesis by simp
  next
    case (Some r)
    note r = Some
    show ?thesis
    proof (cases "find_product (tables db) (r_product_id r)")
      case None
      with r show ?thesis by simp
    next
      case (Some a)
      note a = Some
      show ?thesis
      proof (cases "find_user (tables db) (fb_user_id f)")
        case None
        with r a show ?thesis by simp
      next
        case (Some u)
        note u = Some
        obtain res db1 where s: "search_product sv db now (map_option SqlText (profile_description u))
            (Some []) None None None True 0.3 = (res, db1)"
          by (metis surj_pair)
        have t1: "tables db1 = snd (log_search (tables db) now (map_option SqlText (profile_description u)) (Some []))"
          using search_product_tables [of sv db now "map_option SqlText (profile_description u)" "Some []"
              None None None True "0.3"] s by simp
        obtain new1 where n1: "search_history (tables db1) = search_history (tables db) @ new1"
          "sh_user_id ` set new1 \<subseteq> set_option (map_option SqlText (profile_description u))"
          "Some ` sh_query ` set new1 \<subseteq> {Some []}"
          using log_search_history_rows [of "tables db" now "map_option SqlText (profile_description u)" "Some []"]
          unfolding t1 by blast
        have n1': "sh_user_id ` set new1 \<subseteq> range SqlText" "sh_query ` set new1 \<subseteq> {[]}"
          using n1(2,3) by (cases "profile_description u"; auto)+
        show ?thesis
        proof (cases res)
          case (Inl e)
          then have "snd (export_rows sv db now (f # fs) acc) = db1"
            using r a u s by (simp add: Let_def)
          with n1(1) n1' show ?thesis
            by (intro exI [of _ new1]) simp
        next
          case (Inr cands)
          let ?names = "map p_name cands"
          let ?names' = "if p_name a \<in> set ?names then ?names else ?names @ [p_name a]"
          let ?row = "(engineer_prompt (profile_description u) (history_text (tables db) (fb_user_id f))
                        (py_repr_list ?names') False, p_name a)"
          have eq: "export_rows sv db now (f # fs) acc = export_rows sv db1 now fs (acc @ [?row])"
            using r a u s Inr by (simp add: Let_def)
          obtain new2 where n2: "search_history (tables (snd (export_rows sv db1 now fs (acc @ [?row])))) =
              search_history (tables db1) @ new2"
            "sh_user_id ` set new2 \<subseteq> range SqlText" "sh_query ` set new2 \<subseteq> {[]}"
            using "2.IH" [OF r a u refl refl s [symmetric] Inr refl refl refl] by blast
          show ?thesis
            unfolding eq using n1(1) n1' n2 by (intro exI [of _ "new1 @ new2"]) (simp add: image_Un)
        qed
      qed
    qed
  qed
qed

subsection \<open>Properties\<close>

text \<open>C8: a recommendation that fails (unknown user, a failing search, or a model
  answer that names no candidate) writes no Recommendation row and changes no product,
  user or feedback: only the search history may have grown.\<close>

theorem recommendation_written_only_on_success:
  assumes "make_recommendation_for_customer sv db now uid = (Inl e, db')"
  shows "recommendations (tables db') = recommendations (tables db) \<and>
         products (tables db') = products (tables db) \<and>
         feedbacks (tables db') = feedbacks (tables db) \<and> users (tables db') = users (tables db)"
proof (cases "find_user (tables db) uid")
  case None
  with assms show ?thesis by (simp add: make_recommendation_for_customer_def)
next
  case (Some u)
  obtain r db1 where s: "search_product sv db now (Some (SqlInt uid)) (profile_description u)
      None None None True 0.3 = (r, db1)"
    by fastforce
  from assms make_recommendation_found [OF Some s] have "db' = db1"
    by (auto split: sum.splits option.splits)
  with search_product_frame_fields [OF s] show ?thesis by simp
qed

text \<open>C9: a successful recommendation names a candidate of the profile search whose
  name matches the model's answer after stripping and lower-casing; that product is
  stored and in stock, and exactly one Recommendation row (fresh id, the user, the
  product, score 1) is appended.\<close>

theorem recommendation_resolves_to_candidate:
  assumes "make_recommendation_for_customer sv db now uid = (Inr (pid, rid), db')"
  shows "\<exists>u cands p. find_user (tables db) uid = Some u \<and>
           fst (search_product sv db now (Some (SqlInt uid)) (profile_description u)
                  None None None True 0.3) = Inr cands \<and>
           resolve_recommendation (make_inference_on_model sv
             (engineer_prompt (profile_description u) (history_text (tables db) uid)
                (py_repr_dict (candidates_dict cands)) False)) cands = Some p \<and>
           p \<in> set (products (tables db)) \<and> 0 < stock p \<and> product_id p = pid \<and>
           rid \<notin> recommendation_id ` set (recommendations (tables db)) \<and>
           recommendations (tables db') = recommendations (tables db) @
             [\<lparr>recommendation_id = rid, r_user_id = uid, r_product_id = pid, score = 1,
               r_created_at = now\<rparr>]"
proof -
  from assms obtain u where u: "find_user (tables db) uid = Some u"
    by (auto simp: make_recommendation_for_customer_def split: option.splits)
  obtain r db1 where s: "search_product sv db now (Some (SqlInt uid)) (profile_description u)
      None None None True 0.3 = (r, db1)"
    by fastforce
  let ?q = "\<lambda>cands. engineer_prompt (profile_description u) (history_text (tables db) uid)
                (py_repr_dict (candidates_dict cands)) False"
  from assms make_recommendation_found [OF u s] obtain cands p where r: "r = Inr cands"
    and res: "resolve_recommendation (make_inference_on_model sv (?q cands)) cands = Some p"
    and pid: "product_id p = pid"
    and rid: "rid = next_rowid (map recommendation_id (recommendations (tables db1)))"
    and db': "db' = db1\<lparr>tables := snd (record_recommendation (tables db1) now uid pid 1)\<rparr>"
    by (auto split: sum.splits option.splits)
  have "p \<in> set cands"
    using resolve_recommendation_Some [OF res] by simp
  with s r have "p \<in> set (products (tables db)) \<and> common_stock_ok None p"
    using search_product_member by blast
  moreover have "recommendations (tables db1) = recommendations (tables db)"
    using search_product_frame_fields [OF s] by simp
  ultimately show ?thesis
    using u s r res pid rid db'
    by (intro exI [of _ u] exI [of _ cands] exI [of _ p])
      (auto simp: record_recommendation_result common_stock_ok_def)
qed

text \<open>C22: asking for a recommendation appends the user's profile text to the user's
  own search history, whether or not a recommendation results: the next recommendation
  sees its profile among the "searches".\<close>

theorem recommendation_logs_profile:
  assumes "find_user (tables db) uid = Some u" and "profile_description u = Some prof"
  shows "search_history (tables (snd (make_recommendation_for_customer sv db now uid))) =
           search_history (tables db) @
             [\<lparr>search_id = next_rowid (map search_id (search_history (tables db))),
               sh_user_id = SqlInt uid, sh_query = prof, sh_created_at = now\<rparr>]"
proof -
  obtain r db1 where s: "search_product sv db now (Some (SqlInt uid)) (profile_description u)
      None None None True 0.3 = (r, db1)"
    by fastforce
  have "tables db1 = tables (snd (search_product sv db now (Some (SqlInt uid)) (Some prof)
      None None None True 0.3))"
    using s assms(2) by simp
  also have "\<dots> = snd (log_search (tables db) now (Some (SqlInt uid)) (Some prof))"
    by (rule search_product_tables)
  finally have h: "search_history (tables db1) = search_history (tables db) @
             [\<lparr>search_id = next_rowid (map search_id (search_history (tables db))),
               sh_user_id = SqlInt uid, sh_query = prof, sh_created_at = now\<rparr>]"
    by (simp add: log_search_tables)
  show ?thesis
    using make_recommendation_found [OF assms(1) s] h
    by (auto simp: record_recommendation_result split: sum.splits option.splits)
qed

text \<open>C23: a fine-tuning export that writes its file has one row per feedback rated 3
  or more, in table order, each labelled with the name of the recommended product.\<close>

theorem export_one_row_per_positive_feedback:
  assumes "generate_dataset_for_llm_fine_tuning sv db now = (Inr (Some rows), db')"
  shows "list_all2 (\<lambda>f row. \<exists>r p. find_recommendation (tables db) (fb_recommendation_id f) = Some r \<and>
            find_product (tables db) (r_product_id r) = Some p \<and> snd row = p_name p)
           (filter (\<lambda>f. 3 \<le> rating f) (feedbacks (tables db))) rows"
proof -
  from assms have "export_rows sv db now (filter (\<lambda>f. 3 \<le> rating f) (feedbacks (tables db))) [] =
      (Inr rows, db')"
    by (auto simp: generate_dataset_for_llm_fine_tuning_def Let_def split: if_splits sum.splits prod.splits)
  from export_rows_ok [OF this] show ?thesis by auto
qed

end
