(* ===== verification/Api.thy ===== *)
theory Api
  imports Recommend
begin

text \<open>
  The HTTP endpoints of \<open>run.py\<close>. FastAPI validates the query parameters first and
  answers 422 when a declared bound fails; a handler answers with its payload, with an
  \<open>HTTPException\<close> (404, 403, 409), or with 500 when an exception escapes. Each handler
  is a function of the \<open>DB\<close> object and the clock reading to a response and the
  object after it; \<open>request\<close> lists the endpoints with their parameters and
  \<open>handle_request\<close> dispatches on it, the step function of the served system.
  Proved: feedback is accepted only from the recommendation's owner (403 otherwise), at
  most once (409 after the first, the stored rating kept), with a rating in 0..5 (422
  otherwise); an unknown user gets 404 from the recommendation and search endpoints
  and nothing is written.
\<close>

datatype 'a response =
    Ok 'a
  | HttpError nat string
  | ServerError error

datatype payload =
    ProfileText string
  | RecommendationData pk pk "Product option"
  | ProductList "Product list"
  | FeedbackRecorded
  | Performance "(int \<times> nat) list"
  | Message string

text \<open>\<open>server_host\<close>, \<open>server_port\<close> and \<open>read_root\<close>, the constant greeting
  of \<open>GET /\<close>.\<close>

definition server_host :: string where
  "server_host = ''127.0.0.1''"

definition server_port :: int where
  "server_port = 8000"

definition read_root :: "payload response" where
  "read_root = Ok (Message (''Try ot APIs: http://'' @ server_host @ '':'' @ py_int_str server_port @ ''/docs''))"

definition user_exists :: "Tables \<Rightarrow> pk \<Rightarrow> bool" where
  "user_exists t uid \<longleftrightarrow> find_user t uid \<noteq> None"

definition get_customer_profile :: "'v DB \<Rightarrow> pk \<Rightarrow> payload response" where
  "get_customer_profile db uid =
     (case get_user_profile (tables db) uid of
        Inl e \<Rightarrow> ServerError e
      | Inr s \<Rightarrow> Ok (ProfileText s))"

definition recommend_product ::
  "'v Services \<Rightarrow> 'v DB \<Rightarrow> timestamp \<Rightarrow> pk \<Rightarrow> payload response \<times> 'v DB" where
  "recommend_product sv db now uid =
     (if user_exists (tables db) uid
      then (case make_recommendation_for_customer sv db now uid of
              (Inl e, db') \<Rightarrow> (ServerError e, db')
            | (Inr (pid, rid), db') \<Rightarrow>
                (Ok (RecommendationData uid rid (find_product (tables db') pid)), db'))
      else (HttpError 404 ''User ID not found'', db))"

text \<open>\<open>query\<close>: 1 to 100 characters; \<open>min_price\<close>, \<open>max_price\<close> at least 0;
  \<open>min_stock\<close> at least 1. The search runs with the defaults: vector path on,
  threshold 0.3.\<close>

definition search_products_valid ::
  "string \<Rightarrow> real option \<Rightarrow> real option \<Rightarrow> int option \<Rightarrow> bool" where
  "search_products_valid query min_price max_price min_stock \<longleftrightarrow>
     1 \<le> length query \<and> length query \<le> 100 \<and>
     (case min_price of None \<Rightarrow> True | Some m \<Rightarrow> 0 \<le> m) \<and>
     (case max_price of None \<Rightarrow> True | Some m \<Rightarrow> 0 \<le> m) \<and>
     (case min_stock of None \<Rightarrow> True | Some m \<Rightarrow> 1 \<le> m)"

definition search_products ::
  "'v Services \<Rightarrow> 'v DB \<Rightarrow> timestamp \<Rightarrow> pk \<Rightarrow> string \<Rightarrow> real option \<Rightarrow> real option
   \<Rightarrow> int option \<Rightarrow> payload response \<times> 'v DB" where
  "search_products sv db now uid query min_price max_price min_stock =
     (if \<not> search_products_valid query min_price max_price min_stock
      then (HttpError 422 ''Unprocessable Entity'', db)
      else if user_exists (tables db) uid
      then (case search_product sv db now (Some (SqlInt uid)) (Some query) min_price max_price
                   min_stock True 0.3 of
              (Inl e, db') \<Rightarrow> (ServerError e, db')
            | (Inr ps, db') \<Rightarrow> (Ok (ProductList ps), db'))
      else (HttpError 404 ''User ID not found'', db))"

text \<open>\<open>set_recommendation_feedback\<close>: \<open>.user_id\<close> of a missing recommendation
  raises; a feedback id is tested by truthiness.\<close>

definition set_recommendation_feedback ::
  "'v DB \<Rightarrow> timestamp \<Rightarrow> pk \<Rightarrow> pk \<Rightarrow> int \<Rightarrow> payload response \<times> 'v DB" where
  "set_recommendation_feedback db now uid rid rating_score =
     (if \<not> (0 \<le> rating_score \<and> rating_score \<le> 5)
      then (HttpError 422 ''Unprocessable Entity'', db)
      else (case find_recommendation (tables db) rid of
              None \<Rightarrow> (ServerError AttributeError, db)
            | Some r \<Rightarrow>
                if uid = r_user_id r
                then (case record_recommendation_feedback (tables db) now rid uid rating_score of
                        (fid, t) \<Rightarrow>
                          (if fid \<noteq> None \<and> fid \<noteq> Some 0 then Ok FeedbackRecorded
                           else HttpError 409 ''Feedback for this recommendation has already been submitted.'',
                           db\<lparr>tables := t\<rparr>))
                else (HttpError 403 ''Given user is not authorized to access or interact with this recommendation.'',
                      db)))"

definition get_recommendation_performance :: "'v DB \<Rightarrow> payload response" where
  "get_recommendation_performance db =
     Ok (Performance (summarize_recommendation_feedback_rating (tables db)))"

datatype request =
    ReadRoot
  | GetCustomerProfile pk
  | RecommendProduct pk
  | SearchProducts pk string "real option" "real option" "int option"
  | SetRecommendationFeedback pk pk int
  | GetRecommendationPerformance

fun handle_request ::
  "'v Services \<Rightarrow> 'v DB \<Rightarrow> timestamp \<Rightarrow> request \<Rightarrow> payload response \<times> 'v DB" where
  "handle_request sv db now ReadRoot = (read_root, db)"
| "handle_request sv db now (GetCustomerProfile uid) = (get_customer_profile db uid, db)"
| "handle_request sv db now (RecommendProduct uid) = recommend_product sv db now uid"
| "handle_request sv db now (SearchProducts uid q mn mx ms) = search_products sv db now uid q mn mx ms"
| "handle_request sv db now (SetRecommendationFeedback uid rid r) =
     set_recommendation_feedback db now uid rid r"
| "handle_request sv db now GetRecommendationPerformance = (get_recommendation_performance db, db)"

subsection \<open>Lemmas\<close>

lemma record_feedback_fresh:
  "rid \<notin> fb_recommendation_id ` set (feedbacks t) \<Longrightarrow>
   record_recommendation_feedback t now rid uid r =
     (Some (next_rowid (map recommendation_feedback_id (feedbacks t))),
      t\<lparr>feedbacks := feedbacks t @
         [\<lparr>recommendation_feedback_id = next_rowid (map recommendation_feedback_id (feedbacks t)),
           fb_recommendation_id = rid, fb_user_id = uid, rating = r, fb_created_at = now\<rparr>]\<rparr>)"
  by (simp add: record_recommendation_feedback_def Let_def)

lemma record_feedback_taken:
  "rid \<in> fb_recommendation_id ` set (feedbacks t) \<Longrightarrow>
   record_recommendation_feedback t now rid uid r = (None, t)"
  by (simp add: record_recommendation_feedback_def)

lemma set_feedback_recorded:
  assumes "set_recommendation_feedback db now uid rid r = (Ok FeedbackRecorded, db1)"
  shows "0 \<le> r \<and> r \<le> 5 \<and> (\<exists>rec. find_recommendation (tables db) rid = Some rec \<and> uid = r_user_id rec) \<and>
         rid \<notin> fb_recommendation_id ` set (feedbacks (tables db)) \<and>
         db1 = db\<lparr>tables := snd (record_recommendation_feedback (tables db) now rid uid r)\<rparr>"
  using assms
  by (auto simp: set_recommendation_feedback_def record_recommendation_feedback_def Let_def
      split: if_splits option.splits prod.splits)

subsection \<open>Properties\<close>

text \<open>C7: feedback from a user who does not own the recommendation is refused with 403
  and writes nothing (spec 8, recommendation of user 7 rated by user 8).\<close>

theorem feedback_forbidden_for_other_user:
  assumes "0 \<le> r \<and> r \<le> 5" and "find_recommendation (tables db) rid = Some rec"
    and "uid \<noteq> r_user_id rec"
  shows "set_recommendation_feedback db now uid rid r =
           (HttpError 403 ''Given user is not authorized to access or interact with this recommendation.'', db)"
  using assms by (simp add: set_recommendation_feedback_def)

text \<open>C6: once a feedback is recorded for a recommendation, every later valid feedback
  for it by its owner is answered 409 and changes nothing: the first rating is never
  overwritten.\<close>

theorem feedback_second_attempt_conflict:
  assumes "set_recommendation_feedback db now uid rid r = (Ok FeedbackRecorded, db1)"
    and "0 \<le> r' \<and> r' \<le> 5"
  shows "set_recommendation_feedback db1 now' uid rid r' =
           (HttpError 409 ''Feedback for this recommendation has already been submitted.'', db1)"
proof -
  from set_feedback_recorded [OF assms(1)] obtain rec where
    rec: "find_recommendation (tables db) rid = Some rec" and own: "uid = r_user_id rec"
    and fresh: "rid \<notin> fb_recommendation_id ` set (feedbacks (tables db))"
    and db1: "db1 = db\<lparr>tables := snd (record_recommendation_feedback (tables db) now rid uid r)\<rparr>"
    by blast
  have "find_recommendation (tables db1) rid = Some rec"
    using rec fresh db1 by (simp add: record_feedback_fresh find_recommendation_def)
  moreover have "rid \<in> fb_recommendation_id ` set (feedbacks (tables db1))"
    using fresh db1 by (simp add: record_feedback_fresh)
  ultimately show ?thesis
    using own assms(2) by (simp add: set_recommendation_feedback_def record_feedback_taken)
qed

text \<open>C19: the first valid feedback by the owner is recorded: one row with a fresh id,
  the recommendation, the user and the rating is appended, and the answer is 200.\<close>

theorem feedback_first_attempt_recorded:
  assumes "0 \<le> r \<and> r \<le> 5" and "find_recommendation (tables db) rid = Some rec"
    and "uid = r_user_id rec" and "rid \<notin> fb_recommendation_id ` set (feedbacks (tables db))"
  shows "set_recommendation_feedback db now uid rid r =
           (Ok FeedbackRecorded, db\<lparr>tables := (tables db)\<lparr>feedbacks := feedbacks (tables db) @
              [\<lparr>recommendation_feedback_id = next_rowid (map recommendation_feedback_id (feedbacks (tables db))),
                fb_recommendation_id = rid, fb_user_id = uid, rating = r, fb_created_at = now\<rparr>]\<rparr>\<rparr>)"
proof -
  have "next_rowid (map recommendation_feedback_id (feedbacks (tables db))) \<noteq> 0"
    using next_rowid_pos by (metis less_irrefl)
  with assms show ?thesis
    by (simp add: set_recommendation_feedback_def record_feedback_fresh)
qed

text \<open>A rating outside 0..5 is refused with 422 before anything is read or written.\<close>

theorem feedback_rating_validated:
  assumes "\<not> (0 \<le> r \<and> r \<le> 5)"
  shows "set_recommendation_feedback db now uid rid r = (HttpError 422 ''Unprocessable Entity'', db)"
  using assms by (simp add: set_recommendation_feedback_def)

text \<open>An unknown user id is answered 404 by the recommendation endpoint, and by the
  search endpoint once its parameters are valid, and nothing is written (no history row,
  no recommendation).\<close>

theorem unknown_user_not_found:
  assumes "find_user (tables db) uid = None"
  shows "recommend_product sv db now uid = (HttpError 404 ''User ID not found'', db) \<and>
         (search_products_valid q mn mx ms \<longrightarrow>
            search_products sv db now uid q mn mx ms = (HttpError 404 ''User ID not found'', db))"
  using assms by (simp add: recommend_product_def search_products_def user_exists_def)

end
