(* ===== verification/Populate.thy ===== *)
theory Populate
  imports Api "HOL-Library.Stream"
begin

text \<open>
  The seeding script \<open>populate_synthetic_db.py\<close>, run once by hand against a fresh
  database: ten categories, fifty products (each recorded and embedded through
  \<open>DB.record_product\<close>), a hundred users, random search histories and random
  recommendations with feedback. The random choices are read from an explicit stream,
  one element per draw of the script. Proved: seeding a fresh catalog records every
  category and product and leaves every product's vector in sync; the retry loop of
  \<open>generate_users\<close> returns exactly when the stream offers an unused e-mail, so it never
  returns once the hundred possible e-mails are taken; the user loop of a search-history
  round returns exactly when a user outside \<open>exclude_user_ids\<close> is drawn, those users
  never get a history, and a round records one to three searches (\<open>random.sample\<close>
  never raises there).
\<close>

subsection \<open>Categories and products\<close>

definition seed_categories :: "(string \<times> string) list" where
  "seed_categories =
     [(''Tech'', ''All about the latest gadgets, electronics, and technology.''),
      (''Fitness'', ''Equipment and products for a healthy and active lifestyle.''),
      (''Books'', ''A collection of fiction, non-fiction, and educational books.''),
      (''Music'', ''Instruments, accessories, and everything musical.''),
      (''Fashion'', ''Clothing, accessories, and the latest fashion trends.''),
      (''Gaming'', ''Video games, consoles, and accessories for gamers.''),
      (''Home Decor'', ''Beautiful items to enhance your living space.''),
      (''Travel'', ''Luggage, maps, and essentials for the travel enthusiast.''),
      (''Sports'', ''Gear and equipment for various sports activities.''),
      (''Cooking'', ''Tools, utensils, and appliances for the kitchen.'')]"

definition seed_products :: "(pk \<times> (string \<times> string \<times> real \<times> int) list) list" where
  "seed_products =
     [(1,
       [(''Smartphone'', ''Latest model with high-end specs'', 1000, 50),
        (''Laptop'', ''Gaming laptop with powerful GPU'', 1500, 30),
        (''Smartwatch'', ''Track your fitness and health'', 250, 100),
        (''Wireless Earbuds'', ''Bluetooth earbuds with noise cancellation'', 150, 200),
        (''Tablet'', ''Portable tablet for reading and work'', 400, 80)]),
      (2,
       [(''Dumbbells'', ''Adjustable dumbbells for home gym'', 150, 40),
        (''Treadmill'', ''Foldable treadmill with multiple workout modes'', 800, 10),
        (''Yoga Mat'', ''Eco-friendly yoga mat for comfort'', 25, 120),
        (''Resistance Bands'', ''Set of resistance bands for strength training'', 35, 60),
        (''Protein Powder'', ''Whey protein for muscle gain'', 50, 200)]),
      (3,
       [(''Novel Book'', ''Fiction novel by a best-selling author'', 15, 300),
        (''Textbook'', ''Comprehensive guide on computer science'', 60, 100),
        (''Cookbook'', ''Healthy recipes for daily meals'', 25, 150),
        (''Biography'', ''Autobiography of a famous celebrity'', 20, 200),
        (''Children's Book'', ''Fun and educational book for kids'', 10, 180)]),
      (4,
       [(''Guitar'', ''Electric guitar with amp for beginners'', 300, 20),
        (''Piano'', ''Grand piano for home use'', 5000, 5),
        (''Drums'', ''Complete drum set with cymbals'', 800, 8),
        (''Violin'', ''Professional violin for music students'', 400, 15),
        (''Headphones'', ''Noise-canceling headphones for musicians'', 200, 50)]),
      (5,
       [(''Jacket'', ''Stylish leather jacket for winter'', 120, 70),
        (''Sneakers'', ''Comfortable sneakers for everyday wear'', 80, 150),
        (''Watch'', ''Luxury wristwatch with a stainless steel strap'', 200, 50),
        (''Handbag'', ''Designer handbag for women'', 150, 40),
        (''Sunglasses'', ''Polarized sunglasses for sun protection'', 60, 200)]),
      (6,
       [(''PlayStation 5'', ''Next-gen gaming console with high-speed SSD'', 500, 10),
        (''Xbox Series X'', ''Powerful gaming console for smooth gameplay'', 500, 15),
        (''Gaming Chair'', ''Ergonomic chair for long gaming sessions'', 200, 40),
        (''VR Headset'', ''Virtual reality headset for immersive gaming'', 300, 25),
        (''Game Controller'', ''Wireless controller for gaming consoles'', 40, 100)]),
      (7,
       [(''Sofa'', ''Luxury leather sofa with built-in USB ports'', 1200, 15),
        (''Dining Table'', ''Wooden dining table with six chairs'', 600, 25),
        (''Lamp'', ''Modern table lamp with adjustable brightness'', 45, 150),
        (''Coffee Table'', ''Glass top coffee table for living room'', 250, 70),
        (''Wall Art'', ''Framed abstract art for home decor'', 80, 200)]),
      (8,
       [(''Backpack'', ''Durable backpack for hiking and traveling'', 50, 100),
        (''Luggage Set'', ''3-piece luggage set with TSA lock'', 150, 30),
        (''Travel Pillow'', ''Comfortable neck pillow for long flights'', 20, 150),
        (''Camera'', ''DSLR camera with zoom lens'', 500, 10),
        (''Travel Adapter'', ''Universal plug adapter for global travel'', 30, 200)]),
      (9,
       [(''Football'', ''Official size football for training'', 25, 80),
        (''Basketball'', ''High-quality basketball for outdoor play'', 30, 100),
        (''Tennis Racket'', ''Professional racket for serious players'', 100, 60),
        (''Baseball Glove'', ''Soft leather baseball glove for youth'', 50, 120),
        (''Soccer Cleats'', ''Premium soccer cleats for performance'', 80, 70)]),
      (10,
       [(''Blender'', ''High-speed blender for smoothies'', 80, 200),
        (''Coffee Maker'', ''Automatic coffee maker with programmable features'', 100, 150),
        (''Toaster'', ''2-slice toaster with adjustable heat settings'', 25, 100),
        (''Microwave'', ''Compact microwave for quick meals'', 75, 80),
        (''Air Fryer'', ''Healthy air fryer for crisp cooking'', 120, 50)])]"

text \<open>\<open>generate_categories\<close>: an exception of \<open>record_category\<close> ends the script.\<close>

fun record_categories :: "'v DB \<Rightarrow> timestamp \<Rightarrow> (string \<times> string) list \<Rightarrow> unit result \<times> 'v DB" where
  "record_categories db now [] = (Inr (), db)"
| "record_categories db now ((name, descr) # cs) =
     (case record_category (tables db) now name (Some descr) of
        (Inl e, t) \<Rightarrow> (Inl e, db\<lparr>tables := t\<rparr>)
      | (Inr _, t) \<Rightarrow> record_categories (db\<lparr>tables := t\<rparr>) now cs)"

definition generate_categories :: "'v DB \<Rightarrow> timestamp \<Rightarrow> unit result \<times> 'v DB" where
  "generate_categories db now = record_categories db now seed_categories"

text \<open>\<open>generate_products\<close>: the inner and the outer loop, in the order of the dict.\<close>

fun record_products ::
  "'v Services \<Rightarrow> 'v DB \<Rightarrow> timestamp \<Rightarrow> pk \<Rightarrow> (string \<times> string \<times> real \<times> int) list \<Rightarrow> unit result \<times> 'v DB" where
  "record_products sv db now cid [] = (Inr (), db)"
| "record_products sv db now cid ((name, descr, pr, st) # ps) =
     (case record_product sv db now cid name (Some descr) pr st of
        (Inl e, db') \<Rightarrow> (Inl e, db')
      | (Inr _, db') \<Rightarrow> record_products sv db' now cid ps)"

fun record_product_groups ::
  "'v Services \<Rightarrow> 'v DB \<Rightarrow> timestamp \<Rightarrow> (pk \<times> (string \<times> string \<times> real \<times> int) list) list
   \<Rightarrow> unit result \<times> 'v DB" where
  "record_product_groups sv db now [] = (Inr (), db)"
| "record_product_groups sv db now ((cid, ps) # gs) =
     (case record_products sv db now cid ps of
        (Inl e, db') \<Rightarrow> (Inl e, db')
      | (Inr _, db') \<Rightarrow> record_product_groups sv db' now gs)"

definition generate_products :: "'v Services \<Rightarrow> 'v DB \<Rightarrow> timestamp \<Rightarrow> unit result \<times> 'v DB" where
  "generate_products sv db now = record_product_groups sv db now seed_products"

definition seed_category_rows :: "timestamp \<Rightarrow> Category list" where
  "seed_category_rows now =
     map (\<lambda>(i, name, descr). \<lparr>category_id = i, cat_name = name, cat_description = Some descr,
                            c_created_at = now, c_updated_at = now\<rparr>)
       (zip [1..10] seed_categories)"

subsection \<open>Users\<close>

definition seed_first_names :: "string list" where
  "seed_first_names = [''John'', ''Jane'', ''Talia'', ''Emily'', ''Michael'', ''Sarah'', ''Chris'',
     ''Jessica'', ''David'', ''Laura'']"

definition seed_last_names :: "string list" where
  "seed_last_names = [''Doe'', ''Smith'', ''Johnson'', ''Ling'', ''Brown'', ''Lee'', ''Davis'',
     ''Taylor'', ''Rai'', ''Williams'']"

definition seed_interests :: "string list" where
  "seed_interests = [''gym equipment'', ''musical instruments'', ''tech gadgets'', ''books'',
     ''movies'', ''cooking'', ''traveling'', ''gaming'', ''sports'', ''photography'']"

text \<open>The draws of one attempt of the retry loop: the two \<open>random.choice\<close> of a name
  (an index, taken modulo the length of the list), \<open>random.random()\<close>, and the two
  \<open>random.choice\<close> of an interest.\<close>

record user_draw =
  first_pick :: nat
  last_pick :: nat
  coin :: real
  interest_pick1 :: nat
  interest_pick2 :: nat

definition pick :: "'a list \<Rightarrow> nat \<Rightarrow> 'a" where
  "pick xs i = xs ! (i mod length xs)"

definition user_email :: "user_draw \<Rightarrow> string" where
  "user_email d =
     py_lower (pick seed_first_names (first_pick d)) @ ''.'' @
     py_lower (pick seed_last_names (last_pick d)) @ ''@example.com''"

definition user_description :: "user_draw \<Rightarrow> string" where
  "user_description d =
     (if coin d < 0.2 then []
      else ''I love '' @ pick seed_interests (interest_pick1 d) @ '' and '' @
           pick seed_interests (interest_pick2 d) @ ''.'')"

text \<open>The \<open>while True\<close> loop of one user: a failing \<open>record_user\<close> (a taken e-mail)
  is caught and the loop draws again. It need not return, so it is a partial function
  into \<open>option\<close>: \<open>None\<close> is a loop that runs forever.\<close>

partial_function (option) add_user_loop ::
  "Tables \<Rightarrow> timestamp \<Rightarrow> user_draw stream \<Rightarrow> (Tables \<times> user_draw stream) option" where
  "add_user_loop t now ds =
     (case record_user t now (user_email (shd ds)) (Some (user_description (shd ds))) of
        (Inl _, t') \<Rightarrow> add_user_loop t' now (stl ds)
      | (Inr _, t') \<Rightarrow> Some (t', stl ds))"

text \<open>\<open>generate_users\<close>: \<open>for _ in range(100)\<close>.\<close>

fun generate_users_n ::
  "nat \<Rightarrow> Tables \<Rightarrow> timestamp \<Rightarrow> user_draw stream \<Rightarrow> (Tables \<times> user_draw stream) option" where
  "generate_users_n 0 t now ds = Some (t, ds)"
| "generate_users_n (Suc n) t now ds =
     (case add_user_loop t now ds of
        None \<Rightarrow> None
      | Some (t', ds') \<Rightarrow> generate_users_n n t' now ds')"

definition generate_users ::
  "Tables \<Rightarrow> timestamp \<Rightarrow> user_draw stream \<Rightarrow> (Tables \<times> user_draw stream) option" where
  "generate_users t now ds = generate_users_n 100 t now ds"

definition seed_emails :: "string list" where
  "seed_emails =
     concat (map (\<lambda>f. map (\<lambda>l. py_lower f @ ''.'' @ py_lower l @ ''@example.com'') seed_last_names)
               seed_first_names)"

subsection \<open>Random draws\<close>

text \<open>An integer draw \<open>randint(a, b)\<close> is read into its range modulo its size, a real
  draw \<open>uniform(a, b)\<close> is clamped to it. \<open>random.sample(xs, k)\<close> raises a
  \<open>ValueError\<close> when \<open>k\<close> exceeds the length of \<open>xs\<close>; otherwise it takes \<open>k\<close>
  elements at distinct positions: the \<open>j\<close>-th draw chooses one of the elements not yet
  taken (modulo their number) and removes it (\<open>sample_positions\<close>).\<close>

definition randint :: "int \<Rightarrow> int \<Rightarrow> nat \<Rightarrow> int" where
  "randint a b n = a + int (n mod nat (b - a + 1))"

definition uniform :: "real \<Rightarrow> real \<Rightarrow> real \<Rightarrow> real" where
  "uniform a b x = min b (max a x)"

fun sample_positions :: "'a list \<Rightarrow> (nat \<Rightarrow> nat) \<Rightarrow> nat \<Rightarrow> nat \<Rightarrow> 'a list" where
  "sample_positions xs pos j 0 = []"
| "sample_positions xs pos j (Suc k) =
     (let i = pos j mod length xs
      in xs ! i # sample_positions (take i xs @ drop (Suc i) xs) pos (Suc j) k)"

definition py_sample :: "'a list \<Rightarrow> (nat \<Rightarrow> nat) \<Rightarrow> nat \<Rightarrow> 'a list result" where
  "py_sample xs pos k =
     (if k \<le> length xs then Inr (sample_positions xs pos 0 k) else Inl ValueError)"

subsection \<open>Search histories\<close>

definition seed_searches :: "string list" where
  "seed_searches =
     [''Laptop'', ''Phone Case'', ''Smart Watch'', ''Headphones'', ''Keyboard'', ''Wireless Earbuds'',
      ''Yoga Mat'', ''Protein Powder'', ''Dumbbells'', ''Treadmill'', ''Coffee Maker'', ''Microwave'',
      ''Guitar'', ''Piano'', ''Basketball'', ''Football'', ''Running Shoes'', ''Sunglasses'', ''Camera'',
      ''Suitcase'', ''Travel Adapter'', ''Air Fryer'', ''Vegan Recipes'', ''Cooking Tools'', ''Home Decor'']"

definition exclude_user_ids :: "pk list" where
  "exclude_user_ids = [10, 20, 30, 40, 50, 60, 70, 80, 90, 99]"

text \<open>The ten \<open>if "<interest>" in interests: user_searches.extend([...])\<close> tests, in
  the script's order; \<open>in\<close> on strings is the substring test.\<close>

definition interest_searches :: "(string \<times> string list) list" where
  "interest_searches =
     [(''gym'', [''Dumbbells'', ''Resistance Bands'', ''Yoga Mat'', ''Protein Powder'', ''Treadmill'']),
      (''musical'', [''Guitar'', ''Piano'', ''Drums'', ''Headphones'', ''Violin'']),
      (''tech'', [''Smartphone'', ''Laptop'', ''Wireless Earbuds'', ''Keyboard'', ''Tablet'', ''Smart Watch'']),
      (''books'', [''Fiction'', ''Non-fiction'', ''Mystery'', ''Biography'', ''Cookbook'', ''Children's Book'']),
      (''movies'', [''Action Movies'', ''Comedy Movies'', ''Drama Movies'', ''Horror Movies'', ''Documentary'']),
      (''cooking'', [''Cookbook'', ''Kitchen Appliances'', ''Pots and Pans'', ''Spices'', ''Cooking Utensils'']),
      (''traveling'', [''Suitcase'', ''Travel Adapter'', ''Camera'', ''Backpack'', ''Luggage'', ''Travel Pillow'']),
      (''gaming'', [''Video Games'', ''Gaming Console'', ''Gaming Mouse'', ''Gaming Headset'', ''PC Gaming'']),
      (''sports'', [''Football'', ''Basketball'', ''Running Shoes'', ''Soccer Ball'', ''Tennis Racket'']),
      (''photography'', [''Camera'', ''Lens'', ''Tripod'', ''Drone'', ''Photo Editing Software''])]"

definition user_interest_searches :: "string \<Rightarrow> string list" where
  "user_interest_searches interests =
     concat (map snd (filter (\<lambda>(k, _). sublist k interests) interest_searches))"

text \<open>The draws of one of the 500 rounds: the \<open>randint(1, 100)\<close> of each pass of the
  \<open>while True\<close> loop, the three \<open>random.choice(random_searches)\<close>, the
  \<open>randint(1, 3)\<close> sample size and the positions of the sample.\<close>

record search_draw =
  sd_users :: "nat stream"
  sd_choices :: "nat \<Rightarrow> nat"
  sd_count :: nat
  sd_position :: "nat \<Rightarrow> nat"

text \<open>\<open>while True: user_id = random.randint(1, 100); if user_id not in exclude_user_ids:
  break\<close>: it runs until the stream offers a user that is not excluded, and forever when it
  never does.\<close>

partial_function (option) search_user_loop :: "nat stream \<Rightarrow> pk option" where
  "search_user_loop ds =
     (let uid = randint 1 100 (shd ds)
      in if uid \<notin> set exclude_user_ids then Some uid else search_user_loop (stl ds))"

definition round_searches :: "search_draw \<Rightarrow> string \<Rightarrow> string list result" where
  "round_searches d interests =
     (let qs = user_interest_searches interests @ map (\<lambda>j. pick seed_searches (sd_choices d j)) [0..<3]
      in py_sample qs (sd_position d) (nat (randint 1 3 (sd_count d))))"

fun record_search_queries :: "Tables \<Rightarrow> timestamp \<Rightarrow> pk \<Rightarrow> string list \<Rightarrow> Tables" where
  "record_search_queries t now uid [] = t"
| "record_search_queries t now uid (q # qs) =
     record_search_queries (snd (record_search_history t now (SqlInt uid) (Some q))) now uid qs"

text \<open>One round; \<open>None\<close> is the user loop that never ends. \<open>get_data\<close> of a missing
  user is \<open>None\<close> and \<open>None['profile_description']\<close>, like \<open>"gym" in None\<close>, raises
  a \<open>TypeError\<close>.\<close>

definition generate_search_history_round ::
  "Tables \<Rightarrow> timestamp \<Rightarrow> search_draw \<Rightarrow> (unit result \<times> Tables) option" where
  "generate_search_history_round t now d =
     map_option
       (\<lambda>uid. case find_user t uid of
                 None \<Rightarrow> (Inl TypeError, t)
               | Some u \<Rightarrow>
                   (case profile_description u of
                      None \<Rightarrow> (Inl TypeError, t)
                    | Some interests \<Rightarrow>
                        (case round_searches d interests of
                           Inl e \<Rightarrow> (Inl e, t)
                         | Inr qs \<Rightarrow> (Inr (), record_search_queries t now uid qs))))
       (search_user_loop (sd_users d))"

fun generate_search_histories_n ::
  "nat \<Rightarrow> Tables \<Rightarrow> timestamp \<Rightarrow> search_draw stream \<Rightarrow> (unit result \<times> Tables) option" where
  "generate_search_histories_n 0 t now ds = Some (Inr (), t)"
| "generate_search_histories_n (Suc n) t now ds =
     (case generate_search_history_round t now (shd ds) of
        None \<Rightarrow> None
      | Some (Inl e, t1) \<Rightarrow> Some (Inl e, t1)
      | Some (Inr _, t1) \<Rightarrow> generate_search_histories_n n t1 now (stl ds))"

definition generate_search_histories ::
  "Tables \<Rightarrow> timestamp \<Rightarrow> search_draw stream \<Rightarrow> (unit result \<times> Tables) option" where
  "generate_search_histories t now ds = generate_search_histories_n 500 t now ds"

subsection \<open>Recommendations\<close>

text \<open>The draws of one round of \<open>generate_recommendations\<close>: \<open>randint(1, 100)\<close> for
  the user, \<open>randint(1, 3)\<close> for the sample size, the positions \<open>random.sample\<close>
  takes (each read modulo the number of candidates), and for the \<open>j\<close>-th recorded
  product a \<open>uniform(0.5, 1)\<close> score and a \<open>randint(3, 5)\<close> rating.\<close>

record rec_draw =
  rd_user :: nat
  rd_count :: nat
  rd_position :: "nat \<Rightarrow> nat"
  rd_score :: "nat \<Rightarrow> real"
  rd_rating :: "nat \<Rightarrow> nat"

text \<open>When \<open>random.sample(products, k)\<close> raises, the script's \<open>except\<close> skips the
  round when there is no product and otherwise keeps the whole list.\<close>

definition sampled_products :: "rec_draw \<Rightarrow> Product list \<Rightarrow> Product list" where
  "sampled_products d ps =
     (case py_sample ps (rd_position d) (nat (randint 1 3 (rd_count d))) of
        Inl _ \<Rightarrow> ps
      | Inr s \<Rightarrow> s)"

text \<open>The inner loop: a recommendation, then its feedback by the same user.\<close>

fun record_seed_recommendations ::
  "Tables \<Rightarrow> timestamp \<Rightarrow> pk \<Rightarrow> rec_draw \<Rightarrow> nat \<Rightarrow> Product list \<Rightarrow> Tables" where
  "record_seed_recommendations t now uid d j [] = t"
| "record_seed_recommendations t now uid d j (p # ps) =
     (case record_recommendation t now uid (product_id p) (uniform 0.5 1 (rd_score d j)) of
        (rid, t1) \<Rightarrow>
          record_seed_recommendations
            (snd (record_recommendation_feedback t1 now rid uid (randint 3 5 (rd_rating d j))))
            now uid d (Suc j) ps)"

text \<open>One round: the profile of a user that does not exist fails on a subscript of
  \<open>None\<close>; the search runs without a user, so it logs nothing.\<close>

definition generate_recommendation_round ::
  "'v Services \<Rightarrow> 'v DB \<Rightarrow> timestamp \<Rightarrow> rec_draw \<Rightarrow> unit result \<times> 'v DB" where
  "generate_recommendation_round sv db now d =
     (let uid = randint 1 100 (rd_user d)
      in case find_user (tables db) uid of
           None \<Rightarrow> (Inl TypeError, db)
         | Some u \<Rightarrow>
             (case search_product sv db now None (profile_description u) None None None True 0.3 of
                (Inl e, db1) \<Rightarrow> (Inl e, db1)
              | (Inr ps, db1) \<Rightarrow>
                  (Inr (), db1\<lparr>tables := record_seed_recommendations (tables db1) now uid d 0
                                           (sampled_products d ps)\<rparr>)))"

text \<open>\<open>generate_recommendations\<close>: \<open>for _ in range(300)\<close>.\<close>

fun generate_recommendations_n ::
  "nat \<Rightarrow> 'v Services \<Rightarrow> 'v DB \<Rightarrow> timestamp \<Rightarrow> rec_draw stream \<Rightarrow> unit result \<times> 'v DB" where
  "generate_recommendations_n 0 sv db now ds = (Inr (), db)"
| "generate_recommendations_n (Suc n) sv db now ds =
     (case generate_recommendation_round sv db now (shd ds) of
        (Inl e, db1) \<Rightarrow> (Inl e, db1)
      | (Inr _, db1) \<Rightarrow> generate_recommendations_n n sv db1 now (stl ds))"

definition generate_recommendations ::
  "'v Services \<Rightarrow> 'v DB \<Rightarrow> timestamp \<Rightarrow> rec_draw stream \<Rightarrow> unit result \<times> 'v DB" where
  "generate_recommendations sv db now ds = generate_recommendations_n 300 sv db now ds"

subsection \<open>The script\<close>

text \<open>The module body runs the five generators in order; an exception in one of them
  ends the script, a loop that never ends is \<open>None\<close>. Each generator reads its own
  stream of draws.\<close>

definition populate ::
  "'v Services \<Rightarrow> 'v DB \<Rightarrow> timestamp \<Rightarrow> user_draw stream \<Rightarrow> search_draw stream \<Rightarrow>
   rec_draw stream \<Rightarrow> (unit result \<times> 'v DB) option" where
  "populate sv db now uds sds rds =
     (case generate_users (tables db) now uds of
        None \<Rightarrow> None
      | Some (t1, _) \<Rightarrow>
          (case generate_categories (db\<lparr>tables := t1\<rparr>) now of
             (Inl e, db2) \<Rightarrow> Some (Inl e, db2)
           | (Inr _, db2) \<Rightarrow>
               (case generate_products sv db2 now of
                  (Inl e, db3) \<Rightarrow> Some (Inl e, db3)
                | (Inr _, db3) \<Rightarrow>
                    (case generate_search_histories (tables db3) now sds of
                       None \<Rightarrow> None
                     | Some (Inl e, t4) \<Rightarrow> Some (Inl e, db3\<lparr>tables := t4\<rparr>)
                     | Some (Inr _, t4) \<Rightarrow>
                         Some (generate_recommendations sv (db3\<lparr>tables := t4\<rparr>) now rds)))))"

subsection \<open>Lemmas\<close>

lemma generate_categories_fresh:
  assumes "categories (tables db) = []"
  shows "generate_categories db now =
           (Inr (), db\<lparr>tables := (tables db)\<lparr>categories := seed_category_rows now\<rparr>\<rparr>)"
  using assms
  by (simp add: generate_categories_def seed_categories_def seed_category_rows_def
      record_category_def next_rowid_def upto.simps)

lemma record_products_sync:
  "embedding_in_sync sv db \<Longrightarrow> find_category (tables db) cid \<noteq> None \<Longrightarrow>
   record_products sv db now cid ps = (r, db') \<Longrightarrow>
   r = Inr () \<and> embedding_in_sync sv db' \<and> categories (tables db') = categories (tables db) \<and>
   length (products (tables db')) = length (products (tables db)) + length ps"
proof (induction ps arbitrary: db)
  case Nil
  then show ?case by simp
next
  case (Cons q ps)
  obtain name descr pr st where q: "q = (name, descr, pr, st)"
    by (metis prod.exhaust)
  obtain c where c: "find_category (tables db) cid = Some c"
    using Cons.prems(2) by blast
  let ?db1 = "snd (record_product sv db now cid name (Some descr) pr st)"
  from record_product_in_sync [OF Cons.prems(1) c]
  have ok: "fst (record_product sv db now cid name (Some descr) pr st) = Inr ()"
    and sync1: "embedding_in_sync sv ?db1"
    by blast+
  have t1: "tables ?db1 = (tables db)\<lparr>products := products (tables db) @
      [\<lparr>product_id = next_rowid (map product_id (products (tables db))), p_category_id = cid,
        p_name = name, p_description = Some descr, price = pr, stock = st, p_created_at = now,
        p_updated_at = now\<rparr>]\<rparr>"
    by (rule record_product_tables)
  have rec: "record_products sv ?db1 now cid ps = (r, db')"
    using Cons.prems(3) ok q by (simp add: case_prod_unfold split: sum.splits)
  have "find_category (tables ?db1) cid \<noteq> None"
    using c t1 by simp
  from Cons.IH [OF sync1 this rec] t1 show ?case
    by simp
qed

lemma record_product_groups_sync:
  "embedding_in_sync sv db \<Longrightarrow> (\<forall>(cid, ps)\<in>set gs. find_category (tables db) cid \<noteq> None) \<Longrightarrow>
   record_product_groups sv db now gs = (r, db') \<Longrightarrow>
   r = Inr () \<and> embedding_in_sync sv db' \<and>
   length (products (tables db')) = length (products (tables db)) + sum_list (map (length \<circ> snd) gs)"
proof (induction gs arbitrary: db)
  case Nil
  then show ?case by simp
next
  case (Cons g gs)
  obtain cid ps where g: "g = (cid, ps)"
    by (metis prod.exhaust)
  obtain r1 db1 where r1: "record_products sv db now cid ps = (r1, db1)"
    by (metis prod.exhaust)
  have "find_category (tables db) cid \<noteq> None"
    using Cons.prems(2) g by auto
  from record_products_sync [OF Cons.prems(1) this r1]
  have ok: "r1 = Inr ()" and sync1: "embedding_in_sync sv db1"
    and cats: "categories (tables db1) = categories (tables db)"
    and len: "length (products (tables db1)) = length (products (tables db)) + length ps"
    by blast+
  have "\<forall>(cid, ps)\<in>set gs. find_category (tables db1) cid \<noteq> None"
    using Cons.prems(2) cats by (auto simp: find_category_def)
  moreover have "record_product_groups sv db1 now gs = (r, db')"
    using Cons.prems(3) g r1 ok by simp
  ultimately show ?case
    using Cons.IH [OF sync1] len g by simp
qed

lemma record_user_taken:
  "em \<in> email ` set (users t) \<Longrightarrow>
   record_user t now em d = (Inl (IntegrityError ''UNIQUE constraint failed: user.email''), t)"
  by (simp add: record_user_def)

lemma record_user_fresh:
  "em \<notin> email ` set (users t) \<Longrightarrow>
   record_user t now em d = (Inr (), t\<lparr>users := users t @ [\<lparr>user_id = next_rowid (map user_id (users t)),
      email = em, profile_description = d, u_created_at = now, u_updated_at = now\<rparr>]\<rparr>)"
  by (simp add: record_user_def)

text \<open>When the loop returns, the draw it used is the first with an unused e-mail.\<close>

lemma add_user_loop_Some:
  assumes "add_user_loop t now ds = Some y"
  shows "\<exists>n. user_email (ds !! n) \<notin> email ` set (users t) \<and>
       (\<forall>j<n. user_email (ds !! j) \<in> email ` set (users t)) \<and>
       y = (snd (record_user t now (user_email (ds !! n)) (Some (user_description (ds !! n)))),
            sdrop (Suc n) ds)"
  using assms
proof (induction rule: add_user_loop.raw_induct [rotated, consumes 1])
  case (1 loop t now ds y)
  show ?case
  proof (cases "user_email (shd ds) \<in> email ` set (users t)")
    case True
    then have "loop t now (stl ds) = Some y"
      using "1"(2) by (simp add: record_user_taken)
    from "1"(1) [OF this] obtain n where
      n: "user_email (stl ds !! n) \<notin> email ` set (users t)"
        "\<forall>j<n. user_email (stl ds !! j) \<in> email ` set (users t)"
        "y = (snd (record_user t now (user_email (stl ds !! n)) (Some (user_description (stl ds !! n)))),
              sdrop (Suc n) (stl ds))"
      by blast
    have "\<forall>j<Suc n. user_email (ds !! j) \<in> email ` set (users t)"
      using True n(2) by (auto simp: less_Suc_eq_0_disj)
    with n show ?thesis
      by (intro exI [of _ "Suc n"]) simp
  next
    case False
    then have "y = (snd (record_user t now (user_email (shd ds)) (Some (user_description (shd ds)))), stl ds)"
      using "1"(2) by (simp add: record_user_fresh)
    with False show ?thesis
      by (intro exI [of _ 0]) simp
  qed
qed

lemma add_user_loop_shd_fresh:
  "user_email (shd ds) \<notin> email ` set (users t) \<Longrightarrow>
   add_user_loop t now ds =
     Some (snd (record_user t now (user_email (shd ds)) (Some (user_description (shd ds)))), stl ds)"
  by (simp add: add_user_loop.simps record_user_fresh)

lemma add_user_loop_fresh_draw:
  "user_email (ds !! n) \<notin> email ` set (users t) \<Longrightarrow> \<exists>r. add_user_loop t now ds = Some r"
proof (induction n arbitrary: ds)
  case 0
  then show ?case
    by (simp add: add_user_loop.simps record_user_fresh)
next
  case (Suc n)
  show ?case
  proof (cases "user_email (shd ds) \<in> email ` set (users t)")
    case True
    have "\<exists>r. add_user_loop t now (stl ds) = Some r"
      using Suc by simp
    with True show ?thesis
      by (simp add: add_user_loop.simps record_user_taken)
  next
    case False
    then show ?thesis
      by (simp add: add_user_loop.simps record_user_fresh)
  qed
qed

lemma pick_mem: "xs \<noteq> [] \<Longrightarrow> pick xs i \<in> set xs"
  by (simp add: pick_def)

lemma user_email_seed: "user_email d \<in> set seed_emails"
proof -
  have "pick seed_first_names (first_pick d) \<in> set seed_first_names"
    by (rule pick_mem) (simp add: seed_first_names_def)
  moreover have "pick seed_last_names (last_pick d) \<in> set seed_last_names"
    by (rule pick_mem) (simp add: seed_last_names_def)
  ultimately show ?thesis
    unfolding user_email_def seed_emails_def by auto
qed

lemma card_seed_emails: "card (set seed_emails) = 100"
  by (simp add: seed_emails_def seed_first_names_def seed_last_names_def py_lower_def
      py_lower_char_def py_is_upper_def)

lemma generate_users_n_add:
  "generate_users_n (n + m) t now ds =
     (case generate_users_n n t now ds of None \<Rightarrow> None | Some (t', ds') \<Rightarrow> generate_users_n m t' now ds')"
  by (induction n arbitrary: t ds) (auto split: option.splits)

text \<open>Each round adds one user with an e-mail of the script's hundred, unused before.\<close>

lemma generate_users_n_emails:
  "generate_users_n n t now ds = Some (t', ds') \<Longrightarrow> distinct (map email (users t)) \<Longrightarrow>
   set (map email (users t)) \<subseteq> set seed_emails \<Longrightarrow>
   distinct (map email (users t')) \<and> set (map email (users t')) \<subseteq> set seed_emails \<and>
   length (users t') = length (users t) + n"
proof (induction n arbitrary: t ds)
  case 0
  then show ?case by simp
next
  case (Suc n)
  then obtain t1 ds1 where loop: "add_user_loop t now ds = Some (t1, ds1)"
    and rest: "generate_users_n n t1 now ds1 = Some (t', ds')"
    by (auto split: option.splits)
  from add_user_loop_Some [OF loop] obtain k where
    fresh: "user_email (ds !! k) \<notin> email ` set (users t)"
    and t1: "t1 = snd (record_user t now (user_email (ds !! k)) (Some (user_description (ds !! k))))"
    by auto
  have "distinct (map email (users t1)) \<and> set (map email (users t1)) \<subseteq> set seed_emails \<and>
        length (users t1) = Suc (length (users t))"
    using Suc.prems(2,3) fresh t1 user_email_seed by (simp add: record_user_fresh)
  with Suc.IH [OF rest] show ?case
    by simp
qed


lemma sample_positions_mset: "k \<le> length xs \<Longrightarrow> mset (sample_positions xs pos j k) \<subseteq># mset xs"
proof (induction xs pos j k rule: sample_positions.induct)
  case (1 xs pos j)
  then show ?case by simp
next
  case (2 xs pos j k)
  define i where "i = pos j mod length xs"
  have "0 < length xs"
    using "2.prems" by linarith
  then have i: "i < length xs"
    by (simp add: i_def)
  have "mset (sample_positions (take i xs @ drop (Suc i) xs) pos (Suc j) k) \<subseteq>#
        mset (take i xs @ drop (Suc i) xs)"
    using "2.IH" [of i] "2.prems" i by (simp add: i_def)
  then show ?case
    using mset_remove_nth [OF i] by (simp add: i_def [symmetric] Let_def)
qed


lemma py_sample_subset: "py_sample xs pos k = Inr ys \<Longrightarrow> set ys \<subseteq> set xs"
  by (metis py_sample_def sample_positions_mset set_mset_mono set_mset_mset sum.inject(2) sum.simps(4))


lemma search_user_loop_Some:
  "search_user_loop ds = Some u \<Longrightarrow>
   u \<notin> set exclude_user_ids \<and> (\<exists>n. u = randint 1 100 (ds !! n))"
proof (induction rule: search_user_loop.raw_induct [rotated, consumes 1])
  case (1 loop ds u)
  show ?case
  proof (cases "randint 1 100 (shd ds) \<in> set exclude_user_ids")
    case True
    then have "loop (stl ds) = Some u"
      using "1"(2) by (simp add: Let_def)
    then obtain n where "u \<notin> set exclude_user_ids" "u = randint 1 100 (stl ds !! n)"
      using "1"(1) by blast
    then show ?thesis
      by (metis snth.simps(2))
  next
    case False
    then show ?thesis
      using "1"(2) by (metis option.inject snth.simps(1))
  qed
qed

lemma search_user_loop_shd:
  "randint 1 100 (shd ds) \<notin> set exclude_user_ids \<Longrightarrow> search_user_loop ds = Some (randint 1 100 (shd ds))"
  by (simp add: search_user_loop.simps)

lemma search_user_loop_draw:
  "randint 1 100 (ds !! n) \<notin> set exclude_user_ids \<Longrightarrow> \<exists>u. search_user_loop ds = Some u"
proof (induction n arbitrary: ds)
  case 0
  then show ?case
    by (simp add: search_user_loop.simps)
next
  case (Suc n)
  then have "\<exists>u. search_user_loop (stl ds) = Some u"
    by simp
  then show ?case
    by (subst search_user_loop.simps) (simp add: Let_def)
qed

lemma record_search_queries_user_queries:
  "user_search_queries (record_search_queries t now uid qs) u =
   user_search_queries t u @ (if u = uid then qs else [])"
  by (induction qs arbitrary: t)
     (auto simp: user_search_queries_def record_search_history_def Let_def)



lemma generate_search_history_round_Some:
  assumes "generate_search_history_round t now d = Some (r, t')"
  shows "\<exists>uid. uid \<notin> set exclude_user_ids \<and>
           ((\<exists>e. r = Inl e \<and> t' = t) \<or>
            (r = Inr () \<and> (\<exists>s qs. round_searches d s = Inr qs \<and>
                                   t' = record_search_queries t now uid qs)))"
proof -
  obtain uid where uid: "search_user_loop (sd_users d) = Some uid"
    using assms by (auto simp: generate_search_history_round_def)
  have "uid \<notin> set exclude_user_ids"
    using search_user_loop_Some [OF uid] by blast
  moreover have "(\<exists>e. r = Inl e \<and> t' = t) \<or>
      (r = Inr () \<and> (\<exists>s qs. round_searches d s = Inr qs \<and> t' = record_search_queries t now uid qs))"
    using assms uid
    by (auto simp: generate_search_history_round_def split: option.splits sum.splits)
  ultimately show ?thesis
    by blast
qed

lemma generate_search_histories_n_excluded:
  "generate_search_histories_n n t now ds = Some (r, t') \<Longrightarrow> u \<in> set exclude_user_ids \<Longrightarrow>
   user_search_queries t' u = user_search_queries t u"
proof (induction n arbitrary: t ds)
  case 0
  then show ?case by simp
next
  case (Suc n)
  obtain r1 t1 where rd: "generate_search_history_round t now (shd ds) = Some (r1, t1)"
    using Suc.prems(1) by (auto split: option.splits)
  obtain uid where uid: "uid \<notin> set exclude_user_ids"
    "(\<exists>e. r1 = Inl e \<and> t1 = t) \<or>
     (r1 = Inr () \<and> (\<exists>s qs. round_searches (shd ds) s = Inr qs \<and>
                             t1 = record_search_queries t now uid qs))"
    using generate_search_history_round_Some [OF rd] by blast
  have t1: "user_search_queries t1 u = user_search_queries t u"
    using uid Suc.prems(2) by (auto simp: record_search_queries_user_queries)
  show ?case
  proof (cases r1)
    case (Inl e)
    then show ?thesis
      using Suc.prems(1) rd t1 by simp
  next
    case (Inr x)
    then have "generate_search_histories_n n t1 now (stl ds) = Some (r, t')"
      using Suc.prems(1) rd by simp
    then show ?thesis
      using Suc.IH Suc.prems(2) t1 by simp
  qed
qed

subsection \<open>Properties\<close>

text \<open>C31: seeding a fresh catalog (no category yet, the index in sync, so no product
  either) records the ten categories under ids 1 to 10, then all fifty products without
  an exception, and leaves every product's vector equal to the embedding of its derived
  text (spec 3), whatever the embedder.\<close>

theorem seed_catalog_in_sync:
  assumes cats0: "categories (tables db) = []" and sync: "embedding_in_sync sv db"
  shows "fst (generate_categories db now) = Inr () \<and>
         fst (generate_products sv (snd (generate_categories db now)) now') = Inr () \<and>
         length (products (tables (snd (generate_products sv (snd (generate_categories db now)) now')))) = 50 \<and>
         embedding_in_sync sv (snd (generate_products sv (snd (generate_categories db now)) now'))"
proof -
  obtain ps where ps: "collection_points (qdrant_product_database db) = Some ps"
    using sync by (auto simp: embedding_in_sync_def split: option.splits)
  have p0: "products (tables db) = []"
    using sync cats0 by (cases "products (tables db)") (auto simp: embedding_in_sync_def find_category_def ps)
  let ?db1 = "db\<lparr>tables := (tables db)\<lparr>categories := seed_category_rows now\<rparr>\<rparr>"
  have gen: "generate_categories db now = (Inr (), ?db1)"
    using cats0 by (rule generate_categories_fresh)
  have sync1: "embedding_in_sync sv ?db1"
    using ps p0 by (simp add: embedding_in_sync_def)
  have cats: "\<forall>(cid, ps)\<in>set seed_products. find_category (tables ?db1) cid \<noteq> None"
    by (simp add: seed_products_def seed_category_rows_def seed_categories_def find_category_def
        upto.simps)
  obtain r db2 where r: "record_product_groups sv ?db1 now' seed_products = (r, db2)"
    by (metis prod.exhaust)
  from record_product_groups_sync [OF sync1 cats r]
  have "r = Inr ()" and "embedding_in_sync sv db2"
    and "length (products (tables db2)) = sum_list (map (length \<circ> snd) seed_products)"
    using p0 by simp_all
  moreover have "sum_list (map (length \<circ> snd) seed_products) = 50"
    by (simp add: seed_products_def)
  ultimately show ?thesis
    using gen r by (simp add: generate_products_def)
qed

text \<open>C32: the retry loop of one user returns exactly when some draw of the stream gives
  an e-mail no user has: the loop is unbounded (spec 9 asks for bounded retries).\<close>

theorem add_user_loop_returns_iff:
  "(\<exists>r. add_user_loop t now ds = Some r) \<longleftrightarrow> (\<exists>n. user_email (ds !! n) \<notin> email ` set (users t))"
  using add_user_loop_Some add_user_loop_fresh_draw by (metis surj_pair)

text \<open>C33: the script's hundred users take every e-mail the name lists can form, so a
  hundred-and-first round never returns, whatever the random draws: from an empty user
  table, 101 rounds do not terminate.\<close>

theorem generate_users_101_diverges:
  assumes "users t = []"
  shows "generate_users_n 101 t now ds = None"
proof (cases "generate_users_n 100 t now ds")
  case None
  then show ?thesis
    using generate_users_n_add [of 100 1 t now ds] by simp
next
  case (Some r)
  obtain t' ds' where r: "r = (t', ds')"
    by (metis prod.exhaust)
  have e: "distinct (map email (users t')) \<and> set (map email (users t')) \<subseteq> set seed_emails \<and>
           length (users t') = 100"
    using generate_users_n_emails [of 100 t now ds t' ds'] Some r assms by simp
  then have "card (set (map email (users t'))) = 100"
    by (metis distinct_card length_map)
  with e have all: "set (map email (users t')) = set seed_emails"
    using card_seed_emails by (metis card_subset_eq finite_set)
  have "\<forall>n. user_email (ds' !! n) \<in> email ` set (users t')"
    using all user_email_seed by (metis set_map)
  then have "add_user_loop t' now ds' = None"
    using add_user_loop_Some by (metis not_Some_eq surj_pair)
  then show ?thesis
    using generate_users_n_add [of 100 1 t now ds] Some r by simp
qed

text \<open>C34: the \<open>while True\<close> loop that draws the user of a search-history round
  ends exactly when some draw of the stream is a user that is not excluded; the round
  returns exactly then.\<close>

theorem generate_search_history_round_returns_iff:
  "(\<exists>r. generate_search_history_round t now d = Some r) \<longleftrightarrow>
   (\<exists>n. randint 1 100 (sd_users d !! n) \<notin> set exclude_user_ids)"
proof -
  have "(\<exists>r. generate_search_history_round t now d = Some r) \<longleftrightarrow>
        (\<exists>u. search_user_loop (sd_users d) = Some u)"
    by (simp add: generate_search_history_round_def map_option_case split: option.split)
  then show ?thesis
    using search_user_loop_Some search_user_loop_draw by metis
qed

text \<open>C35: the users \<open>exclude_user_ids\<close> are skipped: when the 500 rounds of
  \<open>generate_search_histories\<close> return, the search history of an excluded user is the one
  it had before.\<close>

theorem generate_search_histories_excluded:
  assumes "generate_search_histories t now ds = Some (r, t')"
    and "u \<in> set exclude_user_ids"
  shows "user_search_queries t' u = user_search_queries t u"
  using assms generate_search_histories_n_excluded
  by (simp add: generate_search_histories_def)


end
