(* ===== verification/System.thy ===== *)
theory System
  imports Populate
begin

text \<open>
  The served system as a whole. Its state is the \<open>DB\<close> object; a step is an HTTP
  request of \<open>run.py\<close> or one of the operations the administration scripts and the
  export call on the object (\<open>record_user\<close>, \<open>update_user\<close>, \<open>record_category\<close>,
  \<open>update_category\<close>, \<open>record_product\<close>, \<open>update_product\<close>,
  \<open>generate_dataset_for_llm_fine_tuning\<close>). Requests are served one at a time, so any
  interleaving of users is a sequence of steps; \<open>reachable\<close> is the set of states a
  sequence of steps leads to from a fresh database and a Qdrant server state.
  Proved: every reachable state keeps every key unique (ids, e-mails, category names,
  one feedback per recommendation), every recommendation refers to a stored user and
  product, and every feedback has a rating in 0..5 and was given by the owner of its
  recommendation; no step ever changes or removes a feedback row.
\<close>

definition keys_distinct :: "Tables \<Rightarrow> bool" where
  "keys_distinct t \<longleftrightarrow>
     distinct (map user_id (users t)) \<and> distinct (map email (users t)) \<and>
     distinct (map category_id (categories t)) \<and> distinct (map cat_name (categories t)) \<and>
     distinct (map product_id (products t)) \<and> distinct (map search_id (search_history t)) \<and>
     distinct (map recommendation_id (recommendations t)) \<and>
     distinct (map recommendation_feedback_id (feedbacks t)) \<and>
     distinct (map fb_recommendation_id (feedbacks t))"

definition recommendations_ref :: "Tables \<Rightarrow> bool" where
  "recommendations_ref t \<longleftrightarrow>
     (\<forall>r\<in>set (recommendations t). r_user_id r \<in> user_id ` set (users t) \<and>
        r_product_id r \<in> product_id ` set (products t))"

definition feedbacks_ref :: "Tables \<Rightarrow> bool" where
  "feedbacks_ref t \<longleftrightarrow>
     (\<forall>f\<in>set (feedbacks t). 0 \<le> rating f \<and> rating f \<le> 5 \<and>
        (\<exists>r\<in>set (recommendations t). recommendation_id r = fb_recommendation_id f \<and>
           r_user_id r = fb_user_id f))"

definition wf_tables :: "Tables \<Rightarrow> bool" where
  "wf_tables t \<longleftrightarrow> keys_distinct t \<and> recommendations_ref t \<and> feedbacks_ref t"


subsection \<open>Steps and reachable states\<close>

text \<open>The operations of the \<open>DB\<close> and \<open>LLM\<close> objects that are not behind an endpoint:
  the administration of users, categories and products, the export, and a round of the
  seeding script's random recommendations with their feedback.\<close>

datatype admin_op =
    RecordUser string "string option"
  | UpdateUser pk "string option" "string option"
  | RecordCategory string "string option"
  | UpdateCategory pk "string option" "string option"
  | RecordProduct pk string "string option" real int
  | UpdateProduct pk "pk option" "string option" "string option" "real option" "int option"
  | ExportDataset
  | SeedRecommendations rec_draw

fun admin_step :: "'v Services \<Rightarrow> 'v DB \<Rightarrow> timestamp \<Rightarrow> admin_op \<Rightarrow> unit result \<times> 'v DB" where
  "admin_step sv db now (RecordUser em prof) =
     (case record_user (tables db) now em prof of (r, t) \<Rightarrow> (r, db\<lparr>tables := t\<rparr>))"
| "admin_step sv db now (UpdateUser uid em prof) =
     (case update_user (tables db) now uid em prof of (r, t) \<Rightarrow> (r, db\<lparr>tables := t\<rparr>))"
| "admin_step sv db now (RecordCategory name descr) =
     (case record_category (tables db) now name descr of (r, t) \<Rightarrow> (r, db\<lparr>tables := t\<rparr>))"
| "admin_step sv db now (UpdateCategory cid name descr) = update_category_db db now cid name descr"
| "admin_step sv db now (RecordProduct cid name descr pr st) = record_product sv db now cid name descr pr st"
| "admin_step sv db now (UpdateProduct pid cid name descr pr st) =
     update_product sv db now pid cid name descr pr st"
| "admin_step sv db now (SeedRecommendations d) = generate_recommendation_round sv db now d"
| "admin_step sv db now ExportDataset =
     (case generate_dataset_for_llm_fine_tuning sv db now of
        (Inl e, db') \<Rightarrow> (Inl e, db')
      | (Inr _, db') \<Rightarrow> (Inr (), db'))"

datatype op = Request request | Admin admin_op

text \<open>One step at clock reading \<open>now\<close>, with what it answers: an HTTP response for a
  request, the result of the method for an administrative operation.\<close>

fun system_step ::
  "'v Services \<Rightarrow> 'v DB \<Rightarrow> timestamp \<times> op \<Rightarrow> (payload response + unit result) \<times> 'v DB" where
  "system_step sv db (now, Request r) = (case handle_request sv db now r of (a, db') \<Rightarrow> (Inl a, db'))"
| "system_step sv db (now, Admin a) = (case admin_step sv db now a of (r, db') \<Rightarrow> (Inr r, db'))"

fun run_trace ::
  "'v Services \<Rightarrow> 'v DB \<Rightarrow> (timestamp \<times> op) list \<Rightarrow> (payload response + unit result) list \<times> 'v DB" where
  "run_trace sv db [] = ([], db)"
| "run_trace sv db (e # es) =
     (case system_step sv db e of
        (a, db1) \<Rightarrow> (case run_trace sv db1 es of (as, db2) \<Rightarrow> (a # as, db2)))"

text \<open>The states reachable from a fresh database and a Qdrant server state.\<close>

inductive reachable :: "'v Services \<Rightarrow> (string \<times> 'v points) list \<Rightarrow> 'v DB \<Rightarrow> bool"
  for sv :: "'v Services" and server :: "(string \<times> 'v points) list" where
  start: "reachable sv server (init_db server)"
| step: "reachable sv server db \<Longrightarrow> reachable sv server (snd (system_step sv db e))"

subsection \<open>Lemmas\<close>

lemma wf_history:
  "wf_tables t \<Longrightarrow> distinct (map search_id hs) \<Longrightarrow> wf_tables (t\<lparr>search_history := hs\<rparr>)"
  by (simp add: wf_tables_def keys_distinct_def recommendations_ref_def feedbacks_ref_def)

lemma log_search_history_distinct:
  "distinct (map search_id (search_history t)) \<Longrightarrow>
   distinct (map search_id (search_history (snd (log_search t now u q))))"
  by (auto simp: log_search_def record_search_history_def Let_def
      split: option.splits sum.splits prod.splits)

lemma search_product_wf:
  assumes "wf_tables (tables db)"
  shows "wf_tables (tables (snd (search_product sv db now u q mn mx ms v th)))"
proof -
  let ?db1 = "snd (search_product sv db now u q mn mx ms v th)"
  have eq: "tables ?db1 = (tables db)\<lparr>search_history := search_history (tables ?db1)\<rparr>"
    using search_product_frame_eq(1) [of sv db now u q mn mx ms v th "fst (search_product sv db now u q mn mx ms v th)" ?db1]
    by simp
  have "distinct (map search_id (search_history (tables db)))"
    using assms by (simp add: wf_tables_def keys_distinct_def)
  then have "distinct (map search_id (search_history (tables ?db1)))"
    by (simp add: search_product_tables log_search_history_distinct)
  with assms eq show ?thesis
    by (metis wf_history)
qed

lemma find_user_Some: "find_user t uid = Some u \<Longrightarrow> user_id u = uid \<and> u \<in> set (users t)"
  by (auto simp: find_user_def dest: find_Some_iff [THEN iffD1] simp: in_set_conv_nth)

lemma find_recommendation_Some:
  "find_recommendation t rid = Some r \<Longrightarrow> recommendation_id r = rid \<and> r \<in> set (recommendations t)"
  by (auto simp: find_recommendation_def dest: find_Some_iff [THEN iffD1] simp: in_set_conv_nth)

lemma find_category_Some:
  "find_category t cid = Some c \<Longrightarrow> category_id c = cid \<and> c \<in> set (categories t)"
  by (auto simp: find_category_def dest: find_Some_iff [THEN iffD1] simp: in_set_conv_nth)

lemma record_recommendation_wf:
  assumes "wf_tables t" and "uid \<in> user_id ` set (users t)" and "pid \<in> product_id ` set (products t)"
  shows "wf_tables (snd (record_recommendation t now uid pid sc))"
  using assms
  by (auto simp: record_recommendation_def wf_tables_def keys_distinct_def recommendations_ref_def
      feedbacks_ref_def Let_def)

lemma record_feedback_wf:
  assumes "wf_tables t" and "find_recommendation t rid = Some r" and "uid = r_user_id r"
    and "0 \<le> rt \<and> rt \<le> 5"
  shows "wf_tables (snd (record_recommendation_feedback t now rid uid rt))"
proof -
  from assms(2) have "recommendation_id r = rid" and "r \<in> set (recommendations t)"
    by (simp_all add: find_recommendation_Some)
  with assms show ?thesis
    by (auto simp: record_recommendation_feedback_def wf_tables_def keys_distinct_def
        recommendations_ref_def feedbacks_ref_def Let_def)
qed

lemma make_recommendation_wf:
  assumes wf: "wf_tables (tables db)"
  shows "wf_tables (tables (snd (make_recommendation_for_customer sv db now uid)))"
proof (cases "find_user (tables db) uid")
  case None
  then show ?thesis
    using wf by (simp add: make_recommendation_for_customer_def)
next
  case (Some u)
  obtain r db1 where
    s: "search_product sv db now (Some (SqlInt uid)) (profile_description u) None None None True 0.3 = (r, db1)"
    by (metis prod.exhaust)
  have wf1: "wf_tables (tables db1)"
    using search_product_wf [OF wf, of sv now "Some (SqlInt uid)" "profile_description u"] s
    by (metis snd_conv)
  note fr = search_product_frame_fields [OF s]
  note mk = make_recommendation_found [OF Some s]
  show ?thesis
  proof (cases r)
    case (Inl e)
    with mk wf1 show ?thesis
      by simp
  next
    case (Inr cands)
    let ?out = "make_inference_on_model sv (engineer_prompt (profile_description u)
                  (history_text (tables db) uid) (py_repr_dict (candidates_dict cands)) False)"
    show ?thesis
    proof (cases "resolve_recommendation ?out cands")
      case None
      with mk Inr wf1 show ?thesis
        by simp
    next
      case (Some p)
      have "p \<in> set cands"
        using resolve_recommendation_Some [OF Some] by simp
      then have "p \<in> set (products (tables db))"
        using search_product_member [of sv db now "Some (SqlInt uid)" "profile_description u"] s Inr
        by blast
      then have pid: "product_id p \<in> product_id ` set (products (tables db1))"
        using fr by simp
      have "uid \<in> user_id ` set (users (tables db1))"
        using find_user_Some [OF \<open>find_user (tables db) uid = Some u\<close>] fr by force
      then have "wf_tables (snd (record_recommendation (tables db1) now uid (product_id p) 1))"
        using record_recommendation_wf [OF wf1 _ pid] by blast
      with mk Inr Some show ?thesis
        by simp
    qed
  qed
qed

text \<open>The export writes only through the searches it runs: a property of the tables that
  every such search keeps, the export keeps.\<close>

lemma export_rows_preserves:
  assumes search: "\<And>db u. P (tables db) \<Longrightarrow>
                     P (tables (snd (search_product sv db now u (Some []) None None None True 0.3)))"
  shows "export_rows sv db now fs acc = (r, db') \<Longrightarrow> P (tables db) \<Longrightarrow> P (tables db')"
proof (induction fs arbitrary: db acc r)
  case Nil
  then show ?case by simp
next
  case (Cons f fs)
  show ?case
  proof (cases "\<exists>r0 answer u. find_recommendation (tables db) (fb_recommendation_id f) = Some r0 \<and>
                  find_product (tables db) (r_product_id r0) = Some answer \<and>
                  find_user (tables db) (fb_user_id f) = Some u")
    case False
    with Cons.prems show ?thesis
      by (auto split: option.splits)
  next
    case True
    then obtain r0 answer u where
      found: "find_recommendation (tables db) (fb_recommendation_id f) = Some r0"
        "find_product (tables db) (r_product_id r0) = Some answer"
        "find_user (tables db) (fb_user_id f) = Some u"
      by blast
    obtain r1 db1 where
      s: "search_product sv db now (map_option SqlText (profile_description u)) (Some []) None None None True 0.3 =
            (r1, db1)"
      by (metis prod.exhaust)
    have p1: "P (tables db1)"
      using search [OF Cons.prems(2), of "map_option SqlText (profile_description u)"] s
      by (metis snd_conv)
    show ?thesis
    proof (cases r1)
      case (Inl e)
      with Cons.prems(1) found s p1 show ?thesis
        by (simp add: Let_def)
    next
      case (Inr cands)
      with Cons.prems(1) found s p1 show ?thesis
        using Cons.IH by (simp add: Let_def)
    qed
  qed
qed

lemma export_rows_wf:
  "export_rows sv db now fs acc = (r, db') \<Longrightarrow> wf_tables (tables db) \<Longrightarrow> wf_tables (tables db')"
  by (rule export_rows_preserves [where P = wf_tables, OF search_product_wf])

lemma recommend_product_state:
  "snd (recommend_product sv db now uid) =
     (if user_exists (tables db) uid then snd (make_recommendation_for_customer sv db now uid) else db)"
  by (simp add: recommend_product_def split: prod.splits sum.splits)

lemma search_products_state:
  "snd (search_products sv db now uid q mn mx ms) =
     (if search_products_valid q mn mx ms \<and> user_exists (tables db) uid
      then snd (search_product sv db now (Some (SqlInt uid)) (Some q) mn mx ms True 0.3) else db)"
  by (simp add: search_products_def split: prod.splits sum.splits)

lemma set_feedback_state:
  "snd (set_recommendation_feedback db now uid rid rt) =
     (case find_recommendation (tables db) rid of
        Some r \<Rightarrow> if 0 \<le> rt \<and> rt \<le> 5 \<and> uid = r_user_id r
                  then db\<lparr>tables := snd (record_recommendation_feedback (tables db) now rid uid rt)\<rparr>
                  else db
      | None \<Rightarrow> db)"
  by (simp add: set_recommendation_feedback_def split: option.splits prod.splits)

lemma handle_request_wf:
  assumes "wf_tables (tables db)"
  shows "wf_tables (tables (snd (handle_request sv db now req)))"
proof (cases req)
  case (RecommendProduct uid)
  with assms show ?thesis
    by (simp add: recommend_product_state make_recommendation_wf)
next
  case (SearchProducts uid q mn mx ms)
  with assms show ?thesis
    by (simp add: search_products_state search_product_wf)
next
  case (SetRecommendationFeedback uid rid rt)
  with assms show ?thesis
    by (auto simp: set_feedback_state record_feedback_wf split: option.splits)
qed (simp_all add: assms)

lemma record_user_wf: "wf_tables t \<Longrightarrow> wf_tables (snd (record_user t now em prof))"
  by (auto simp: record_user_def wf_tables_def keys_distinct_def recommendations_ref_def
      feedbacks_ref_def)

lemma wf_users:
  "wf_tables t \<Longrightarrow> map user_id us = map user_id (users t) \<Longrightarrow> distinct (map email us) \<Longrightarrow>
   wf_tables (t\<lparr>users := us\<rparr>)"
  by (simp add: wf_tables_def keys_distinct_def recommendations_ref_def feedbacks_ref_def)
     (metis set_map)

lemma wf_categories:
  "wf_tables t \<Longrightarrow> map category_id cs = map category_id (categories t) \<Longrightarrow> distinct (map cat_name cs) \<Longrightarrow>
   wf_tables (t\<lparr>categories := cs\<rparr>)"
  by (simp add: wf_tables_def keys_distinct_def recommendations_ref_def feedbacks_ref_def)

lemma wf_products:
  "wf_tables t \<Longrightarrow> map product_id ps = map product_id (products t) \<Longrightarrow> wf_tables (t\<lparr>products := ps\<rparr>)"
  by (simp add: wf_tables_def keys_distinct_def recommendations_ref_def feedbacks_ref_def)
     (metis set_map)

lemma update_user_wf:
  assumes wf: "wf_tables t"
  shows "wf_tables (snd (update_user t now uid new_email new_profile))"
proof (cases "find_user t uid")
  case None
  with wf show ?thesis
    by (simp add: update_user_def)
next
  case (Some u)
  then have u: "user_id u = uid"
    by (simp add: find_user_Some)
  let ?u' = "u\<lparr>email := (case new_email of None \<Rightarrow> email u | Some e \<Rightarrow> e),
               profile_description := (case new_profile of None \<Rightarrow> profile_description u | Some d \<Rightarrow> Some d),
               u_updated_at := now\<rparr>"
  have k: "user_id ?u' = uid"
    using u by simp
  show ?thesis
  proof (cases "email ?u' \<in> email ` set (filter (\<lambda>v. user_id v \<noteq> uid) (users t))")
    case True
    with Some wf show ?thesis
      by (simp add: update_user_def Let_def)
  next
    case False
    have "distinct (map email (map (\<lambda>v. if user_id v = uid then ?u' else v) (users t)))"
      using wf False by (intro distinct_map_replace) (simp_all add: wf_tables_def keys_distinct_def)
    with wf have "wf_tables (t\<lparr>users := map (\<lambda>v. if user_id v = uid then ?u' else v) (users t)\<rparr>)"
      by (rule wf_users [OF _ map_key_replace [of user_id, OF k]])
    with Some False show ?thesis
      by (simp add: update_user_def Let_def)
  qed
qed

lemma record_category_wf: "wf_tables t \<Longrightarrow> wf_tables (snd (record_category t now name descr))"
  by (auto simp: record_category_def wf_tables_def keys_distinct_def recommendations_ref_def
      feedbacks_ref_def)

lemma update_category_wf:
  assumes wf: "wf_tables t"
  shows "wf_tables (snd (update_category t now cid new_name new_descr))"
proof (cases "find_category t cid")
  case None
  with wf show ?thesis
    by (simp add: update_category_def)
next
  case (Some c)
  then have c: "category_id c = cid"
    by (simp add: find_category_Some)
  let ?c' = "c\<lparr>cat_name := (case new_name of None \<Rightarrow> cat_name c | Some n \<Rightarrow> n),
               cat_description := (case new_descr of None \<Rightarrow> cat_description c | Some d \<Rightarrow> Some d),
               c_updated_at := now\<rparr>"
  have k: "category_id ?c' = cid"
    using c by simp
  show ?thesis
  proof (cases "cat_name ?c' \<in> cat_name ` set (filter (\<lambda>d. category_id d \<noteq> cid) (categories t))")
    case True
    with Some wf show ?thesis
      by (simp add: update_category_def Let_def)
  next
    case False
    have "distinct (map cat_name (map (\<lambda>d. if category_id d = cid then ?c' else d) (categories t)))"
      using wf False by (intro distinct_map_replace) (simp_all add: wf_tables_def keys_distinct_def)
    with wf have "wf_tables (t\<lparr>categories := map (\<lambda>d. if category_id d = cid then ?c' else d) (categories t)\<rparr>)"
      by (rule wf_categories [OF _ map_key_replace [of category_id, OF k]])
    with Some False show ?thesis
      by (simp add: update_category_def Let_def)
  qed
qed

lemma record_product_wf:
  "wf_tables (tables db) \<Longrightarrow> wf_tables (tables (snd (record_product sv db now cid name descr pr st)))"
  by (auto simp: record_product_tables wf_tables_def keys_distinct_def recommendations_ref_def
      feedbacks_ref_def)

lemma update_product_wf:
  assumes wf: "wf_tables (tables db)"
  shows "wf_tables (tables (snd (update_product sv db now pid new_cid new_name new_descr new_price new_stock)))"
proof (cases "find_product (tables db) pid")
  case None
  with wf show ?thesis
    by (simp add: update_product_def)
next
  case (Some p)
  then have p: "product_id p = pid"
    by (simp add: find_product_id)
  let ?p' = "p\<lparr>p_category_id := (case new_cid of None \<Rightarrow> p_category_id p | Some c \<Rightarrow> c),
               p_name := (case new_name of None \<Rightarrow> p_name p | Some n \<Rightarrow> n),
               p_description := (case new_descr of None \<Rightarrow> p_description p | Some d \<Rightarrow> Some d),
               price := (case new_price of None \<Rightarrow> price p | Some x \<Rightarrow> x),
               stock := (case new_stock of None \<Rightarrow> stock p | Some s \<Rightarrow> s),
               p_updated_at := now\<rparr>"
  have k: "product_id ?p' = pid"
    using p by simp
  from wf have "wf_tables ((tables db)\<lparr>products := map (\<lambda>q. if product_id q = pid then ?p' else q)
                   (products (tables db))\<rparr>)"
    by (rule wf_products [OF _ map_key_replace [of product_id, OF k]])
  with Some show ?thesis
    by (simp add: update_product_def Let_def split: option.splits)
qed

lemma generate_dataset_wf:
  "wf_tables (tables db) \<Longrightarrow> wf_tables (tables (snd (generate_dataset_for_llm_fine_tuning sv db now)))"
  using export_rows_wf
  by (fastforce simp: generate_dataset_for_llm_fine_tuning_def Let_def split: prod.splits sum.splits)

lemma find_recommendation_new:
  "find_recommendation (snd (record_recommendation t now uid pid sc))
     (fst (record_recommendation t now uid pid sc)) =
   Some \<lparr>recommendation_id = next_rowid (map recommendation_id (recommendations t)), r_user_id = uid,
          r_product_id = pid, score = sc, r_created_at = now\<rparr>"
proof -
  have "\<forall>r\<in>set (recommendations t). recommendation_id r \<noteq> next_rowid (map recommendation_id (recommendations t))"
    using next_rowid_notin_image [of recommendation_id "recommendations t"] by (metis image_eqI)
  then show ?thesis
    by (simp add: record_recommendation_result find_recommendation_def find_append_last)
qed

lemma record_seed_recommendations_wf:
  "wf_tables t \<Longrightarrow> uid \<in> user_id ` set (users t) \<Longrightarrow> set ps \<subseteq> set (products t) \<Longrightarrow>
   wf_tables (record_seed_recommendations t now uid d j ps)"
proof (induction ps arbitrary: t j)
  case Nil
  then show ?case by simp
next
  case (Cons p ps)
  let ?sc = "uniform 0.5 1 (rd_score d j)" and ?rt = "randint 3 5 (rd_rating d j)"
  let ?t1 = "snd (record_recommendation t now uid (product_id p) ?sc)"
  let ?rid = "fst (record_recommendation t now uid (product_id p) ?sc)"
  have wf1: "wf_tables ?t1"
    using Cons.prems by (intro record_recommendation_wf) auto
  have rt: "0 \<le> ?rt \<and> ?rt \<le> 5"
    by (simp add: randint_def)
  have wf2: "wf_tables (snd (record_recommendation_feedback ?t1 now ?rid uid ?rt))"
    using record_feedback_wf [OF wf1 find_recommendation_new _ rt] by simp
  have fr: "users (snd (record_recommendation_feedback ?t1 now ?rid uid ?rt)) = users t \<and>
            products (snd (record_recommendation_feedback ?t1 now ?rid uid ?rt)) = products t"
    by (simp add: record_recommendation_feedback_def record_recommendation_def Let_def)
  show ?case
    using Cons.IH [OF wf2] Cons.prems fr by (simp add: case_prod_unfold)
qed

lemma sampled_products_subset: "set (sampled_products d ps) \<subseteq> set ps"
  by (auto simp: sampled_products_def dest: py_sample_subset split: sum.splits)

lemma generate_recommendation_round_wf:
  assumes wf: "wf_tables (tables db)"
  shows "wf_tables (tables (snd (generate_recommendation_round sv db now d)))"
proof (cases "find_user (tables db) (randint 1 100 (rd_user d))")
  case None
  with wf show ?thesis
    by (simp add: generate_recommendation_round_def Let_def)
next
  case (Some u)
  let ?uid = "randint 1 100 (rd_user d)"
  obtain r db1 where
    s: "search_product sv db now None (profile_description u) None None None True 0.3 = (r, db1)"
    by (metis prod.exhaust)
  have wf1: "wf_tables (tables db1)"
    using search_product_wf [OF wf, of sv now None "profile_description u"] s by (metis snd_conv)
  note fr = search_product_frame_fields [OF s]
  have "user_id u = ?uid" and "u \<in> set (users (tables db1))"
    using find_user_Some [OF Some] fr(1) by simp_all
  then have uid: "?uid \<in> user_id ` set (users (tables db1))"
    by (metis image_eqI)
  show ?thesis
  proof (cases r)
    case (Inl e)
    with Some s wf1 show ?thesis
      by (simp add: generate_recommendation_round_def)
  next
    case (Inr ps)
    have "set ps \<subseteq> set (products (tables db))"
      using search_product_member [OF s [unfolded Inr]] by blast
    then have "set (sampled_products d ps) \<subseteq> set (products (tables db1))"
      using sampled_products_subset [of d ps] fr(3) by auto
    with wf1 uid have "wf_tables (record_seed_recommendations (tables db1) now ?uid d 0 (sampled_products d ps))"
      by (rule record_seed_recommendations_wf)
    with Some s Inr show ?thesis
      by (simp add: generate_recommendation_round_def)
  qed
qed

lemma admin_step_wf:
  assumes "wf_tables (tables db)"
  shows "wf_tables (tables (snd (admin_step sv db now a)))"
  using assms
proof (cases a)
  case (RecordUser em prof)
  with assms show ?thesis
    using record_user_wf by (simp split: prod.splits) (metis snd_conv)
next
  case (UpdateUser uid em prof)
  with assms show ?thesis
    using update_user_wf by (simp split: prod.splits) (metis snd_conv)
next
  case (RecordCategory name descr)
  with assms show ?thesis
    using record_category_wf by (simp split: prod.splits) (metis snd_conv)
next
  case (UpdateCategory cid name descr)
  with assms show ?thesis
    using update_category_wf by (simp add: update_category_db_def split: prod.splits) (metis snd_conv)
next
  case ExportDataset
  with assms show ?thesis
    using generate_dataset_wf [of db sv now]
    by (auto split: prod.splits sum.splits)
qed (simp_all add: record_product_wf update_product_wf generate_recommendation_round_wf)

lemma system_step_state [simp]:
  "snd (system_step sv db (now, Request r)) = snd (handle_request sv db now r)"
  "snd (system_step sv db (now, Admin a)) = snd (admin_step sv db now a)"
  by (simp_all add: case_prod_unfold)

subsection \<open>Recommendations and feedback are only appended\<close>

lemma make_recommendation_log:
  "feedbacks (tables (snd (make_recommendation_for_customer sv db now uid))) = feedbacks (tables db) \<and>
   prefix (recommendations (tables db))
     (recommendations (tables (snd (make_recommendation_for_customer sv db now uid))))"
  by (auto simp: make_recommendation_for_customer_def record_recommendation_def Let_def
      split: option.splits sum.splits prod.splits dest: search_product_frame_fields)

lemma generate_dataset_log:
  "feedbacks (tables (snd (generate_dataset_for_llm_fine_tuning sv db now))) = feedbacks (tables db) \<and>
   recommendations (tables (snd (generate_dataset_for_llm_fine_tuning sv db now))) = recommendations (tables db)"
proof -
  have "feedbacks (tables db') = feedbacks (tables db) \<and> recommendations (tables db') = recommendations (tables db)"
    if "export_rows sv db now fs acc = (r, db')" for fs acc r db'
    by (rule export_rows_preserves
      [where P = "\<lambda>t. feedbacks t = feedbacks (tables db) \<and> recommendations t = recommendations (tables db)",
       OF _ that]) simp_all
  then show ?thesis
    by (fastforce simp: generate_dataset_for_llm_fine_tuning_def Let_def split: prod.splits sum.splits)
qed

lemma record_feedback_log:
  "recommendations (snd (record_recommendation_feedback t now rid uid rt)) = recommendations t \<and>
   prefix (feedbacks t) (feedbacks (snd (record_recommendation_feedback t now rid uid rt)))"
  by (simp add: record_recommendation_feedback_def Let_def)

lemma handle_request_log:
  "prefix (recommendations (tables db)) (recommendations (tables (snd (handle_request sv db now r)))) \<and>
   prefix (feedbacks (tables db)) (feedbacks (tables (snd (handle_request sv db now r))))"
proof (cases r)
  case (RecommendProduct uid)
  then show ?thesis
    using make_recommendation_log [of sv db now uid] by (simp add: recommend_product_state)
next
  case (SearchProducts uid q mn mx ms)
  then show ?thesis
    by (simp add: search_products_state)
next
  case (SetRecommendationFeedback uid rid rt)
  then show ?thesis
    using record_feedback_log by (simp add: set_feedback_state split: option.splits)
qed simp_all

lemma record_seed_recommendations_log:
  "prefix (recommendations t) (recommendations (record_seed_recommendations t now uid d j ps)) \<and>
   prefix (feedbacks t) (feedbacks (record_seed_recommendations t now uid d j ps))"
proof (induction ps arbitrary: t j)
  case Nil
  then show ?case by simp
next
  case (Cons p ps)
  let ?r = "record_recommendation t now uid (product_id p) (uniform 0.5 1 (rd_score d j))"
  let ?t2 = "snd (record_recommendation_feedback (snd ?r) now (fst ?r) uid (randint 3 5 (rd_rating d j)))"
  have r2: "prefix (recommendations t) (recommendations ?t2)"
    by (simp add: record_recommendation_result record_recommendation_feedback_def Let_def)
  have f2: "prefix (feedbacks t) (feedbacks ?t2)"
    by (simp add: record_recommendation_result record_recommendation_feedback_def Let_def)
  have eq: "record_seed_recommendations t now uid d j (p # ps) =
            record_seed_recommendations ?t2 now uid d (Suc j) ps"
    by (simp add: case_prod_unfold)
  from Cons.IH [of ?t2 "Suc j"] have
    "prefix (recommendations ?t2) (recommendations (record_seed_recommendations ?t2 now uid d (Suc j) ps))"
    and "prefix (feedbacks ?t2) (feedbacks (record_seed_recommendations ?t2 now uid d (Suc j) ps))"
    by simp_all
  with r2 f2 show ?case
    unfolding eq by (blast intro: prefix_order.trans)
qed

lemma generate_recommendation_round_log:
  "prefix (recommendations (tables db)) (recommendations (tables (snd (generate_recommendation_round sv db now d)))) \<and>
   prefix (feedbacks (tables db)) (feedbacks (tables (snd (generate_recommendation_round sv db now d))))"
proof (cases "find_user (tables db) (randint 1 100 (rd_user d))")
  case None
  then show ?thesis
    by (simp add: generate_recommendation_round_def)
next
  case (Some u)
  obtain r db1 where
    s: "search_product sv db now None (profile_description u) None None None True 0.3 = (r, db1)"
    by (metis prod.exhaust)
  note fr = search_product_frame_fields [OF s]
  show ?thesis
  proof (cases r)
    case (Inl e)
    with Some s fr show ?thesis
      by (simp add: generate_recommendation_round_def)
  next
    case (Inr ps)
    with Some s fr show ?thesis
      using record_seed_recommendations_log [of "tables db1"]
      by (simp add: generate_recommendation_round_def)
  qed
qed

lemma admin_step_log:
  "prefix (recommendations (tables db)) (recommendations (tables (snd (admin_step sv db now a)))) \<and>
   prefix (feedbacks (tables db)) (feedbacks (tables (snd (admin_step sv db now a))))"
proof (cases a)
  case ExportDataset
  then show ?thesis
    using generate_dataset_log [of sv db now] by (auto split: prod.splits sum.splits)
next
  case (SeedRecommendations d)
  then show ?thesis
    using generate_recommendation_round_log by simp
qed (auto simp: record_user_def update_user_def record_category_def update_category_def
       update_category_db_def record_product_tables update_product_def Let_def
       split: prod.splits option.splits)

lemma system_step_wf:
  "wf_tables (tables db) \<Longrightarrow> wf_tables (tables (snd (system_step sv db e)))"
  by (cases e; cases "snd e") (simp_all add: handle_request_wf admin_step_wf case_prod_unfold)

lemma reachable_wf_tables: "reachable sv server db \<Longrightarrow> wf_tables (tables db)"
proof (induction rule: reachable.induct)
  case start
  then show ?case
    by (simp add: init_db_def empty_tables_def wf_tables_def keys_distinct_def
        recommendations_ref_def feedbacks_ref_def)
next
  case (step db e)
  from step.IH show ?case
    by (rule system_step_wf)
qed

lemma reachable_run_trace:
  "reachable sv server db \<Longrightarrow> reachable sv server (snd (run_trace sv db es))"
proof (induction es arbitrary: db)
  case Nil
  then show ?case by simp
next
  case (Cons e es)
  have "reachable sv server (snd (system_step sv db e))"
    using Cons.prems by (rule reachable.step)
  then have "reachable sv server (snd (run_trace sv (snd (system_step sv db e)) es))"
    by (rule Cons.IH)
  then show ?case
    by (simp add: case_prod_unfold)
qed

subsection \<open>Properties\<close>

text \<open>C11: in every reachable state every key the schema declares unique is unique: the
  row ids of every table, the users' e-mails, the category names, and the recommendation
  of a feedback row (spec 8: at most one feedback per recommendation).\<close>

theorem reachable_keys_unique:
  assumes "reachable sv server db"
  shows "distinct (map user_id (users (tables db))) \<and> distinct (map email (users (tables db))) \<and>
         distinct (map category_id (categories (tables db))) \<and>
         distinct (map cat_name (categories (tables db))) \<and>
         distinct (map product_id (products (tables db))) \<and>
         distinct (map search_id (search_history (tables db))) \<and>
         distinct (map recommendation_id (recommendations (tables db))) \<and>
         distinct (map recommendation_feedback_id (feedbacks (tables db))) \<and>
         distinct (map fb_recommendation_id (feedbacks (tables db)))"
  using reachable_wf_tables [OF assms] by (simp add: wf_tables_def keys_distinct_def)

text \<open>C10: in every reachable state every feedback row has a rating in 0..5 and was given
  by the user its recommendation was made for (spec 4.5 and 8: feedback only from the
  recommendation's owner).\<close>

theorem reachable_feedback_by_owner:
  assumes "reachable sv server db" and "f \<in> set (feedbacks (tables db))"
  shows "0 \<le> rating f \<and> rating f \<le> 5 \<and>
         (\<exists>r\<in>set (recommendations (tables db)).
            recommendation_id r = fb_recommendation_id f \<and> r_user_id r = fb_user_id f)"
  using reachable_wf_tables [OF assms(1)] assms(2) by (simp add: wf_tables_def feedbacks_ref_def)

text \<open>C12: in every reachable state every recommendation refers to a stored user and a
  stored product, although SQLite does not enforce the foreign keys.\<close>

theorem reachable_recommendation_refs:
  assumes "reachable sv server db" and "r \<in> set (recommendations (tables db))"
  shows "(\<exists>u\<in>set (users (tables db)). user_id u = r_user_id r) \<and>
         (\<exists>p\<in>set (products (tables db)). product_id p = r_product_id r)"
  using reachable_wf_tables [OF assms(1)] assms(2)
  by (force simp: wf_tables_def recommendations_ref_def)

text \<open>C13: no step of the system changes or removes a Recommendation or a feedback row:
  each table only grows at its end, so a rating once given is never overwritten.\<close>

theorem system_step_append_only:
  "prefix (recommendations (tables db)) (recommendations (tables (snd (system_step sv db e)))) \<and>
   prefix (feedbacks (tables db)) (feedbacks (tables (snd (system_step sv db e))))"
proof -
  obtain now x where e: "e = (now, x)"
    by fastforce
  show ?thesis
  proof (cases x)
    case (Request r)
    show ?thesis
      unfolding e Request system_step_state by (rule handle_request_log)
  next
    case (Admin a)
    show ?thesis
      unfolding e Admin system_step_state by (rule admin_step_log)
  qed
qed

text \<open>C14: in every reachable state a search never returns a product id twice: the
  uniqueness of product ids that the search's merge needs holds in every state the
  system reaches.\<close>

theorem reachable_search_distinct:
  assumes "reachable sv server db"
    and "search_product sv db now u q mn mx ms v th = (Inr rs, db')"
  shows "distinct (map product_id rs)"
proof -
  have "distinct (map product_id (products (tables db)))"
    using reachable_wf_tables [OF assms(1)] by (simp add: wf_tables_def keys_distinct_def)
  with assms(2) show ?thesis
    by (rule search_product_distinct_ids)
qed

end
