(* ===== verification/Spec2Isabelle.thy ===== *)
theory Spec2Isabelle
  imports System Populate
begin

text \<open>
  \<^bold>\<open>A verification model of the E-Commerce LLM-based recommendation system.\<close>

  \<^emph>\<open>The program.\<close> A FastAPI service (\<open>run.py\<close>) over one \<open>DB\<close> object
  (\<open>db/sql_db.py\<close>) and one \<open>LLM\<close> object (\<open>llm/llm.py\<close>). The \<open>DB\<close> object holds
  the SQLite tables of \<open>db/sql_models.py\<close>, a Qdrant collection \<open>product\<close> of product
  vectors (\<open>db/qdrant_db.py\<close>), a sentence embedder (\<open>db/embedder.py\<close>) and the
  tokenizer (\<open>db/tokenizer.py\<close>). Writing a product writes its row and then the
  embedding of its derived text; a search logs the query, runs a keyword path (SQL
  \<open>ILIKE\<close> on the tokens) and a vector path (similarity query, products re-read and
  re-filtered) and merges them; a recommendation searches with the profile text, asks
  the fine-tuned generator for a product name, resolves it against the candidates and
  stores a Recommendation row; a feedback is accepted once per recommendation, from its
  owner; the export rebuilds prompts for the well-rated recommendations.

  \<^emph>\<open>The theories.\<close>
  \<^item> \<open>Prelude\<close>: the exceptions (\<open>error\<close>), results \<open>error + 'a\<close>, keys and clock
    readings, association lists (\<open>assoc_set\<close>, a dict or an upsert) and the lemmas on
    replacing a row in place that every update shares.
  \<^item> \<open>PyText\<close>: the Python and SQLite string builtins the code calls (\<open>str.split\<close>,
    \<open>lower\<close>, \<open>strip\<close>, \<open>join\<close>, f-strings of \<open>None\<close>, \<open>repr\<close> of dicts and lists,
    SQLite \<open>ILIKE\<close>), on Latin-1 code points.
  \<^item> \<open>Tokenizer\<close>: \<open>TextTokenizer.clean_text\<close>; its tokens are well formed and it is
    idempotent (C17, C18).
  \<^item> \<open>Store\<close>: the six tables as records (\<open>Tables\<close>), rowids as SQLite assigns them
    (\<open>next_rowid\<close>: largest plus one), \<open>get_data\<close> and the insert and update methods with
    their UNIQUE and NOT NULL failures; the rating summary, which refines the multiset
    of stored ratings (\<open>summary_mset\<close> reads it back, C24).
  \<^item> \<open>VectorIndex\<close>: \<open>QdrantDatabase\<close> over a server state (an association list of
    collections); upsert, and the similarity query of spec 4.2 (\<open>qdrant_search\<close>, the one
    definition taken from the spec, since the server is not code of the repository).
    The client methods only forward their arguments to the server, so no property is
    stated of this theory alone; its lemmas serve the catalog and the search.
  \<^item> \<open>Catalog\<close>: the \<open>DB\<close> object, the external models as the interface record
    \<open>Services\<close> (embedding, similarity, stopwords, generator), \<open>record_product\<close>,
    \<open>update_product\<close>, \<open>update_category\<close>; the embedding invariant \<open>embedding_in_sync\<close>
    (C15, C16, C25).
  \<^item> \<open>Search\<close>: \<open>DB.search_product\<close> (C1-C3, C20, C21); its merge loop
    \<open>vector_merge\<close> equals the declarative reference \<open>vector_merge_spec\<close> (first
    occurrences of the filtered vector-path products, C4).
  \<^item> \<open>Recommend\<close>: the \<open>LLM\<close> object (\<open>init_llm\<close>,
    \<open>load_data_for_inferencing\<close>, \<open>llm_make_inference\<close>: the served object answers
    with the generator of \<open>Services\<close>), \<open>LLM.engineer_prompt\<close>,
    \<open>make_recommendation_for_customer\<close>, \<open>get_user_profile\<close>,
    \<open>generate_dataset_for_llm_fine_tuning\<close> (C8, C9, C22, C23).
  \<^item> \<open>Api\<close>: the endpoints (\<open>read_root\<close> included) with FastAPI's 422
    validation and the mapping of an escaping exception to 500, and
    \<open>handle_request\<close> (C6, C7, C19).
  \<^item> \<open>System\<close>: the served system as a state machine: a step is a request or an
    administrative operation (\<open>admin_step\<close>: a write method of \<open>DB\<close>, the export,
    or one seeding round of \<open>generate_recommendations\<close>), \<open>run_trace\<close> a sequence of
    them, \<open>reachable\<close> the states a sequence reaches from a fresh database. The invariant
    \<open>wf_tables\<close> (unique keys, references of recommendations, owner and range of
    feedback) holds in every reachable state (C10-C12), so a search never returns an id
    twice there (C14), and no step rewrites a recommendation or a feedback row (C13).
  \<^item> \<open>Populate\<close>: the seeding script \<open>populate_synthetic_db.py\<close>, all five
    generators and the module body (\<open>populate\<close>), with the random draws of each
    generator read from a stream of draw records (\<open>randint\<close> reads a draw modulo the
    size of its range, \<open>uniform\<close> clamps it, \<open>py_sample\<close> is \<open>random.sample\<close>:
    a \<open>ValueError\<close> when the sample is larger than the list, otherwise distinct
    positions, a sub-multiset of the input). Category and product seeding keeps the index
    in sync (C31); the user retry loop is a partial function that returns exactly when an
    unused e-mail is drawn (C32), and a 101st user never returns (C33); the user loop of
    a search-history round returns exactly when a user outside \<open>exclude_user_ids\<close> is
    drawn (C34); excluded users get no history (C35) and a round that returns either
    fails on a missing user or records one to three searches, never raising the
    \<open>ValueError\<close> of the sample (C36).
  \<^item> This theory: example data, the properties that span components (C5, C26-C30):
    spec 8's out-of-stock rule across both search paths and the code's divergences from
    the spec, each stated for all inputs (the server errors of C26 and C27, the
    \<open>min_stock\<close> boundary of C28, the category rename of C29, the export's history
    rows of C30); and a witness for every property with a hypothesis, evaluated on the
    example data by \<open>code_simp\<close>.

  \<^emph>\<open>How the model reads the code.\<close> State is passed explicitly: every method takes
  the \<open>DB\<close> object and a clock reading and returns its result with the new object; an
  exception is an \<open>Inl\<close> result, and the state it returns keeps the writes committed
  before the exception (SQLModel commits each write at once). Lists of rows are in rowid
  order, the order SQLite returns them without ORDER BY. Floats are reals and ints are
  unbounded integers (Python's), the clock is a natural number. Strings are Isabelle
  strings read as Latin-1. The NLTK stopword list, the embedder, the Qdrant cosine score
  and the T5 generator are parameters (\<open>Services\<close>): every theorem holds for all of
  them. Search and recommendation use the code's constants (\<open>k = 50\<close>, threshold 0.3).
  No fuel is needed: every loop of the served code runs over a finite list and is a
  structural recursion or a \<open>fold\<close>; the two unbounded loops, the \<open>while True\<close>
  loops of the seeding script, are \<open>partial_function\<close>s into \<open>option\<close>, and when they
  return (and, for the user loop, when it does not) are theorems. The fixed-count loops
  of the script (100 users, 500 search rounds, 300 recommendation rounds) recurse on
  their count.

  \<^emph>\<open>Not modelled.\<close> The I/O of start-up (\<open>initialize_database\<close>, model downloads,
  reading the weights, \<open>uvicorn\<close>), the CSV file write (the export returns its
  rows), \<open>return_as_dict\<close> (both branches return the same products),
  the internals of the embedder and the generator, \<open>constants.py\<close> (file paths and
  model names), and the distribution of Python's random generator: a draw is any natural
  number of the stream, so the theorems hold for every sequence of draws. The seeding
  script's user and search-history rounds are not steps of \<open>System\<close> (a round may not
  return, which a step function cannot express); its recommendation rounds are.
\<close>

section \<open>Example data\<close>

text \<open>A catalog of two products of category Tech, a laptop in stock and a mouse out of
  stock, both embedded; three users (7 and 8 with a profile, 9 without); three
  recommendations, 1 and 2 for user 7, 3 for user 8. The services embed a text as
  itself, score equal texts 1 and others 0.5, know the stopwords \<open>the\<close> and
  \<open>and\<close>, and answer the model's prompt with \<open>laptop\<close> (or \<open>Tablet\<close>, which names
  no product).\<close>

definition ex_sv :: "string Services" where
  "ex_sv = \<lparr>generate_embedding = id, similarity = (\<lambda>a b. if a = b then 1 else 0.5),
     stop_words = [''the'', ''and''], make_inference_on_model = (\<lambda>q. '' laptop '')\<rparr>"
definition ex_sv_bad :: "string Services" where
  "ex_sv_bad = ex_sv\<lparr>make_inference_on_model := (\<lambda>q. ''Tablet'')\<rparr>"
definition ex_tech :: Category where
  "ex_tech = \<lparr>category_id = 1, cat_name = ''Tech'', cat_description = None, c_created_at = 0, c_updated_at = 0\<rparr>"
definition ex_laptop :: Product where
  "ex_laptop = \<lparr>product_id = 1, p_category_id = 1, p_name = ''Laptop'', p_description = Some ''Gaming laptop'',
     price = 1000, stock = 5, p_created_at = 0, p_updated_at = 0\<rparr>"
definition ex_mouse :: Product where
  "ex_mouse = \<lparr>product_id = 2, p_category_id = 1, p_name = ''Mouse'', p_description = Some ''Wireless mouse'',
     price = 20, stock = 0, p_created_at = 0, p_updated_at = 0\<rparr>"
definition ex_user7 :: User where
  "ex_user7 = \<lparr>user_id = 7, email = ''u7@example.com'', profile_description = Some ''I love gaming laptops'',
     u_created_at = 0, u_updated_at = 0\<rparr>"
definition ex_user8 :: User where
  "ex_user8 = \<lparr>user_id = 8, email = ''u8@example.com'', profile_description = Some ''wireless gear'',
     u_created_at = 0, u_updated_at = 0\<rparr>"
definition ex_user9 :: User where
  "ex_user9 = \<lparr>user_id = 9, email = ''u9@example.com'', profile_description = None,
     u_created_at = 0, u_updated_at = 0\<rparr>"
definition ex_tables :: Tables where
  "ex_tables = \<lparr>users = [ex_user7, ex_user8, ex_user9], categories = [ex_tech],
     products = [ex_laptop, ex_mouse], search_history = [],
     recommendations =
       [\<lparr>recommendation_id = 1, r_user_id = 7, r_product_id = 1, score = 1, r_created_at = 0\<rparr>,
        \<lparr>recommendation_id = 2, r_user_id = 7, r_product_id = 2, score = 1, r_created_at = 0\<rparr>,
        \<lparr>recommendation_id = 3, r_user_id = 8, r_product_id = 1, score = 1, r_created_at = 0\<rparr>],
     feedbacks = []\<rparr>"
definition ex_db :: "string DB" where
  "ex_db = \<lparr>tables = ex_tables, qdrant_product_database = \<lparr>collection_name = ''product'',
     collections = [(''product'', [(1, product_text ''Laptop'' ''Tech'' ''Gaming laptop''),
                                   (2, product_text ''Mouse'' ''Tech'' ''Wireless mouse'')])]\<rparr>\<rparr>"
definition ex_rated_db :: "string DB" where
  "ex_rated_db = snd (set_recommendation_feedback (snd (set_recommendation_feedback
     (snd (set_recommendation_feedback ex_db 1 7 1 5)) 2 7 2 2)) 3 8 3 4)"

definition ex_rec3 :: Recommendation where
  "ex_rec3 = \<lparr>recommendation_id = 3, r_user_id = 8, r_product_id = 1, score = 1, r_created_at = 0\<rparr>"



definition ex_rec1 :: Recommendation where
  "ex_rec1 = \<lparr>recommendation_id = 1, r_user_id = 7, r_product_id = 1, score = 1, r_created_at = 0\<rparr>"


text \<open>A run of the served system from a fresh database and an empty \<open>product\<close>
  collection: the catalog and two users are created, user 1 asks for a recommendation,
  user 2 rates it, user 1 rates it twice, and the performance summary is read.\<close>

definition ex_server :: "(string \<times> string points) list" where
  "ex_server = [(''product'', [])]"

definition ex_ops :: "(timestamp \<times> op) list" where
  "ex_ops = [(1, Admin (RecordCategory ''Tech'' None)),
             (2, Admin (RecordProduct 1 ''Laptop'' (Some ''Gaming laptop'') 1000 5)),
             (3, Admin (RecordProduct 1 ''Mouse'' (Some ''Wireless mouse'') 20 0)),
             (4, Admin (RecordUser ''u7@example.com'' (Some ''I love gaming laptops''))),
             (5, Admin (RecordUser ''u8@example.com'' (Some ''wireless gear''))),
             (6, Request (RecommendProduct 1)),
             (7, Request (SetRecommendationFeedback 2 1 4)),
             (8, Request (SetRecommendationFeedback 1 1 5)),
             (9, Request (SetRecommendationFeedback 1 1 3)),
             (10, Request GetRecommendationPerformance)]"

definition ex_final_db :: "string DB" where
  "ex_final_db = snd (run_trace ex_sv (init_db ex_server) ex_ops)"


text \<open>Draws of the seeding script's user loop that run through the hundred name pairs
  in order.\<close>

definition ex_draws :: "user_draw stream" where
  "ex_draws = smap (\<lambda>i. \<lparr>first_pick = i div 10, last_pick = i mod 10, coin = 0.5,
                          interest_pick1 = i, interest_pick2 = i + 1\<rparr>) (fromN 0)"

text \<open>Draws of two search-history rounds: the first draws user 7 (\<open>randint(1, 100)\<close>
  read from 6), whose profile mentions gaming, and a sample of two; the second draws
  user 3, who does not exist.\<close>

definition ex_search_draw :: search_draw where
  "ex_search_draw = \<lparr>sd_users = sconst 6, sd_choices = id, sd_count = 1, sd_position = id\<rparr>"

definition ex_search_draws :: "search_draw stream" where
  "ex_search_draws = ex_search_draw ## sconst (ex_search_draw\<lparr>sd_users := sconst 2\<rparr>)"

section \<open>Properties across components\<close>

text \<open>C5: spec 8: after \<open>update_product\<close> sets a product's stock to 0, the product is
  absent from the results of every search with no \<open>min_stock\<close> (or a non-negative one),
  whichever path would have found it and whether the update itself succeeded.\<close>

theorem out_of_stock_after_update_excluded:
  assumes search: "search_product sv (snd (update_product sv db now pid c n d pr (Some 0))) now' u q mn mx ms v th =
                     (Inr rs, db2)"
    and bound: "case ms of None \<Rightarrow> True | Some m \<Rightarrow> 0 \<le> m"
  shows "pid \<notin> product_id ` set rs"
proof
  assume "pid \<in> product_id ` set rs"
  then obtain p where p: "p \<in> set rs" and pid: "product_id p = pid"
    by blast
  from search_product_member [OF search p] have
    mem: "p \<in> set (products (tables (snd (update_product sv db now pid c n d pr (Some 0)))))"
    and ok: "common_stock_ok ms p"
    by auto
  have "stock p = 0"
    using update_product_stock [OF mem pid] .
  with ok bound show False
    by (auto simp: common_stock_ok_def split: option.splits)
qed

text \<open>C26: when the model's answer names no candidate, the recommendation endpoint
  answers 500 (the code reads \<open>recommended_product_id\<close> before assignment) instead of
  the spec's recoverable Unresolved failure; no Recommendation row is written, but the
  profile has been logged as a search.\<close>

theorem recommend_unresolved_server_error:
  assumes user: "find_user (tables db) uid = Some u"
    and search: "search_product sv db now (Some (SqlInt uid)) (profile_description u) None None None True 0.3 =
                   (Inr cands, db1)"
    and none: "resolve_recommendation (make_inference_on_model sv
                 (engineer_prompt (profile_description u) (history_text (tables db) uid)
                    (py_repr_dict (candidates_dict cands)) False)) cands = None"
  shows "recommend_product sv db now uid = (ServerError UnboundLocalError, db1) \<and>
         recommendations (tables db1) = recommendations (tables db)"
proof -
  have "db1 = snd (search_product sv db now (Some (SqlInt uid)) (profile_description u) None None None True 0.3)"
    using search by simp
  then have "recommendations (tables db1) = recommendations (tables db)"
    by simp
  with assms show ?thesis
    by (simp add: recommend_product_def user_exists_def make_recommendation_for_customer_def Let_def)
qed

text \<open>C27: a user without profile text cannot get a recommendation: the profile search
  logs a history row with a NULL query, SQLite refuses it and the endpoint answers 500
  with nothing written (spec 8 asks that such a user still gets a retrieval call and
  no crash).\<close>

theorem recommend_without_profile_server_error:
  assumes "find_user (tables db) uid = Some u" and "profile_description u = None"
  shows "recommend_product sv db now uid =
           (ServerError (IntegrityError ''NOT NULL constraint failed: searchhistory.query''), db)"
  using assms
  by (simp add: recommend_product_def user_exists_def make_recommendation_for_customer_def
      search_product_def log_search_def record_search_history_def)

subsection \<open>Scenarios\<close>

text \<open>C28: spec 9's open question, decided by the code: a product whose stock equals
  \<open>min_stock\<close> (positive) is rejected by the keyword path (\<open>stock > min_stock\<close>) and
  admitted by the vector path (\<open>stock >= min_stock and stock > 0\<close>): whenever the index
  finds it and it is within the price bounds, an anonymous search returns it although
  its keyword result does not hold it.\<close>

theorem search_min_stock_paths_disagree:
  assumes "search_similar_products (similarity sv) (qdrant_product_database db)
             (generate_embedding sv kw) 50 th = Inr ids"
    and "p \<in> set (products (tables db))" and "product_id p \<in> set ids"
    and "stock p = m" and "0 < m" and "price_ok mn mx p"
  shows "p \<notin> set (keyword_search (clean_text (stop_words sv) kw) mn mx (Some m) (products (tables db))) \<and>
         (\<exists>rs. fst (search_product sv db now None (Some kw) mn mx (Some m) True th) = Inr rs \<and> p \<in> set rs)"
proof
  show "p \<notin> set (keyword_search (clean_text (stop_words sv) kw) mn mx (Some m) (products (tables db)))"
    using assms(4) by (simp add: keyword_search_def keyword_stock_ok_def)
  have "vector_stock_ok (Some m) p"
    using assms(4,5) by (simp add: vector_stock_ok_def)
  then have "p \<in> set (vector_merge (Some m) mn mx
      (keyword_search (clean_text (stop_words sv) kw) mn mx (Some m) (products (tables db)))
      (filter (\<lambda>p. product_id p \<in> set ids) (products (tables db))))"
    using assms(2,3,6) by (intro vector_merge_mem) simp_all
  then show "\<exists>rs. fst (search_product sv db now None (Some kw) mn mx (Some m) True th) = Inr rs \<and> p \<in> set rs"
    using assms(1) by (simp add: search_product_def log_search_def)
qed

text \<open>C29: spec 3 is broken by renaming a category: \<open>update_category\<close> re-embeds none
  of its products, whose derived text names the category, so for an injective embedding
  a successful rename of a category that has a product leaves the index out of sync.\<close>

theorem update_category_breaks_sync:
  assumes "embedding_in_sync sv db" and "inj (generate_embedding sv)"
    and "find_category (tables db) cid = Some c"
    and "p \<in> set (products (tables db))" and "p_category_id p = cid"
    and "n \<noteq> cat_name c"
    and "fst (update_category_db db now cid (Some n) d) = Inr ()"
  shows "\<not> embedding_in_sync sv (snd (update_category_db db now cid (Some n) d))"
proof
  assume sync: "embedding_in_sync sv (snd (update_category_db db now cid (Some n) d))"
  let ?c' = "c\<lparr>cat_name := n, cat_description := (case d of None \<Rightarrow> cat_description c | Some x \<Rightarrow> Some x),
               c_updated_at := now\<rparr>"
  have upd: "snd (update_category_db db now cid (Some n) d) =
      db\<lparr>tables := (tables db)\<lparr>categories :=
        map (\<lambda>e. if category_id e = cid then ?c' else e) (categories (tables db))\<rparr>\<rparr>"
    using assms(3,7) by (auto simp: update_category_db_def update_category_def Let_def)
  have "category_id c = cid"
    using assms(3) by (auto simp: find_category_def dest: find_Some_iff [THEN iffD1])
  then have fc: "find_category (tables (snd (update_category_db db now cid (Some n) d))) cid = Some ?c'"
    using assms(3) by (simp add: upd find_category_def find_map_replace)
  obtain ps where ps: "collection_points (qdrant_product_database db) = Some ps"
    and old: "map_of ps (product_id p) =
      Some (generate_embedding sv (product_text (p_name p) (cat_name c) (py_fstr (p_description p))))"
    using assms(1,3,4,5) by (auto simp: embedding_in_sync_def split: option.splits)
  have "map_of ps (product_id p) =
      Some (generate_embedding sv (product_text (p_name p) n (py_fstr (p_description p))))"
    using sync fc ps assms(4,5) by (auto simp: embedding_in_sync_def upd)
  with old assms(2) have "product_text (p_name p) (cat_name c) (py_fstr (p_description p)) =
      product_text (p_name p) n (py_fstr (p_description p))"
    by (simp add: inj_eq)
  with assms(6) show False
    by (simp add: product_text_def)
qed


section \<open>Witnesses\<close>

text \<open>Each property with a hypothesis, applied to the example data.\<close>

theorem clean_text_tokens_wellformed_witness:
  "clean_text [''the''] ''The Gaming-Laptop!'' = [''gaminglaptop''] \<and>
   is_token [''the''] ''gaminglaptop'' \<and>
   CHR ''%'' \<notin> set ''gaminglaptop'' \<and> CHR ''_'' \<notin> set ''gaminglaptop''"
proof -
  have e: "clean_text [''the''] ''The Gaming-Laptop!'' = [''gaminglaptop'']" by code_simp
  show ?thesis using clean_text_tokens_wellformed [of "[''the'']" "''The Gaming-Laptop!''"] e by simp
qed

theorem search_results_filtered_witness:
  "search_product ex_sv ex_db 0 None (Some ''laptop'') None None None True 0.3 = (Inr [ex_laptop], ex_db) \<and>
   ex_laptop \<in> set (products (tables ex_db)) \<and> price_ok None None ex_laptop \<and> common_stock_ok None ex_laptop"
proof -
  have h: "search_product ex_sv ex_db 0 None (Some ''laptop'') None None None True 0.3 = (Inr [ex_laptop], ex_db)"
    by code_simp
  show ?thesis using h search_results_filtered [OF h] by simp
qed

theorem search_results_distinct_witness:
  "search_product ex_sv ex_db 0 None (Some ''laptop'') None None None True 0.3 = (Inr [ex_laptop], ex_db) \<and>
   distinct (map product_id (products (tables ex_db))) \<and> distinct (map product_id [ex_laptop])"
proof -
  have h: "search_product ex_sv ex_db 0 None (Some ''laptop'') None None None True 0.3 = (Inr [ex_laptop], ex_db)"
    by code_simp
  have d: "distinct (map product_id (products (tables ex_db)))"
    by code_simp
  show ?thesis using h d search_results_distinct [OF h d] by simp
qed

theorem search_keyword_results_first_witness:
  "search_product ex_sv ex_db 0 None (Some ''laptop'') None None None True 0.3 = (Inr [ex_laptop], ex_db) \<and>
   (\<exists>zs. [ex_laptop] = keyword_search (clean_text (stop_words ex_sv) ''laptop'') None None None
           (products (tables ex_db)) @ zs \<and>
         (\<forall>p\<in>set zs. p \<notin> set (keyword_search (clean_text (stop_words ex_sv) ''laptop'') None None None
                                   (products (tables ex_db))) \<and>
                      vector_stock_ok None p \<and> price_ok None None p))"
proof -
  have h: "search_product ex_sv ex_db 0 None (Some ''laptop'') None None None True 0.3 = (Inr [ex_laptop], ex_db)"
    by code_simp
  show ?thesis using h search_keyword_results_first [OF h] by simp
qed

theorem recommendation_written_only_on_success_witness:
  "make_recommendation_for_customer ex_sv_bad ex_db 0 7 =
     (Inl UnboundLocalError, snd (make_recommendation_for_customer ex_sv_bad ex_db 0 7)) \<and>
   recommendations (tables (snd (make_recommendation_for_customer ex_sv_bad ex_db 0 7))) =
     recommendations (tables ex_db) \<and>
   products (tables (snd (make_recommendation_for_customer ex_sv_bad ex_db 0 7))) = products (tables ex_db) \<and>
   feedbacks (tables (snd (make_recommendation_for_customer ex_sv_bad ex_db 0 7))) = feedbacks (tables ex_db) \<and>
   users (tables (snd (make_recommendation_for_customer ex_sv_bad ex_db 0 7))) = users (tables ex_db)"
proof -
  have h: "make_recommendation_for_customer ex_sv_bad ex_db 0 7 =
     (Inl UnboundLocalError, snd (make_recommendation_for_customer ex_sv_bad ex_db 0 7))"
    by code_simp
  show ?thesis by (rule conjI [OF h recommendation_written_only_on_success [OF h]])
qed

theorem recommendation_resolves_to_candidate_witness:
  "make_recommendation_for_customer ex_sv ex_db 0 7 =
     (Inr (1, 4), snd (make_recommendation_for_customer ex_sv ex_db 0 7)) \<and>
   (\<exists>u cands p. find_user (tables ex_db) 7 = Some u \<and>
           fst (search_product ex_sv ex_db 0 (Some (SqlInt 7)) (profile_description u)
                  None None None True 0.3) = Inr cands \<and>
           resolve_recommendation (make_inference_on_model ex_sv
             (engineer_prompt (profile_description u) (history_text (tables ex_db) 7)
                (py_repr_dict (candidates_dict cands)) False)) cands = Some p \<and>
           p \<in> set (products (tables ex_db)) \<and> 0 < stock p \<and> product_id p = 1 \<and>
           4 \<notin> recommendation_id ` set (recommendations (tables ex_db)) \<and>
           recommendations (tables (snd (make_recommendation_for_customer ex_sv ex_db 0 7))) =
             recommendations (tables ex_db) @
             [\<lparr>recommendation_id = 4, r_user_id = 7, r_product_id = 1, score = 1, r_created_at = 0\<rparr>])"
proof -
  have h: "make_recommendation_for_customer ex_sv ex_db 0 7 =
     (Inr (1, 4), snd (make_recommendation_for_customer ex_sv ex_db 0 7))"
    by code_simp
  show ?thesis by (rule conjI [OF h recommendation_resolves_to_candidate [OF h]])
qed

theorem recommendation_logs_profile_witness:
  "find_user (tables ex_db) 7 = Some ex_user7 \<and>
   profile_description ex_user7 = Some ''I love gaming laptops'' \<and>
   search_history (tables (snd (make_recommendation_for_customer ex_sv ex_db 0 7))) =
     [\<lparr>search_id = 1, sh_user_id = SqlInt 7, sh_query = ''I love gaming laptops'', sh_created_at = 0\<rparr>]"
proof -
  have h1: "find_user (tables ex_db) 7 = Some ex_user7"
    by code_simp
  have h2: "profile_description ex_user7 = Some ''I love gaming laptops''"
    by (simp add: ex_user7_def)
  have e: "search_history (tables ex_db) = []"
    by (simp add: ex_db_def ex_tables_def)
  show ?thesis
    using h1 h2 recommendation_logs_profile [OF h1 h2, of ex_sv 0] e by (simp add: next_rowid_def)
qed

theorem export_one_row_per_positive_feedback_witness:
  "generate_dataset_for_llm_fine_tuning ex_sv ex_rated_db 4 =
     (Inr (Some (the (projr (fst (generate_dataset_for_llm_fine_tuning ex_sv ex_rated_db 4))))),
      snd (generate_dataset_for_llm_fine_tuning ex_sv ex_rated_db 4)) \<and>
   list_all2 (\<lambda>f row. \<exists>r p. find_recommendation (tables ex_rated_db) (fb_recommendation_id f) = Some r \<and>
            find_product (tables ex_rated_db) (r_product_id r) = Some p \<and> snd row = p_name p)
     (filter (\<lambda>f. 3 \<le> rating f) (feedbacks (tables ex_rated_db)))
     (the (projr (fst (generate_dataset_for_llm_fine_tuning ex_sv ex_rated_db 4))))"
proof -
  have h: "generate_dataset_for_llm_fine_tuning ex_sv ex_rated_db 4 =
     (Inr (Some (the (projr (fst (generate_dataset_for_llm_fine_tuning ex_sv ex_rated_db 4))))),
      snd (generate_dataset_for_llm_fine_tuning ex_sv ex_rated_db 4))"
    by code_simp
  show ?thesis by (rule conjI [OF h export_one_row_per_positive_feedback [OF h]])
qed

theorem feedback_forbidden_for_other_user_witness:
  "(0 \<le> (4::int) \<and> (4::int) \<le> 5) \<and> find_recommendation (tables ex_db) 3 = Some ex_rec3 \<and>
   (7::int) \<noteq> r_user_id ex_rec3 \<and>
   set_recommendation_feedback ex_db 0 7 3 4 =
     (HttpError 403 ''Given user is not authorized to access or interact with this recommendation.'', ex_db)"
proof -
  have h1: "0 \<le> (4::int) \<and> (4::int) \<le> 5" by simp
  have h2: "find_recommendation (tables ex_db) 3 = Some ex_rec3" by code_simp
  have h3: "(7::int) \<noteq> r_user_id ex_rec3" by (simp add: ex_rec3_def)
  show ?thesis using h1 h2 h3 feedback_forbidden_for_other_user [OF h1 h2 h3, of 0] by simp
qed

theorem feedback_second_attempt_conflict_witness:
  "set_recommendation_feedback ex_db 1 7 1 5 =
     (Ok FeedbackRecorded, snd (set_recommendation_feedback ex_db 1 7 1 5)) \<and> (0 \<le> (3::int) \<and> (3::int) \<le> 5) \<and>
   set_recommendation_feedback (snd (set_recommendation_feedback ex_db 1 7 1 5)) 2 7 1 3 =
     (HttpError 409 ''Feedback for this recommendation has already been submitted.'',
      snd (set_recommendation_feedback ex_db 1 7 1 5))"
proof -
  have h1: "set_recommendation_feedback ex_db 1 7 1 5 =
     (Ok FeedbackRecorded, snd (set_recommendation_feedback ex_db 1 7 1 5))" by code_simp
  have h2: "0 \<le> (3::int) \<and> (3::int) \<le> 5" by simp
  show ?thesis using h1 h2 feedback_second_attempt_conflict [OF h1 h2, of 2] by simp
qed

theorem feedback_first_attempt_recorded_witness:
  "(0 \<le> (5::int) \<and> (5::int) \<le> 5) \<and> find_recommendation (tables ex_db) 1 = Some ex_rec1 \<and>
   7 = r_user_id ex_rec1 \<and> 1 \<notin> fb_recommendation_id ` set (feedbacks (tables ex_db)) \<and>
   set_recommendation_feedback ex_db 1 7 1 5 =
     (Ok FeedbackRecorded, ex_db\<lparr>tables := (tables ex_db)\<lparr>feedbacks :=
        [\<lparr>recommendation_feedback_id = 1, fb_recommendation_id = 1, fb_user_id = 7, rating = 5,
          fb_created_at = 1\<rparr>]\<rparr>\<rparr>)"
proof -
  have h1: "0 \<le> (5::int) \<and> (5::int) \<le> 5" by simp
  have h2: "find_recommendation (tables ex_db) 1 = Some ex_rec1" by code_simp
  have h3: "7 = r_user_id ex_rec1" by (simp add: ex_rec1_def)
  have h4: "1 \<notin> fb_recommendation_id ` set (feedbacks (tables ex_db))"
    by (simp add: ex_db_def ex_tables_def)
  have e: "feedbacks (tables ex_db) = []" by (simp add: ex_db_def ex_tables_def)
  show ?thesis
    using h1 h2 h3 h4 feedback_first_attempt_recorded [OF h1 h2 h3 h4, of 1] e
    by (simp add: next_rowid_def)
qed

theorem record_product_sync_witness:
  "embedding_in_sync ex_sv ex_db \<and> find_category (tables ex_db) 1 = Some ex_tech \<and>
   fst (record_product ex_sv ex_db 0 1 ''Phone'' None 300 3) = Inr () \<and>
   embedding_in_sync ex_sv (snd (record_product ex_sv ex_db 0 1 ''Phone'' None 300 3))"
proof -
  have h1: "embedding_in_sync ex_sv ex_db" by code_simp
  have h2: "find_category (tables ex_db) 1 = Some ex_tech" by code_simp
  show ?thesis using h1 h2 record_product_sync [OF h1 h2] by simp
qed

theorem update_product_sync_witness:
  "embedding_in_sync ex_sv ex_db \<and> find_product (tables ex_db) 1 = Some ex_laptop \<and>
   find_category (tables ex_db) (case None of None \<Rightarrow> p_category_id ex_laptop | Some c \<Rightarrow> c) = Some ex_tech \<and>
   fst (update_product ex_sv ex_db 0 1 None (Some ''Laptop Pro'') (Some ''Gaming'') None None) = Inr () \<and>
   embedding_in_sync ex_sv (snd (update_product ex_sv ex_db 0 1 None (Some ''Laptop Pro'') (Some ''Gaming'') None None))"
proof -
  have h1: "embedding_in_sync ex_sv ex_db" by code_simp
  have h2: "find_product (tables ex_db) 1 = Some ex_laptop" by code_simp
  have h3: "find_category (tables ex_db) (case None of None \<Rightarrow> p_category_id ex_laptop | Some c \<Rightarrow> c) = Some ex_tech"
    by code_simp
  show ?thesis using h1 h2 h3 update_product_sync [OF h1 h2 h3] by simp
qed

theorem clean_text_idempotent_witness:
  "clean_text [''the''] (py_join '' '' (clean_text [''the''] ''The Gaming-Laptop!'')) = [''gaminglaptop'']"
proof -
  have e: "clean_text [''the''] ''The Gaming-Laptop!'' = [''gaminglaptop'']" by code_simp
  show ?thesis using clean_text_idempotent [of "[''the'']" "''The Gaming-Laptop!''"] e by simp
qed

theorem search_appends_history_witness:
  "search_history (tables (snd (search_product ex_sv ex_db 0 (Some (SqlInt 7)) (Some ''laptop'') None None None True 0.3))) =
     [\<lparr>search_id = 1, sh_user_id = SqlInt 7, sh_query = ''laptop'', sh_created_at = 0\<rparr>]"
proof -
  have e: "search_history (tables ex_db) = []" by (simp add: ex_db_def ex_tables_def)
  show ?thesis
    using search_appends_history [of ex_sv ex_db 0 "SqlInt 7" "''laptop''" None None None True "0.3"] e
    by (simp add: next_rowid_def)
qed

theorem out_of_stock_after_update_excluded_witness:
  "search_product ex_sv (snd (update_product ex_sv ex_db 1 1 None None None None (Some 0))) 2 None
      (Some ''laptop'') None None None True 0.3 =
     (Inr [], snd (update_product ex_sv ex_db 1 1 None None None None (Some 0))) \<and>
   (case (None :: int option) of None \<Rightarrow> True | Some m \<Rightarrow> 0 \<le> m) \<and>
   (1::int) \<notin> product_id ` set []"
proof -
  have h: "search_product ex_sv (snd (update_product ex_sv ex_db 1 1 None None None None (Some 0))) 2 None
      (Some ''laptop'') None None None True 0.3 =
     (Inr [], snd (update_product ex_sv ex_db 1 1 None None None None (Some 0)))"
    by code_simp
  have b: "case (None :: int option) of None \<Rightarrow> True | Some m \<Rightarrow> 0 \<le> m" by simp
  show ?thesis using h b out_of_stock_after_update_excluded [OF h b] by simp
qed

theorem search_index_missing_fails_witness:
  "collection_points ((qdrant_product_database ex_db)\<lparr>collections := []\<rparr>) = None \<and>
   fst (search_product ex_sv (ex_db\<lparr>qdrant_product_database := (qdrant_product_database ex_db)\<lparr>collections := []\<rparr>\<rparr>)
          0 None (Some ''laptop'') None None None True 0.3) = Inl (UnexpectedResponse ''Not found'')"
proof -
  have h: "collection_points (qdrant_product_database
             (ex_db\<lparr>qdrant_product_database := (qdrant_product_database ex_db)\<lparr>collections := []\<rparr>\<rparr>)) = None"
    by code_simp
  show ?thesis using search_index_missing_fails [OF h, of ex_sv 0 None "''laptop''"] h by simp
qed

theorem recommend_unresolved_server_error_witness:
  "find_user (tables ex_db) 7 = Some ex_user7 \<and>
   search_product ex_sv_bad ex_db 0 (Some (SqlInt 7)) (profile_description ex_user7) None None None True 0.3 =
     (Inr [ex_laptop], snd (search_product ex_sv_bad ex_db 0 (Some (SqlInt 7)) (profile_description ex_user7)
                              None None None True 0.3)) \<and>
   resolve_recommendation (make_inference_on_model ex_sv_bad
     (engineer_prompt (profile_description ex_user7) (history_text (tables ex_db) 7)
        (py_repr_dict (candidates_dict [ex_laptop])) False)) [ex_laptop] = None \<and>
   recommend_product ex_sv_bad ex_db 0 7 =
     (ServerError UnboundLocalError, snd (search_product ex_sv_bad ex_db 0 (Some (SqlInt 7))
                                         (profile_description ex_user7) None None None True 0.3))"
proof -
  have h1: "find_user (tables ex_db) 7 = Some ex_user7" by code_simp
  have h2: "search_product ex_sv_bad ex_db 0 (Some (SqlInt 7)) (profile_description ex_user7) None None None True 0.3 =
     (Inr [ex_laptop], snd (search_product ex_sv_bad ex_db 0 (Some (SqlInt 7)) (profile_description ex_user7)
                              None None None True 0.3))" by code_simp
  have h3: "resolve_recommendation (make_inference_on_model ex_sv_bad
     (engineer_prompt (profile_description ex_user7) (history_text (tables ex_db) 7)
        (py_repr_dict (candidates_dict [ex_laptop])) False)) [ex_laptop] = None" by code_simp
  show ?thesis using h1 h2 h3 recommend_unresolved_server_error [OF h1 h2 h3] by simp
qed

theorem recommend_without_profile_server_error_witness:
  "find_user (tables ex_db) 9 = Some ex_user9 \<and> profile_description ex_user9 = None \<and>
   recommend_product ex_sv ex_db 0 9 =
     (ServerError (IntegrityError ''NOT NULL constraint failed: searchhistory.query''), ex_db)"
proof -
  have h1: "find_user (tables ex_db) 9 = Some ex_user9" by code_simp
  have h2: "profile_description ex_user9 = None" by (simp add: ex_user9_def)
  show ?thesis using h1 h2 recommend_without_profile_server_error [OF h1 h2, of ex_sv 0] by simp
qed

theorem update_category_breaks_sync_witness:
  "embedding_in_sync ex_sv ex_db \<and> inj (generate_embedding ex_sv) \<and>
   find_category (tables ex_db) 1 = Some ex_tech \<and> ex_laptop \<in> set (products (tables ex_db)) \<and>
   p_category_id ex_laptop = 1 \<and> ''Gadgets'' \<noteq> cat_name ex_tech \<and>
   fst (update_category_db ex_db 1 1 (Some ''Gadgets'') None) = Inr () \<and>
   \<not> embedding_in_sync ex_sv (snd (update_category_db ex_db 1 1 (Some ''Gadgets'') None))"
proof -
  have h1: "embedding_in_sync ex_sv ex_db" by code_simp
  have h2: "inj (generate_embedding ex_sv)" by (simp add: ex_sv_def)
  have h3: "find_category (tables ex_db) 1 = Some ex_tech" by code_simp
  have h4: "ex_laptop \<in> set (products (tables ex_db))" by (simp add: ex_db_def ex_tables_def)
  have h5: "p_category_id ex_laptop = 1" by (simp add: ex_laptop_def)
  have h6: "''Gadgets'' \<noteq> cat_name ex_tech" by (simp add: ex_tech_def)
  have h7: "fst (update_category_db ex_db 1 1 (Some ''Gadgets'') None) = Inr ()" by code_simp
  show ?thesis
    using h1 h2 h3 h4 h5 h6 h7 update_category_breaks_sync [OF h1 h2 h3 h4 h5 h6 h7] by simp
qed

theorem search_min_stock_paths_disagree_witness:
  "search_similar_products (similarity ex_sv) (qdrant_product_database ex_db)
     (generate_embedding ex_sv ''laptop'') 50 0.3 = Inr [1, 2] \<and>
   ex_laptop \<in> set (products (tables ex_db)) \<and> product_id ex_laptop \<in> set [1, 2] \<and>
   stock ex_laptop = 5 \<and> (0::int) < 5 \<and> price_ok None None ex_laptop \<and>
   ex_laptop \<notin> set (keyword_search (clean_text (stop_words ex_sv) ''laptop'') None None (Some 5)
                          (products (tables ex_db))) \<and>
   (\<exists>rs. fst (search_product ex_sv ex_db 0 None (Some ''laptop'') None None (Some 5) True 0.3) = Inr rs \<and>
          ex_laptop \<in> set rs)"
proof -
  have h1: "search_similar_products (similarity ex_sv) (qdrant_product_database ex_db)
     (generate_embedding ex_sv ''laptop'') 50 0.3 = Inr [1, 2]" by code_simp
  have h2: "ex_laptop \<in> set (products (tables ex_db))" by (simp add: ex_db_def ex_tables_def)
  have h3: "product_id ex_laptop \<in> set [1, 2]" by (simp add: ex_laptop_def)
  have h4: "stock ex_laptop = 5" by (simp add: ex_laptop_def)
  have h5: "(0::int) < 5" by simp
  have h6: "price_ok None None ex_laptop" by (simp add: price_ok_def)
  show ?thesis
    using h1 h2 h3 h4 h5 h6 search_min_stock_paths_disagree [OF h1 h2 h3 h4 h5 h6, of 0] by simp
qed


theorem update_product_embeds_parameters_witness:
  "collection_points (qdrant_product_database ex_db) =
     Some [(1, product_text ''Laptop'' ''Tech'' ''Gaming laptop''),
           (2, product_text ''Mouse'' ''Tech'' ''Wireless mouse'')] \<and>
   find_product (tables ex_db) 1 = Some ex_laptop \<and>
   find_category (tables ex_db) (case None of None \<Rightarrow> p_category_id ex_laptop | Some c \<Rightarrow> c) = Some ex_tech \<and>
   fst (update_product ex_sv ex_db 1 1 None None None (Some 900) None) = Inr () \<and>
   map_option (\<lambda>ps. map_of ps 1)
     (collection_points (qdrant_product_database (snd (update_product ex_sv ex_db 1 1 None None None (Some 900) None)))) =
   Some (Some (product_text ''None'' ''Tech'' ''None''))"
proof -
  have h1: "collection_points (qdrant_product_database ex_db) =
     Some [(1, product_text ''Laptop'' ''Tech'' ''Gaming laptop''),
           (2, product_text ''Mouse'' ''Tech'' ''Wireless mouse'')]" by code_simp
  have h2: "find_product (tables ex_db) 1 = Some ex_laptop" by code_simp
  have h3: "find_category (tables ex_db) (case None of None \<Rightarrow> p_category_id ex_laptop | Some c \<Rightarrow> c) = Some ex_tech"
    by code_simp
  show ?thesis
    using h1 h2 h3 update_product_embeds_parameters [OF h1 h2 h3, of ex_sv 1 None None "Some 900" None]
    by (simp add: ex_sv_def ex_tech_def)
qed

theorem reachable_keys_unique_witness:
  "reachable ex_sv ex_server ex_final_db \<and>
   distinct (map fb_recommendation_id (feedbacks (tables ex_final_db))) \<and>
   map fb_recommendation_id (feedbacks (tables ex_final_db)) = [1]"
proof -
  have h: "reachable ex_sv ex_server ex_final_db"
    unfolding ex_final_db_def by (rule reachable_run_trace [OF reachable.start])
  have e: "map fb_recommendation_id (feedbacks (tables ex_final_db)) = [1]"
    by code_simp
  show ?thesis using h e reachable_keys_unique [OF h] by simp
qed

theorem reachable_feedback_by_owner_witness:
  "reachable ex_sv ex_server ex_final_db \<and>
   \<lparr>recommendation_feedback_id = 1, fb_recommendation_id = 1, fb_user_id = 1, rating = 5,
     fb_created_at = 8\<rparr> \<in> set (feedbacks (tables ex_final_db)) \<and>
   (\<exists>r\<in>set (recommendations (tables ex_final_db)). recommendation_id r = 1 \<and> r_user_id r = 1)"
proof -
  have h: "reachable ex_sv ex_server ex_final_db"
    unfolding ex_final_db_def by (rule reachable_run_trace [OF reachable.start])
  have f: "\<lparr>recommendation_feedback_id = 1, fb_recommendation_id = 1, fb_user_id = 1, rating = 5,
     fb_created_at = 8\<rparr> \<in> set (feedbacks (tables ex_final_db))"
    by code_simp
  show ?thesis using h f reachable_feedback_by_owner [OF h f] by simp
qed

theorem reachable_recommendation_refs_witness:
  "reachable ex_sv ex_server ex_final_db \<and>
   \<lparr>recommendation_id = 1, r_user_id = 1, r_product_id = 1, score = 1, r_created_at = 6\<rparr>
     \<in> set (recommendations (tables ex_final_db)) \<and>
   (\<exists>u\<in>set (users (tables ex_final_db)). user_id u = 1) \<and>
   (\<exists>p\<in>set (products (tables ex_final_db)). product_id p = 1)"
proof -
  have h: "reachable ex_sv ex_server ex_final_db"
    unfolding ex_final_db_def by (rule reachable_run_trace [OF reachable.start])
  have r: "\<lparr>recommendation_id = 1, r_user_id = 1, r_product_id = 1, score = 1, r_created_at = 6\<rparr>
     \<in> set (recommendations (tables ex_final_db))"
    by code_simp
  show ?thesis using h r reachable_recommendation_refs [OF h r] by simp
qed

theorem seed_catalog_in_sync_witness:
  "categories (tables (init_db ex_server)) = [] \<and> embedding_in_sync ex_sv (init_db ex_server) \<and>
   fst (generate_categories (init_db ex_server) 1) = Inr () \<and>
   fst (generate_products ex_sv (snd (generate_categories (init_db ex_server) 1)) 2) = Inr () \<and>
   length (products (tables (snd (generate_products ex_sv (snd (generate_categories (init_db ex_server) 1)) 2)))) = 50 \<and>
   embedding_in_sync ex_sv (snd (generate_products ex_sv (snd (generate_categories (init_db ex_server) 1)) 2))"
proof -
  have h1: "categories (tables (init_db ex_server)) = []"
    by (simp add: init_db_def empty_tables_def)
  have h2: "embedding_in_sync ex_sv (init_db ex_server)"
    by code_simp
  show ?thesis
    using h1 h2 seed_catalog_in_sync [OF h1 h2, of 1 2] by simp
qed

theorem generate_users_101_diverges_witness:
  "users empty_tables = [] \<and> generate_users_n 101 empty_tables 0 ex_draws = None"
proof -
  have h: "users empty_tables = []"
    by (simp add: empty_tables_def)
  show ?thesis
    using h generate_users_101_diverges [OF h, of 0 ex_draws] by simp
qed

theorem reachable_search_distinct_witness:
  "reachable ex_sv ex_server ex_final_db \<and>
   search_product ex_sv ex_final_db 11 None (Some ''laptop'') None None None True 0.3 =
     (Inr (projr (fst (search_product ex_sv ex_final_db 11 None (Some ''laptop'') None None None True 0.3))),
      snd (search_product ex_sv ex_final_db 11 None (Some ''laptop'') None None None True 0.3)) \<and>
   distinct (map product_id
     (projr (fst (search_product ex_sv ex_final_db 11 None (Some ''laptop'') None None None True 0.3))))"
proof -
  have h1: "reachable ex_sv ex_server ex_final_db"
    unfolding ex_final_db_def by (rule reachable_run_trace [OF reachable.start])
  have h2: "search_product ex_sv ex_final_db 11 None (Some ''laptop'') None None None True 0.3 =
     (Inr (projr (fst (search_product ex_sv ex_final_db 11 None (Some ''laptop'') None None None True 0.3))),
      snd (search_product ex_sv ex_final_db 11 None (Some ''laptop'') None None None True 0.3))"
    by code_simp
  show ?thesis
    using h1 h2 reachable_search_distinct [OF h1 h2] by simp
qed

lemma ex_search_round1:
  "generate_search_history_round ex_tables 0 ex_search_draw = Some (Inr (), record_search_queries ex_tables 0 7 [''Video Games'', ''Gaming Mouse''])"
proof -
  have u: "search_user_loop (sd_users ex_search_draw) = Some 7"
    using search_user_loop_shd [of "sd_users ex_search_draw"]
    by (simp add: ex_search_draw_def randint_def exclude_user_ids_def)
  have f: "find_user ex_tables 7 = Some ex_user7"
    by code_simp
  have q: "round_searches ex_search_draw ''I love gaming laptops'' = Inr [''Video Games'', ''Gaming Mouse'']"
    unfolding round_searches_def ex_search_draw_def search_draw.select_convs by code_simp
  show ?thesis
    using u f q by (simp add: generate_search_history_round_def ex_user7_def)
qed

lemma ex_search_round2:
  "generate_search_history_round (record_search_queries ex_tables 0 7 [''Video Games'', ''Gaming Mouse'']) 0 (ex_search_draw\<lparr>sd_users := sconst 2\<rparr>) =
     Some (Inl TypeError, record_search_queries ex_tables 0 7 [''Video Games'', ''Gaming Mouse''])"
proof -
  have u: "search_user_loop (sconst 2) = Some 3"
    using search_user_loop_shd [of "sconst 2"] by (simp add: randint_def exclude_user_ids_def)
  have f: "find_user (record_search_queries ex_tables 0 7 [''Video Games'', ''Gaming Mouse'']) 3 = None"
    by code_simp
  show ?thesis
    using u f by (simp add: generate_search_history_round_def del: record_search_queries.simps)
qed


theorem generate_search_histories_excluded_witness:
  "generate_search_histories ex_tables 0 ex_search_draws = Some (Inl TypeError, record_search_queries ex_tables 0 7 [''Video Games'', ''Gaming Mouse'']) \<and>
   (10::int) \<in> set exclude_user_ids \<and>
   user_search_queries (record_search_queries ex_tables 0 7 [''Video Games'', ''Gaming Mouse'']) 10 = user_search_queries ex_tables 10"
proof -
  have h: "generate_search_histories ex_tables 0 ex_search_draws = Some (Inl TypeError, record_search_queries ex_tables 0 7 [''Video Games'', ''Gaming Mouse''])"
  proof -
    have r: "generate_search_histories_n (Suc (Suc m)) ex_tables 0 ex_search_draws =
        Some (Inl TypeError, record_search_queries ex_tables 0 7 [''Video Games'', ''Gaming Mouse''])" for m
      by (simp add: ex_search_draws_def ex_search_round1 ex_search_round2
          del: record_search_queries.simps)
    show ?thesis
      using r [of 498] by (simp add: generate_search_histories_def)
  qed
  have x: "(10::int) \<in> set exclude_user_ids"
    by (simp add: exclude_user_ids_def)
  show ?thesis
    using h x generate_search_histories_excluded [OF h x] by simp
qed

end
